theory Spec2Isabelle
  imports Complex_Main
begin

section \<open>Python values used by the drive inventory\<close>

text \<open>
  Strings are lists of characters and are read as ASCII text: \<open>lower\<close> maps
  \<open>A\<close>..\<open>Z\<close> to \<open>a\<close>..\<open>z\<close> and leaves every other character alone, which is what
  \<open>str.lower\<close> does on ASCII input.
\<close>

definition lower_char :: "char \<Rightarrow> char" where
  "lower_char c =
     (let n = (of_char c :: nat) in if 65 \<le> n \<and> n \<le> 90 then char_of (n + 32) else c)"

definition lower :: "string \<Rightarrow> string" where
  "lower s = map lower_char s"

text \<open>The kinds of exception that the modelled code can meet.\<close>

datatype exc_kind =
    CalledProcessError | FileNotFoundError | JSONDecodeError
  | AttributeError | KeyError | TypeError | ValueError | IndexError | OtherError

text \<open>
  What \<open>json.loads\<close> returns. A JSON object is the dict in insertion order; its keys are
  distinct, so \<open>map_of\<close> is the lookup. The value of a number is never inspected by the
  code below.
\<close>

datatype json =
    JNull | JBool bool | JNum rat | JStr string
  | JArr "json list" | JObj "(string \<times> json) list"

definition dict_get :: "(string \<times> json) list \<Rightarrow> string \<Rightarrow> json \<Rightarrow> json" where
  \<comment> \<open>\<open>d.get(k, dflt)\<close>: a key that is present with the value \<open>null\<close> gives \<open>None\<close>, not the default.\<close>
  "dict_get d k dflt = (case map_of d k of None \<Rightarrow> dflt | Some v \<Rightarrow> v)"

section \<open>DriveInfo.get_drives\<close>

text \<open>
  The dict appended for every block device of type disk (lines 49 to 60); its key
  \<open>size\<close> is the field \<open>drive_size\<close>.
\<close>

record drive =
  name :: string
  display_name :: json
  drive_size :: json
  model :: json
  transport :: string
  rotational :: json
  is_nvme :: bool
  is_removable :: json
  is_hotplug :: json
  is_usb :: bool

text \<open>
  The outcome of \<open>subprocess.run(["lsblk", ...], check=True)\<close> followed by
  \<open>json.loads(result.stdout)\<close>: the run raises (a non-zero exit under \<open>check=True\<close>, a
  missing executable), or the output is not JSON, or it parses to a value.
\<close>

datatype lsblk_outcome = RunRaised exc_kind | NotJson string | Parsed json

fun contains :: "string \<Rightarrow> string \<Rightarrow> bool" where
  \<comment> \<open>\<open>contains needle hay\<close> is Python's \<open>needle in hay\<close> on strings.\<close>
  "contains needle [] = (needle = [])"
| "contains needle (c # cs) = (take (length needle) (c # cs) = needle \<or> contains needle cs)"

text \<open>
  One pass of the loop body (lines 48 to 60). \<open>device.get\<close> exists on dicts only;
  \<open>device['name']\<close> raises KeyError on a missing key; \<open>.lower()\<close> exists on strings
  only, so a name or a transport that is present and not a string (\<open>null\<close> included)
  raises AttributeError. \<open>Inr None\<close> is a device that is not a disk.
\<close>

definition make_drive :: "json \<Rightarrow> exc_kind + drive option" where
  "make_drive device =
     (case device of
        JObj d \<Rightarrow>
          if dict_get d ''type'' JNull = JStr ''disk'' then
            (case map_of d ''name'' of
               None \<Rightarrow> Inl KeyError
             | Some nm \<Rightarrow>
                 (case nm of
                    JStr n \<Rightarrow>
                      (case dict_get d ''tran'' (JStr []) of
                         JStr t \<Rightarrow>
                           Inr (Some \<lparr> name = ''/dev/'' @ n,
                                       display_name = dict_get d ''name'' (JStr ''Unknown''),
                                       drive_size = dict_get d ''size'' (JStr ''Unknown''),
                                       model = dict_get d ''model'' (JStr ''Unknown Drive''),
                                       transport =
                                         (case map_of d ''tran'' of None \<Rightarrow> ''Unknown'' | Some _ \<Rightarrow> t),
                                       rotational = dict_get d ''rota'' (JBool False),
                                       is_nvme = contains ''nvme'' (lower n),
                                       is_removable = dict_get d ''rm'' (JBool False),
                                       is_hotplug = dict_get d ''hotplug'' (JBool False),
                                       is_usb = (lower t = ''usb'') \<rparr>)
                       | _ \<Rightarrow> Inl AttributeError)
                  | _ \<Rightarrow> Inl AttributeError))
          else Inr None
      | _ \<Rightarrow> Inl AttributeError)"

text \<open>
  \<open>for device in data.get('blockdevices', [])\<close>: a list gives its elements, a string its
  characters, a dict its keys; anything else is not iterable.
\<close>

definition iter_items :: "json \<Rightarrow> exc_kind + json list" where
  "iter_items v =
     (case v of
        JArr xs \<Rightarrow> Inr xs
      | JStr s \<Rightarrow> Inr (map (\<lambda>c. JStr [c]) s)
      | JObj kvs \<Rightarrow> Inr (map (\<lambda>kv. JStr (fst kv)) kvs)
      | _ \<Rightarrow> Inl TypeError)"

fun collect_drives :: "json list \<Rightarrow> drive list \<Rightarrow> exc_kind + drive list" where
  "collect_drives [] drives = Inr drives"
| "collect_drives (device # rest) drives =
     (case make_drive device of
        Inl e \<Rightarrow> Inl e
      | Inr None \<Rightarrow> collect_drives rest drives
      | Inr (Some d) \<Rightarrow> collect_drives rest (drives @ [d]))"

text \<open>The body of the \<open>try\<close> block (lines 39 to 62).\<close>

definition get_drives_try :: "lsblk_outcome \<Rightarrow> exc_kind + drive list" where
  "get_drives_try q =
     (case q of
        RunRaised e \<Rightarrow> Inl e
      | NotJson _ \<Rightarrow> Inl JSONDecodeError
      | Parsed data \<Rightarrow>
          (case data of
             JObj d \<Rightarrow>
               (case iter_items (dict_get d ''blockdevices'' (JArr [])) of
                  Inl e \<Rightarrow> Inl e
                | Inr devices \<Rightarrow> collect_drives devices [])
           | _ \<Rightarrow> Inl AttributeError))"

text \<open>
  \<open>get_drives\<close> with its handler \<open>except Exception: ... return []\<close>. The handler also
  prints a line; the printed text is not part of the returned value. \<open>Inl\<close> would be an
  exception that reaches the caller.
\<close>

definition get_drives :: "lsblk_outcome \<Rightarrow> exc_kind + drive list" where
  "get_drives q = (case get_drives_try q of Inl e \<Rightarrow> Inr [] | Inr drives \<Rightarrow> Inr drives)"

section \<open>DriveInfo.filter_drives\<close>

fun filter_drives_loop ::
  "drive list \<Rightarrow> drive list \<Rightarrow> drive list \<Rightarrow> drive list \<times> drive list" where
  "filter_drives_loop [] main_drives usb_drives = (main_drives, usb_drives)"
| "filter_drives_loop (d # rest) main_drives usb_drives =
     (if is_usb d \<and> lower (transport d) = ''usb''
      then filter_drives_loop rest main_drives (usb_drives @ [d])
      else filter_drives_loop rest (main_drives @ [d]) usb_drives)"

definition filter_drives :: "drive list \<Rightarrow> bool \<Rightarrow> drive list \<times> drive list" where
  \<comment> \<open>The parameter \<open>show_usb\<close> is never read.\<close>
  "filter_drives drives show_usb = filter_drives_loop drives [] []"

section \<open>BenchmarkWizard: the dd block count\<close>

text \<open>
  \<open>str(n)\<close> for an integer.
\<close>

fun str_nat :: "nat \<Rightarrow> string" where
  "str_nat n =
     (if n < 10 then [char_of (48 + n)] else str_nat (n div 10) @ [char_of (48 + n mod 10)])"

declare str_nat.simps [simp del]

definition str_int :: "int \<Rightarrow> string" where
  "str_int i = (if i < 0 then CHR ''-'' # str_nat (nat (- i)) else str_nat (nat i))"

text \<open>
  \<open>float(s)\<close> on plain decimal literals: an optional sign, digits, at most one point,
  at least one digit. On these the value is the exact decimal value (what the double
  holds whenever it is representable, as every integer below \<open>2 ^ 53\<close> is), and every
  other string of digits, points and signs raises ValueError, the empty string included.
  Python also accepts an exponent, underscores, surrounding blanks and \<open>inf\<close>/\<open>nan\<close>;
  those spellings are outside this model and no statement below is about them.
\<close>

definition digit_val :: "char \<Rightarrow> nat option" where
  "digit_val c =
     (let n = (of_char c :: nat) in if 48 \<le> n \<and> n \<le> 57 then Some (n - 48) else None)"

fun digits_value :: "string \<Rightarrow> nat \<Rightarrow> nat option" where
  "digits_value [] acc = Some acc"
| "digits_value (c # cs) acc =
     (case digit_val c of None \<Rightarrow> None | Some d \<Rightarrow> digits_value cs (10 * acc + d))"

definition unsigned_decimal :: "string \<Rightarrow> rat option" where
  "unsigned_decimal s =
     (let ip = takeWhile (\<lambda>c. c \<noteq> CHR ''.'') s;
          fp = (case dropWhile (\<lambda>c. c \<noteq> CHR ''.'') s of [] \<Rightarrow> [] | _ # f \<Rightarrow> f)
      in if ip = [] \<and> fp = [] then None
         else (case (digits_value ip 0, digits_value fp 0) of
                 (Some i, Some f) \<Rightarrow> Some (of_nat i + of_nat f / 10 ^ length fp)
               | _ \<Rightarrow> None))"

definition py_float :: "string \<Rightarrow> exc_kind + rat" where
  "py_float s =
     (case (case s of
              c # r \<Rightarrow>
                if c = CHR ''-'' then map_option uminus (unsigned_decimal r)
                else if c = CHR ''+'' then unsigned_decimal r
                else unsigned_decimal s
            | [] \<Rightarrow> None) of
        None \<Rightarrow> Inl ValueError
      | Some x \<Rightarrow> Inr x)"

definition py_int :: "rat \<Rightarrow> int" where
  \<comment> \<open>\<open>int(x)\<close> on a float truncates towards zero.\<close>
  "py_int x = (if 0 \<le> x then \<lfloor>x\<rfloor> else \<lceil>x\<rceil>)"

definition endswith :: "string \<Rightarrow> string \<Rightarrow> bool" where
  "endswith s suffix =
     (length suffix \<le> length s \<and> drop (length s - length suffix) s = suffix)"

definition scaled_count :: "string \<Rightarrow> rat \<Rightarrow> exc_kind + string" where
  \<comment> \<open>\<open>str(int(float(text) * factor))\<close>\<close>
  "scaled_count text factor =
     (case py_float text of Inl e \<Rightarrow> Inl e | Inr x \<Rightarrow> Inr (str_int (py_int (x * factor))))"

text \<open>
  Lines 3614 to 3622 of \<open>BenchmarkWizard._on_next\<close>, where \<open>size\<close> is the stripped
  text of the size entry. Line 3616 computes a first \<open>count\<close> from \<open>size[:-1]\<close>
  whatever the suffix is; lines 3617 to 3622 then assign \<open>count\<close> again by suffix. An
  exception of line 3616 leaves the handler, so the later lines are not reached.
  \<open>butlast\<close> is \<open>size[:-1]\<close>, the empty string for the empty string.
\<close>

definition block_count :: "string \<Rightarrow> exc_kind + string" where
  "block_count sz =
     (case (if endswith (lower sz) ''g'' then scaled_count (butlast sz) 1024
            else scaled_count (butlast sz) 1) of
        Inl e \<Rightarrow> Inl e
      | Inr first_count \<Rightarrow>
          if endswith (lower sz) ''g'' then scaled_count (butlast sz) 1024
          else if endswith (lower sz) ''m'' then scaled_count (butlast sz) 1
          else Inr ''1024'')"

section \<open>RaidWizard._run_raid_creation\<close>

text \<open>The dicts returned by \<open>RaidManager.get_raid_arrays\<close>, one for each array of /proc/mdstat.\<close>

record raid_array =
  raid_name :: string
  raid_level :: string
  raid_status :: string
  raid_devices :: "string list"

text \<open>
  \<open>shlex.quote\<close>: the empty string becomes two quotes, a string of letters, digits and
  \<open>_@%+=:,./-\<close> is returned as it is, any other string is wrapped in single quotes
  with every single quote inside spelled \<open>'"'"'\<close>.
\<close>

definition safe_char :: "char \<Rightarrow> bool" where
  "safe_char c =
     (let n = (of_char c :: nat)
      in (48 \<le> n \<and> n \<le> 57) \<or> (65 \<le> n \<and> n \<le> 90) \<or> (97 \<le> n \<and> n \<le> 122)
         \<or> c \<in> set ''_@%+=:,./-'')"

definition shlex_quote :: "string \<Rightarrow> string" where
  "shlex_quote s =
     (if s = [] then [CHR 0x27, CHR 0x27]
      else if list_all safe_char s then s
      else [CHR 0x27]
           @ concat (map (\<lambda>c. if c = CHR 0x27
                                then [CHR 0x27, CHR 0x22, CHR 0x27, CHR 0x22, CHR 0x27]
                                else [c]) s)
           @ [CHR 0x27])"

text \<open>
  The command list built for the detected terminal emulator, and the pause appended to
  every shell command that is run in it.
\<close>

definition terminal_command :: "string \<Rightarrow> string \<Rightarrow> string list" where
  "terminal_command term shell_cmd =
     (if contains ''gnome-terminal'' term \<or> contains ''xfce4-terminal'' term
         \<or> contains ''lxterminal'' term
      then [term, ''--'', ''bash'', ''-c'', shell_cmd]
      else if contains ''konsole'' term then [term, ''-e'', ''bash'', ''-c'', shell_cmd]
      else [term, ''-e'', ''bash'', ''-c'', shell_cmd])"

definition press_any_key :: string where
  "press_any_key = ''; read -n 1 -s -r -p 'Press any key to close...'' @ [CHR 0x27]"

text \<open>
  \<open>subprocess.run(cmd, check=True)\<close> returns, or raises an exception \<open>e\<close> (a non-zero
  exit included) of which the code reads only \<open>str(e)\<close>.
\<close>

datatype checked_run = Returned | Raised exc_kind string

text \<open>The \<open>for ... else\<close> loop of lines 1463 to 1468 over \<open>range(0, 10)\<close>.\<close>

fun pick_array_name :: "nat list \<Rightarrow> string set \<Rightarrow> string" where
  "pick_array_name [] used_names = ''md10''"
| "pick_array_name (i # rest) used_names =
     (let array_name = ''md'' @ str_nat i
      in if ''/dev/'' @ array_name \<notin> used_names then array_name
         else pick_array_name rest used_names)"

definition format_level :: "int option \<Rightarrow> string" where
  \<comment> \<open>\<open>f"{level}"\<close> for \<open>self.selected_level\<close>, which is \<open>None\<close>, 0 or 1.\<close>
  "format_level level = (case level of None \<Rightarrow> ''None'' | Some l \<Rightarrow> str_int l)"

text \<open>
  What the worker thread does: the command it launches (if any) and the arguments of
  the \<open>_show_raid_result\<close> call it schedules. \<open>devices[1]\<close> on a shorter list raises
  IndexError inside the thread.
\<close>

record raid_creation =
  creation_cmd :: "string list option"
  success :: bool
  msg :: string

definition run_raid_creation ::
  "raid_array list \<Rightarrow> string option \<Rightarrow> int option \<Rightarrow> string list \<Rightarrow> checked_run
     \<Rightarrow> exc_kind + raid_creation" where
  "run_raid_creation arrays detected level devices run =
     (let used_names = set (map raid_name arrays);
          array_name = pick_array_name [0..<10] used_names
      in case detected of
           None \<Rightarrow>
             Inr \<lparr>creation_cmd = None, success = False,
                  msg = ''No supported terminal emulator found. Please install gnome-terminal, xterm, or similar.''\<rparr>
         | Some term \<Rightarrow>
             (case devices of
                d0 # d1 # _ \<Rightarrow>
                  (let mdadm_cmd = ''sudo mdadm --create /dev/'' @ array_name
                         @ '' --level='' @ format_level level @ '' --raid-devices=2 ''
                         @ shlex_quote d0 @ '' '' @ shlex_quote d1 @ press_any_key;
                       cmd = terminal_command term mdadm_cmd
                   in case run of
                        Returned \<Rightarrow>
                          Inr \<lparr>creation_cmd = Some cmd, success = True,
                               msg = ''RAID array /dev/'' @ array_name
                                     @ '' created (check terminal for details)''\<rparr>
                      | Raised k text \<Rightarrow>
                          Inr \<lparr>creation_cmd = Some cmd, success = False,
                               msg = ''Failed to create RAID array: '' @ text\<rparr>)
              | _ \<Rightarrow> Inl IndexError))"

section \<open>DriveInfo.get_technical_details\<close>

text \<open>
  The dict \<open>details\<close>. A field is \<open>None\<close> while its key is absent; for the keys filled
  from lsblk, \<open>Some JNull\<close> is a key that holds \<open>None\<close>. The key \<open>error\<close> holds
  \<open>str(e)\<close> of the exception caught at line 308; the model keeps which exception it was.
\<close>

record tech_details =
  t_rotation :: "json option"
  t_partition_table :: "json option"
  t_transport :: "json option"
  t_removable :: "json option"
  t_model :: "json option"
  t_trim :: "json option"
  t_rpm :: "string option"
  t_nvme_pci :: "string option"
  t_link_speed :: "string option"
  t_rotation_speed :: "string option"
  t_in_raid :: "bool option"
  t_in_bcache :: "bool option"
  t_error :: "exc_kind option"

definition empty_details :: tech_details where
  "empty_details =
     \<lparr>t_rotation = None, t_partition_table = None, t_transport = None, t_removable = None,
      t_model = None, t_trim = None, t_rpm = None, t_nvme_pci = None, t_link_speed = None,
      t_rotation_speed = None, t_in_raid = None, t_in_bcache = None, t_error = None\<rparr>"

text \<open>What the function reads from the system, one outcome for each probe.\<close>

record probes =
  lsblk :: lsblk_outcome
  trim_probe :: lsblk_outcome
  udevadm :: "string option"
  mdstat :: "string option"
  bcache_ls :: "int option"

definition truthy :: "json \<Rightarrow> bool" where
  "truthy v =
     (case v of
        JNull \<Rightarrow> False | JBool b \<Rightarrow> b | JNum x \<Rightarrow> x \<noteq> 0 | JStr s \<Rightarrow> s \<noteq> []
      | JArr xs \<Rightarrow> xs \<noteq> [] | JObj d \<Rightarrow> d \<noteq> [])"

fun remove_all :: "string \<Rightarrow> string \<Rightarrow> string" where
  \<comment> \<open>\<open>s.replace(old, "")\<close> for a non-empty \<open>old\<close>\<close>
  "remove_all old [] = []"
| "remove_all old (c # cs) =
     (if old \<noteq> [] \<and> take (length old) (c # cs) = old
      then remove_all old (drop (length old) (c # cs))
      else c # remove_all old cs)"

definition is_linebreak :: "char \<Rightarrow> bool" where
  "is_linebreak c = (c \<in> set [CHR 0x0A, CHR 0x0D, CHR 0x0B, CHR 0x0C, CHR 0x1C, CHR 0x1D, CHR 0x1E])"

fun splitlines_acc :: "string \<Rightarrow> string \<Rightarrow> string list" where
  "splitlines_acc [] cur = (if cur = [] then [] else [cur])"
| "splitlines_acc [c] cur = (if is_linebreak c then [cur] else [cur @ [c]])"
| "splitlines_acc (c # d # cs) cur =
     (if c = CHR 0x0D \<and> d = CHR 0x0A then cur # splitlines_acc cs []
      else if is_linebreak c then cur # splitlines_acc (d # cs) []
      else splitlines_acc (d # cs) (cur @ [c]))"

definition splitlines :: "string \<Rightarrow> string list" where
  "splitlines s = splitlines_acc s []"

definition split_field1 :: "string \<Rightarrow> string option" where
  \<comment> \<open>\<open>line.split('=')[1]\<close>; \<open>None\<close> stands for the IndexError of a line without \<open>=\<close>.\<close>
  "split_field1 line =
     (case dropWhile (\<lambda>c. c \<noteq> CHR ''='') line of
        [] \<Rightarrow> None
      | _ # rest \<Rightarrow> Some (takeWhile (\<lambda>c. c \<noteq> CHR ''='') rest))"

text \<open>Lines 242 to 249: the first block device whose name is \<open>devname\<close> fills five keys.\<close>

fun find_device ::
  "string \<Rightarrow> json list \<Rightarrow> tech_details \<Rightarrow> (exc_kind \<times> tech_details) + tech_details" where
  "find_device devname [] details = Inr details"
| "find_device devname (dev # rest) details =
     (case dev of
        JObj d \<Rightarrow>
          if dict_get d ''name'' JNull = JStr devname
          then Inr (details\<lparr>t_rotation := Some (dict_get d ''rota'' JNull),
                           t_partition_table := Some (dict_get d ''pttype'' JNull),
                           t_transport := Some (dict_get d ''tran'' JNull),
                           t_removable := Some (dict_get d ''rm'' JNull),
                           t_model := Some (dict_get d ''model'' JNull)\<rparr>)
          else find_device devname rest details
      | _ \<Rightarrow> Inl (AttributeError, details))"

definition lsblk_stage ::
  "string \<Rightarrow> lsblk_outcome \<Rightarrow> tech_details \<Rightarrow> (exc_kind \<times> tech_details) + tech_details" where
  "lsblk_stage devname q details =
     (case q of
        RunRaised e \<Rightarrow> Inl (e, details)
      | NotJson _ \<Rightarrow> Inl (JSONDecodeError, details)
      | Parsed data \<Rightarrow>
          (case data of
             JObj d \<Rightarrow>
               (case iter_items (dict_get d ''blockdevices'' (JArr [])) of
                  Inl e \<Rightarrow> Inl (e, details)
                | Inr devs \<Rightarrow> find_device devname devs details)
           | _ \<Rightarrow> Inl (AttributeError, details)))"

text \<open>
  Lines 251 to 254. \<open>x[0]\<close> is the first element of a list, the first character of a
  string, KeyError on a dict (its keys are strings) and TypeError on a number or a bool.
\<close>

definition trim_stage ::
  "lsblk_outcome \<Rightarrow> tech_details \<Rightarrow> (exc_kind \<times> tech_details) + tech_details" where
  "trim_stage q details =
     (case q of
        RunRaised e \<Rightarrow> Inl (e, details)
      | NotJson _ \<Rightarrow> Inl (JSONDecodeError, details)
      | Parsed trim_data \<Rightarrow>
          (case trim_data of
             JObj d \<Rightarrow>
               if truthy (dict_get d ''blockdevices'' JNull) then
                 (case dict_get d ''blockdevices'' JNull of
                    JArr (first # _) \<Rightarrow>
                      (case first of
                         JObj f \<Rightarrow> Inr (details\<lparr>t_trim := Some (dict_get f ''discard'' JNull)\<rparr>)
                       | _ \<Rightarrow> Inl (AttributeError, details))
                  | JStr _ \<Rightarrow> Inl (AttributeError, details)
                  | JObj _ \<Rightarrow> Inl (KeyError, details)
                  | _ \<Rightarrow> Inl (TypeError, details))
               else Inr details
           | _ \<Rightarrow> Inl (AttributeError, details)))"

text \<open>
  Lines 256 to 266. The three tests of a line are made in turn; an IndexError of
  \<open>split('=')[1]\<close> (the line has no \<open>=\<close>, so nothing of this line was stored) ends the
  whole scan and is swallowed, and what earlier lines stored stays.
\<close>

definition udev_line :: "string \<Rightarrow> tech_details \<Rightarrow> tech_details option" where
  "udev_line line details =
     (case (if contains ''ID_ATA_ROTATION_RATE_RPM'' line
            then map_option (\<lambda>v. details\<lparr>t_rpm := Some v\<rparr>) (split_field1 line)
            else Some details) of
        None \<Rightarrow> None
      | Some d1 \<Rightarrow>
          (case (if contains ''ID_NVME_PCI_SUBSYS'' line
                 then map_option (\<lambda>v. d1\<lparr>t_nvme_pci := Some v\<rparr>) (split_field1 line)
                 else Some d1) of
             None \<Rightarrow> None
           | Some d2 \<Rightarrow>
               if contains ''ID_ATA_SPEED'' line \<or> contains ''ID_NVME_PCI_LINK_SPEED'' line
               then map_option (\<lambda>v. d2\<lparr>t_link_speed := Some v\<rparr>) (split_field1 line)
               else Some d2))"

fun udev_lines :: "string list \<Rightarrow> tech_details \<Rightarrow> tech_details" where
  "udev_lines [] details = details"
| "udev_lines (line # rest) details =
     (case udev_line line details of None \<Rightarrow> details | Some d \<Rightarrow> udev_lines rest d)"

definition udev_stage :: "string option \<Rightarrow> tech_details \<Rightarrow> tech_details" where
  "udev_stage out details =
     (case out of None \<Rightarrow> details | Some text \<Rightarrow> udev_lines (splitlines text) details)"

text \<open>Lines 267 to 291: the NVMe/SSD/HDD logic.\<close>

definition pcie_gen :: "string option \<Rightarrow> string" where
  "pcie_gen link_speed =
     (case link_speed of
        None \<Rightarrow> ''Unknown''
      | Some ls \<Rightarrow>
          if ls = [] then ''Unknown''
          else if contains ''8.0'' ls then ''PCIe Gen 3''
          else if contains ''16.0'' ls then ''PCIe Gen 4''
          else if contains ''32.0'' ls then ''PCIe Gen 5''
          else ''Unknown'')"

definition rotation_stage ::
  "string \<Rightarrow> tech_details \<Rightarrow> (exc_kind \<times> tech_details) + tech_details" where
  "rotation_stage devname details =
     (case (if contains ''nvme'' (lower devname) then Inr True
            else (case (case t_transport details of None \<Rightarrow> JStr [] | Some v \<Rightarrow> v) of
                    JStr t \<Rightarrow> Inr (lower t = ''nvme'')
                  | _ \<Rightarrow> Inl AttributeError)) of
        Inl e \<Rightarrow> Inl (e, details)
      | Inr nvme \<Rightarrow>
          (let is_rotational = (case t_rotation details of None \<Rightarrow> JNull | Some v \<Rightarrow> v);
               d1 = (if nvme then details\<lparr>t_trim := Some (JStr ''Supported'')\<rparr> else details)
           in Inr (if truthy is_rotational then
                     (case t_rpm d1 of
                        None \<Rightarrow> d1\<lparr>t_rotation_speed := Some ''Unknown (HDD)''\<rparr>
                      | Some rpm \<Rightarrow>
                          if rpm \<noteq> [] \<and> rpm \<noteq> ''0''
                          then d1\<lparr>t_rotation_speed := Some (rpm @ '' rpm'')\<rparr>
                          else d1\<lparr>t_rotation_speed := Some ''Unknown (HDD)''\<rparr>)
                   else if nvme
                   then d1\<lparr>t_rotation_speed := Some (pcie_gen (t_link_speed d1) @ '' (NVMe)'')\<rparr>
                   else d1\<lparr>t_rotation_speed := Some ''Solid State (SSD)''\<rparr>)))"

text \<open>Lines 292 to 307: both membership probes swallow their own exceptions.\<close>

definition membership_stage :: "string \<Rightarrow> probes \<Rightarrow> tech_details \<Rightarrow> tech_details" where
  "membership_stage devname p details =
     (let d1 = details\<lparr>t_in_raid := Some False, t_in_bcache := Some False\<rparr>;
          d2 = (case mdstat p of
                  None \<Rightarrow> d1
                | Some text \<Rightarrow> if contains devname text then d1\<lparr>t_in_raid := Some True\<rparr> else d1)
      in case bcache_ls p of
           None \<Rightarrow> d2
         | Some rc \<Rightarrow> if rc = 0 then d2\<lparr>t_in_bcache := Some True\<rparr> else d2)"

definition get_technical_details :: "string \<Rightarrow> probes \<Rightarrow> tech_details" where
  "get_technical_details device p =
     (let devname = remove_all ''/dev/'' device
      in case lsblk_stage devname (lsblk p) empty_details of
           Inl (e, d) \<Rightarrow> d\<lparr>t_error := Some e\<rparr>
         | Inr d1 \<Rightarrow>
             (case trim_stage (trim_probe p) d1 of
                Inl (e, d) \<Rightarrow> d\<lparr>t_error := Some e\<rparr>
              | Inr d2 \<Rightarrow>
                  (case rotation_stage devname (udev_stage (udevadm p) d2) of
                     Inl (e, d) \<Rightarrow> d\<lparr>t_error := Some e\<rparr>
                   | Inr d4 \<Rightarrow> membership_stage devname p d4)))"

section \<open>DriveInfo.get_smart_info\<close>

text \<open>
  The outcome of one \<open>subprocess.run\<close>: the process completes with a return code, stdout
  and stderr, or the call raises an exception, of which the code reads \<open>str(e)\<close>. Under
  \<open>check=True\<close> a non-zero return code is a CalledProcessError.
\<close>

datatype proc = Completed int string string | Failed exc_kind string

text \<open>
  The dict returned by \<open>get_smart_info\<close>; its key \<open>output\<close> is the field
  \<open>output_text\<close>. \<open>health\<close> is \<open>None\<close> on every failure and
  \<open>needs_sudo\<close> exists on success only. The key \<open>attributes\<close> of a successful result, a
  table parsed from \<open>output\<close> by lines 105 to 141 without any further system call and
  without raising, is not part of this record.
\<close>

record smart_info =
  available :: bool
  output_text :: string
  health :: "bool option"
  needs_sudo :: "bool option"
  error :: "string option"

definition unavailable :: "string \<Rightarrow> string \<Rightarrow> smart_info" where
  "unavailable out err =
     \<lparr>available = False, output_text = out, health = None, needs_sudo = None, error = Some err\<rparr>"

text \<open>
  The system is a function from the number of \<open>subprocess.run\<close> calls made so far to the
  outcome of the next one; \<open>cmds\<close> is the list of the commands run so far. The function
  calls itself at line 159, with nothing that bounds the depth but the interpreter's
  recursion limit; the model takes the depth allowed as its first argument, and \<open>None\<close>
  means that this depth was not enough. \<open>Inl\<close> is an exception that leaves
  \<open>get_smart_info\<close>: \<open>check_smartctl_available\<close> runs before the \<open>try\<close> and catches
  CalledProcessError only.
\<close>

fun get_smart_info ::
  "nat \<Rightarrow> (nat \<Rightarrow> proc) \<Rightarrow> string \<Rightarrow> string list list
     \<Rightarrow> (((exc_kind \<times> string) + smart_info) \<times> string list list) option" where
  "get_smart_info 0 world device cmds = None"
| "get_smart_info (Suc depth) world device cmds =
     (let cmds1 = cmds @ [[''which'', ''smartctl'']];
          cmds2 = cmds1 @ [[''smartctl'', ''-H'', ''-A'', device]];
          cmds3 = cmds2 @ [[''sudo'', ''smartctl'', ''-H'', ''-A'', device]];
          not_found = Some (Inr (unavailable ''smartctl not found'' ''smartctl not installed''), cmds1)
      in case world (length cmds) of
           Failed k m \<Rightarrow> if k = CalledProcessError then not_found else Some (Inl (k, m), cmds1)
         | Completed rc0 out0 err0 \<Rightarrow>
             if rc0 \<noteq> 0 then not_found
             else
               (case world (length cmds1) of
                  Failed k m \<Rightarrow> Some (Inr (unavailable (''Error: '' @ m) m), cmds2)
                | Completed rc out err \<Rightarrow>
                    if rc = 0 \<or> rc = 4 then
                      Some (Inr \<lparr>available = True, output_text = out,
                                 health = Some (contains ''PASSED'' out),
                                 needs_sudo = Some False, error = None\<rparr>, cmds2)
                    else if rc = 1 \<and> contains ''Permission denied'' err then
                      (case world (length cmds2) of
                         Failed k m \<Rightarrow> Some (Inr (unavailable (''Sudo failed: '' @ m) m), cmds3)
                       | Completed rc' out' err' \<Rightarrow>
                           if rc' = 0 \<or> rc' = 4 then
                             (case get_smart_info depth world device cmds3 of
                                None \<Rightarrow> None
                              | Some (Inl (k, m), cmds') \<Rightarrow>
                                  Some (Inr (unavailable (''Sudo failed: '' @ m) m), cmds')
                              | Some (Inr info, cmds') \<Rightarrow> Some (Inr info, cmds'))
                           else
                             Some (Inr (unavailable (''Command failed: '' @ err')
                                          (''smartctl returned code '' @ str_int rc')), cmds3))
                    else
                      Some (Inr (unavailable (''Command failed: '' @ err)
                                   (''smartctl returned code '' @ str_int rc)), cmds2)))"

text \<open>
  A system in which the unprivileged query is always refused, the first query under
  sudo succeeds and the second one does not.
\<close>

definition sudo_works_once :: "nat \<Rightarrow> proc" where
  "sudo_works_once n =
     (if n = 0 \<or> n = 3 then Completed 0 ''/usr/sbin/smartctl'' []
      else if n = 1 \<or> n = 4 then Completed 1 [] ''Permission denied''
      else if n = 2 then Completed 0 ''test result: PASSED'' []
      else Completed 2 [] ''sudo: a password is required'')"

text \<open>
  A system in which smartctl is found, the unprivileged query is refused and the query
  under sudo succeeds, every time.
\<close>

definition sudo_always :: "nat \<Rightarrow> proc" where
  "sudo_always n =
     (if n mod 3 = 0 then Completed 0 ''/usr/sbin/smartctl'' []
      else if n mod 3 = 1 then Completed 1 [] ''Smartctl open device: /dev/sda failed: Permission denied''
      else Completed 0 ''SMART overall-health self-assessment test result: PASSED'' [])"

section \<open>The wizards\<close>

text \<open>
  What every wizard window holds: the step, the page of the stack that is shown, and
  the sensitivity of Back, Next and Finish. \<open>current_step\<close> is a Python number; the
  Fstab wizard uses the step 1.5. \<open>launched\<close> is not an attribute: it lists the
  commands that the handlers of the window have passed to \<open>subprocess.run\<close> so far.
\<close>

record wizard =
  current_step :: rat
  visible_child :: string
  back_sensitive :: bool
  next_sensitive :: bool
  next_label :: string
  finish_sensitive :: bool
  launched :: "string list list"

text \<open>
  What a handler gets from the system while it runs: the devices that its
  \<open>_populate_*\<close> call lists (in row order), the result of \<open>detect_terminal()\<close>, the
  outcome of the command it runs in the terminal, the stdout of its lsblk and blkid
  queries (\<open>None\<close> when the call raises), and the paths that
  \<open>glob("/sys/block/bcache*/slaves/<devname>")\<close> finds. The Benchmark wizard also reads
  whether the mount point is a directory, whether the test file exists, whether the run
  that creates it and the write of the history file return (\<open>False\<close>: they raise), and
  the time. \<open>smart_result\<close> is the dict that the worker of the SMART wizard hands over
  together with its result. \<open>mdstat\<close> is what \<open>RaidManager.get_raid_arrays()\<close> returns,
  and \<open>history\<close> what \<open>BenchmarkResultsHelper.load_results()\<close> returns: the parsed
  content of the history file, whatever JSON value that is, and \<open>[]\<close> when the file is
  missing or cannot be read.
\<close>

record world =
  listed :: "string list"
  terminal :: "string option"
  run :: checked_run
  fstype_query :: "string option"
  label_query :: "string option"
  uuid_query :: "string option"
  mountpoint_query :: "string option"
  slaves :: "string \<Rightarrow> string list"
  is_dir :: bool
  testfile_exists :: bool
  precreate_returns :: bool
  save_returns :: bool
  now :: string
  smart_result :: smart_info
  mdstat :: "raid_array list"
  history :: json

text \<open>
  What the user and the main loop can do to a wizard window: press Next or Back, press
  another button (named by its attribute), change the selection of a list (the devices
  of the rows selected, or the index of the row), edit an entry, and deliver the result
  that a worker thread scheduled with \<open>GLib.idle_add\<close>. Cancel and Finish close the
  window, which ends the wizard.
\<close>

datatype event =
    Next | Back | Click string | Select string "string list" | Choose string "nat option"
  | Edit string string | Deliver bool string

definition join :: "string \<Rightarrow> string list \<Rightarrow> string" where
  \<comment> \<open>\<open>sep.join(xs)\<close>\<close>
  "join sep xs = (case xs of [] \<Rightarrow> [] | x # rest \<Rightarrow> x @ concat (map (\<lambda>y. sep @ y) rest))"

definition no_terminal :: string where
  "no_terminal = ''No supported terminal emulator found. Please install gnome-terminal, xterm, or similar.''"

subsection \<open>RaidWizard\<close>

text \<open>
  The attributes of the window that its handlers read or write. \<open>level_list\<close> is the
  index of the selected row of that list; \<open>raid_drive_list\<close> holds the devices of the
  rows of \<open>drive_list\<close> and \<open>raid_drive_list_selected\<close> those of its selected rows.
  \<open>_drive1_wiped\<close> and \<open>_drive2_wiped\<close> do not exist before the first entry into step 3,
  which assigns them before any read. \<open>raid_worker\<close> is not an attribute: it holds the
  call of \<open>_show_raid_result\<close> that the creation thread has scheduled with
  \<open>GLib.idle_add\<close> and that the main loop has not run yet.
\<close>

record raid_wizard = wizard +
  selected_level :: "int option"
  selected_drives :: "string list"
  drive1_wiped :: bool
  drive2_wiped :: bool
  wipe_drive1_status :: string
  wipe_drive2_status :: string
  wipe_drive1_btn :: bool
  wipe_drive2_btn :: bool
  level_list :: "nat option"
  raid_drive_list :: "string list"
  raid_drive_list_selected :: "string list"
  raid_review_summary :: string
  raid_result_label :: string
  raid_worker :: "(bool \<times> string) option"

definition raid_update_cleanse_ui :: "raid_wizard \<Rightarrow> raid_wizard" where
  "raid_update_cleanse_ui st =
     st\<lparr>drive1_wiped := False, drive2_wiped := False,
        wipe_drive1_status := ''Not wiped yet.'', wipe_drive2_status := ''Not wiped yet.'',
        wipe_drive1_btn := True, wipe_drive2_btn := True\<rparr>"

definition raid_populate_review :: "raid_wizard \<Rightarrow> raid_wizard" where
  "raid_populate_review st =
     st\<lparr>raid_review_summary :=
          ''RAID Level: ''
          @ (if selected_level st = Some 0 then ''RAID 0 (Stripe)'' else ''RAID 1 (Mirror)'')
          @ [CHR 0x0A] @ ''Drives:'' @ [CHR 0x0A] @ join [CHR 0x0A] (selected_drives st)
          @ [CHR 0x0A, CHR 0x0A]
          @ ''Are you sure you want to proceed? This will erase all data on the selected drives.''\<rparr>"

definition raid_show_step :: "world \<Rightarrow> rat \<Rightarrow> raid_wizard \<Rightarrow> raid_wizard" where
  "raid_show_step w step st0 =
     (let st = st0\<lparr>current_step := step\<rparr>
      in if step = 0 then
           st\<lparr>visible_child := ''intro'', back_sensitive := False, next_sensitive := True,
              next_label := ''Next''\<rparr>
         else if step = 1 then
           st\<lparr>visible_child := ''level'', back_sensitive := True, next_sensitive := True,
              next_label := ''Next''\<rparr>
         else if step = 2 then
           st\<lparr>raid_drive_list := listed w, raid_drive_list_selected := [],
              visible_child := ''drives'', back_sensitive := True, next_sensitive := True,
              next_label := ''Next''\<rparr>
         else if step = 3 then
           (let c = raid_update_cleanse_ui st
            in c\<lparr>visible_child := ''cleanse'', back_sensitive := True,
                 next_sensitive := (drive1_wiped c \<and> drive2_wiped c), next_label := ''Next''\<rparr>)
         else if step = 4 then
           (raid_populate_review st)
             \<lparr>visible_child := ''review'', back_sensitive := True, next_sensitive := True,
              next_label := ''Confirm''\<rparr>
         else if step = 5 then
           st\<lparr>visible_child := ''result'', back_sensitive := False, next_sensitive := False,
              finish_sensitive := False\<rparr>
         else st)"

text \<open>
  \<open>_run_raid_creation\<close>: the label and the Finish button, then the thread, which does
  \<open>run_raid_creation\<close> above with the arrays of /proc/mdstat, the terminal found and
  the attributes \<open>selected_level\<close> and \<open>selected_drives\<close> of the window. No handler
  assigns these attributes while step 5 is shown, so the thread is taken to run when it
  is started: the command that it launches joins \<open>launched\<close> and the call that it
  schedules is kept in \<open>raid_worker\<close>. An IndexError ends the thread before it launches
  or schedules anything.
\<close>

definition raid_start_creation :: "world \<Rightarrow> raid_wizard \<Rightarrow> raid_wizard" where
  "raid_start_creation w st0 =
     (let st = st0\<lparr>raid_result_label := ''Creating RAID array... Please wait.'',
                   finish_sensitive := False\<rparr>
      in case run_raid_creation (mdstat w) (terminal w) (selected_level st)
                (selected_drives st) (run w) of
           Inl e \<Rightarrow> st
         | Inr c \<Rightarrow>
             st\<lparr>launched := launched st @ (case creation_cmd c of None \<Rightarrow> [] | Some cmd \<Rightarrow> [cmd]),
                raid_worker := Some (success c, msg c)\<rparr>)"

text \<open>
  \<open>_on_next\<close> returns the wizard and the text of the error dialog that it shows, if any.
\<close>

definition raid_on_next :: "world \<Rightarrow> raid_wizard \<Rightarrow> string option \<times> raid_wizard" where
  "raid_on_next w st =
     (if current_step st = 0 then (None, raid_show_step w 1 st)
      else if current_step st = 1 then
        (case level_list st of
           None \<Rightarrow> (Some ''Please select a RAID level to continue.'', st)
         | Some i \<Rightarrow>
             (None, raid_show_step w 2 (st\<lparr>selected_level := Some (if i = 0 then 0 else 1)\<rparr>)))
      else if current_step st = 2 then
        (if length (raid_drive_list_selected st) \<noteq> 2
         then (Some ''Please select exactly two drives.'', st)
         else (None, raid_show_step w 3 (st\<lparr>selected_drives := raid_drive_list_selected st\<rparr>)))
      else if current_step st = 3 then
        (if \<not> drive1_wiped st \<or> \<not> drive2_wiped st
         then (Some ''You must wipe both drives before proceeding.'', st)
         else (None, raid_show_step w 4 st))
      else if current_step st = 4 then (None, raid_start_creation w (raid_show_step w 5 st))
      else (None, st))"

definition raid_on_back :: "world \<Rightarrow> raid_wizard \<Rightarrow> raid_wizard" where
  "raid_on_back w st =
     (if current_step st = 1 then raid_show_step w 0 st
      else if current_step st = 2 then raid_show_step w 1 st
      else if current_step st = 3 then raid_show_step w 2 st
      else st)"

text \<open>
  \<open>_launch_wipefs\<close>: the command is run in the terminal, then the flags follow its
  outcome.
\<close>

definition raid_launch_wipefs ::
  "world \<Rightarrow> string \<Rightarrow> bool \<Rightarrow> raid_wizard \<Rightarrow> string option \<times> raid_wizard" where
  "raid_launch_wipefs w device is_drive2 st =
     (case terminal w of
        None \<Rightarrow> (Some no_terminal, st)
      | Some term \<Rightarrow>
          (let cmd = terminal_command term
                       (''sudo wipefs -a '' @ shlex_quote device @ press_any_key);
               st1 = st\<lparr>launched := launched st @ [cmd]\<rparr>
           in case run w of
                Returned \<Rightarrow>
                  (let s = (if is_drive2
                            then st1\<lparr>drive2_wiped := True, wipe_drive2_status := ''Drive 2 wiped.''\<rparr>
                            else st1\<lparr>drive1_wiped := True, wipe_drive1_status := ''Drive 1 wiped.''\<rparr>)
                   in (None, s\<lparr>next_sensitive := (drive1_wiped s \<and> drive2_wiped s)\<rparr>))
              | Raised k text \<Rightarrow>
                  (None, if is_drive2 then st1\<lparr>wipe_drive2_status := ''Failed: '' @ text\<rparr>
                         else st1\<lparr>wipe_drive1_status := ''Failed: '' @ text\<rparr>)))"

text \<open>
  \<open>self.selected_drives[0]\<close> and \<open>[1]\<close> raise IndexError on a shorter list; the handler
  then ends without any assignment.
\<close>

definition raid_on_wipe_drive1 :: "world \<Rightarrow> raid_wizard \<Rightarrow> string option \<times> raid_wizard" where
  "raid_on_wipe_drive1 w st =
     (case selected_drives st of
        device # _ \<Rightarrow> raid_launch_wipefs w device False st
      | [] \<Rightarrow> (None, st))"

definition raid_on_wipe_drive2 :: "world \<Rightarrow> raid_wizard \<Rightarrow> string option \<times> raid_wizard" where
  "raid_on_wipe_drive2 w st =
     (case selected_drives st of
        _ # device # _ \<Rightarrow> raid_launch_wipefs w device True st
      | _ \<Rightarrow> (None, st))"

definition raid_show_raid_result :: "bool \<Rightarrow> string \<Rightarrow> raid_wizard \<Rightarrow> raid_wizard" where
  "raid_show_raid_result ok text st =
     st\<lparr>raid_result_label :=
          (if ok
           then ''<span foreground='green' weight='bold'>RAID array created successfully!</span>''
           else ''<span foreground='red' weight='bold'>Failed to create RAID array.</span>'')
          @ [CHR 0x0A, CHR 0x0A] @ text,
        finish_sensitive := True, raid_worker := None\<rparr>"

text \<open>
  An event reaches its handler only if GTK lets it: a button that is not sensitive
  emits no click, and the widgets of a page of the stack can be used only while that
  page is the visible child. The main loop delivers a result only if the thread has
  scheduled it, with the arguments that the thread gave.
\<close>

definition raid_fire :: "world \<Rightarrow> event \<Rightarrow> raid_wizard \<Rightarrow> raid_wizard" where
  "raid_fire w e st =
     (case e of
        Next \<Rightarrow> if next_sensitive st then snd (raid_on_next w st) else st
      | Back \<Rightarrow> if back_sensitive st then raid_on_back w st else st
      | Click b \<Rightarrow>
          if visible_child st = ''cleanse'' \<and> b = ''wipe_drive1_btn'' \<and> wipe_drive1_btn st
          then snd (raid_on_wipe_drive1 w st)
          else if visible_child st = ''cleanse'' \<and> b = ''wipe_drive2_btn'' \<and> wipe_drive2_btn st
          then snd (raid_on_wipe_drive2 w st)
          else st
      | Select l ds \<Rightarrow>
          if visible_child st = ''drives'' \<and> l = ''drive_list''
          then st\<lparr>raid_drive_list_selected := filter (\<lambda>d. d \<in> set ds) (raid_drive_list st)\<rparr>
          else st
      | Choose l r \<Rightarrow>
          if visible_child st = ''level'' \<and> l = ''level_list'' then st\<lparr>level_list := r\<rparr> else st
      | Edit l text \<Rightarrow> st
      | Deliver ok text \<Rightarrow>
          if raid_worker st = Some (ok, text) then raid_show_raid_result ok text st else st)"

subsection \<open>BcacheWizard\<close>

text \<open>
  \<open>backing_list\<close> and \<open>cache_list\<close> hold the devices of the rows of the two lists, the
  \<open>_selected\<close> fields the device of the selected row. \<open>wipe_cache_visible\<close>,
  \<open>detach_backing_visible\<close> and \<open>detach_cache_visible\<close> are the visibility of a button and
  of its status label, which are always set together. The six flags do not exist
  before the first entry into step 3 or 4, which assigns them before any read.
\<close>

record bcache_wizard = wizard +
  selected_backing :: "string option"
  selected_cache :: "string option"
  backing_needs_detach :: bool
  cache_needs_detach :: bool
  backing_detached :: bool
  cache_detached :: bool
  backing_wiped :: bool
  cache_wiped :: bool
  wipe_backing_status :: string
  wipe_cache_status :: string
  wipe_backing_btn :: bool
  wipe_cache_btn :: bool
  wipe_cache_visible :: bool
  detach_backing_status :: string
  detach_cache_status :: string
  detach_backing_visible :: bool
  detach_cache_visible :: bool
  detach_warn :: string
  backing_list :: "string list"
  backing_list_selected :: "string option"
  cache_list :: "string list"
  cache_list_selected :: "string option"
  bcache_review_summary :: string
  bcache_result_label :: string
  bcache_worker :: bool

definition chosen :: "string option \<Rightarrow> bool" where
  \<comment> \<open>the truth value of an attribute that is \<open>None\<close> or a device path\<close>
  "chosen d = (case d of None \<Rightarrow> False | Some s \<Rightarrow> s \<noteq> [])"

definition format_attr :: "string option \<Rightarrow> string" where
  \<comment> \<open>an attribute that is \<open>None\<close> or a string, inside an f-string\<close>
  "format_attr d = (case d of None \<Rightarrow> ''None'' | Some s \<Rightarrow> s)"

fun split_on :: "char \<Rightarrow> string \<Rightarrow> string list" where
  \<comment> \<open>\<open>s.split(sep)\<close> for a separator of one character\<close>
  "split_on sep [] = [[]]"
| "split_on sep (c # cs) =
     (if c = sep then [] # split_on sep cs
      else (case split_on sep cs of [] \<Rightarrow> [[c]] | part # parts \<Rightarrow> (c # part) # parts))"

definition basename :: "string \<Rightarrow> string" where
  \<comment> \<open>\<open>os.path.basename\<close>: what follows the last slash\<close>
  "basename p = rev (takeWhile (\<lambda>c. c \<noteq> CHR ''/'') (rev p))"

definition bcache_update_cleanse_ui :: "bcache_wizard \<Rightarrow> bcache_wizard" where
  "bcache_update_cleanse_ui st =
     (let s = st\<lparr>backing_wiped := False, cache_wiped := False,
                 wipe_backing_status := ''Not wiped yet.'', wipe_cache_status := ''Not wiped yet.'',
                 wipe_backing_btn := True\<rparr>
      in if chosen (selected_cache s) then s\<lparr>wipe_cache_visible := True, wipe_cache_btn := True\<rparr>
         else s\<lparr>wipe_cache_visible := False\<rparr>)"

definition bcache_update_detach_ui :: "world \<Rightarrow> bcache_wizard \<Rightarrow> bcache_wizard" where
  "bcache_update_detach_ui w st =
     (let s0 = st\<lparr>backing_needs_detach := False, cache_needs_detach := False,
                  backing_detached := False, cache_detached := False\<rparr>;
          s1 = (case selected_backing s0 of
                  None \<Rightarrow> s0
                | Some dev \<Rightarrow>
                    if dev = [] then s0
                    else if slaves w (basename dev) \<noteq> []
                    then s0\<lparr>backing_needs_detach := True, detach_backing_visible := True,
                            detach_backing_status := ''Not detached yet.''\<rparr>
                    else s0\<lparr>detach_backing_visible := False, backing_detached := True\<rparr>);
          s2 = (case selected_cache s1 of
                  None \<Rightarrow> s1
                | Some dev \<Rightarrow>
                    if dev = [] then s1
                    else if slaves w (basename dev) \<noteq> []
                    then s1\<lparr>cache_needs_detach := True, detach_cache_visible := True,
                            detach_cache_status := ''Not detached yet.''\<rparr>
                    else s1\<lparr>detach_cache_visible := False, cache_detached := True\<rparr>);
          warn = (if backing_needs_detach s2
                  then [''Backing device '' @ format_attr (selected_backing s2)
                        @ '' is currently attached to a bcache set. You must detach it before proceeding.'']
                  else [])
                 @ (if cache_needs_detach s2
                    then [''Cache device '' @ format_attr (selected_cache s2)
                          @ '' is currently attached to a bcache set. You must detach it before proceeding.'']
                    else []);
          s3 = s2\<lparr>detach_warn :=
                     join [CHR 0x0A]
                       (if warn = [] then [''No devices need detaching. You can proceed.''] else warn)\<rparr>
      in if \<not> chosen (selected_cache s3) then s3\<lparr>detach_cache_visible := False\<rparr> else s3)"

definition bcache_populate_review :: "bcache_wizard \<Rightarrow> bcache_wizard" where
  "bcache_populate_review st =
     st\<lparr>bcache_review_summary :=
          ''Backing device: ''
          @ (if chosen (selected_backing st) then format_attr (selected_backing st) else ''(none)'')
          @ [CHR 0x0A] @ ''Cache device: ''
          @ (if chosen (selected_cache st) then format_attr (selected_cache st) else ''(none)'')
          @ [CHR 0x0A, CHR 0x0A]
          @ ''Are you sure you want to proceed? This will erase all data on the selected drives.''\<rparr>"

definition bcache_show_step :: "world \<Rightarrow> rat \<Rightarrow> bcache_wizard \<Rightarrow> bcache_wizard" where
  "bcache_show_step w step st0 =
     (let st = st0\<lparr>current_step := step\<rparr>
      in if step = 0 then
           st\<lparr>visible_child := ''intro'', back_sensitive := False, next_sensitive := True,
              next_label := ''Next''\<rparr>
         else if step = 1 then
           st\<lparr>backing_list := listed w, backing_list_selected := None,
              visible_child := ''backing'', back_sensitive := True, next_sensitive := True,
              next_label := ''Next''\<rparr>
         else if step = 2 then
           st\<lparr>cache_list := listed w, cache_list_selected := None,
              visible_child := ''cache'', back_sensitive := True, next_sensitive := True,
              next_label := ''Next''\<rparr>
         else if step = 3 then
           (let d = bcache_update_detach_ui w st
            in d\<lparr>visible_child := ''detach'', back_sensitive := True,
                 next_sensitive := ((\<not> backing_needs_detach d \<or> backing_detached d)
                                    \<and> (\<not> cache_needs_detach d \<or> cache_detached d)),
                 next_label := ''Next''\<rparr>)
         else if step = 4 then
           (let c = bcache_update_cleanse_ui st
            in c\<lparr>visible_child := ''cleanse'', back_sensitive := True,
                 next_sensitive := (backing_wiped c \<and> (selected_cache c = None \<or> cache_wiped c)),
                 next_label := ''Next''\<rparr>)
         else if step = 5 then
           (bcache_populate_review st)
             \<lparr>visible_child := ''review'', back_sensitive := True, next_sensitive := True,
              next_label := ''Confirm''\<rparr>
         else if step = 6 then
           st\<lparr>visible_child := ''result'', back_sensitive := False, next_sensitive := False,
              finish_sensitive := False\<rparr>
         else st)"

definition bcache_start_creation :: "bcache_wizard \<Rightarrow> bcache_wizard" where
  "bcache_start_creation st =
     st\<lparr>bcache_result_label := ''Creating Bcache device... Please wait.'',
        finish_sensitive := False, bcache_worker := True\<rparr>"

definition bcache_on_next :: "world \<Rightarrow> bcache_wizard \<Rightarrow> string option \<times> bcache_wizard" where
  "bcache_on_next w st =
     (if current_step st = 0 then (None, bcache_show_step w 1 st)
      else if current_step st = 1 then
        (case backing_list_selected st of
           None \<Rightarrow> (Some ''Please select a backing device (HDD) to continue.'', st)
         | Some device \<Rightarrow> (None, bcache_show_step w 2 (st\<lparr>selected_backing := Some device\<rparr>)))
      else if current_step st = 2 then
        (case cache_list_selected st of
           None \<Rightarrow> (None, bcache_show_step w 3 st)
         | Some device \<Rightarrow> (None, bcache_show_step w 3 (st\<lparr>selected_cache := Some device\<rparr>)))
      else if current_step st = 3 then
        (if (backing_needs_detach st \<and> \<not> backing_detached st)
            \<or> (cache_needs_detach st \<and> \<not> cache_detached st)
         then (Some ''You must detach all devices from bcache before proceeding.'', st)
         else (None, bcache_show_step w 4 st))
      else if current_step st = 4 then
        (if \<not> backing_wiped st \<or> (chosen (selected_cache st) \<and> \<not> cache_wiped st)
         then (Some ''You must wipe both devices before proceeding.'', st)
         else (None, bcache_show_step w 5 st))
      else if current_step st = 5 then (None, bcache_start_creation (bcache_show_step w 6 st))
      else (None, st))"

definition bcache_on_back :: "world \<Rightarrow> bcache_wizard \<Rightarrow> bcache_wizard" where
  "bcache_on_back w st =
     (if current_step st = 1 then bcache_show_step w 0 st
      else if current_step st = 2 then bcache_show_step w 1 st
      else if current_step st = 3 then bcache_show_step w 2 st
      else if current_step st = 4 then bcache_show_step w 3 st
      else if current_step st = 5 then bcache_show_step w 4 st
      else st)"

definition bcache_on_skip_cache :: "world \<Rightarrow> bcache_wizard \<Rightarrow> bcache_wizard" where
  "bcache_on_skip_cache w st = bcache_show_step w 3 (st\<lparr>selected_cache := None\<rparr>)"

text \<open>
  \<open>_launch_wipefs\<close> and \<open>_launch_detach\<close>. With the device \<open>None\<close>, \<open>shlex.quote\<close> and
  \<open>os.path.basename\<close> raise TypeError and the handler ends without any assignment.
  When the glob finds nothing, \<open>_launch_detach\<close> sets the flag and returns before the
  line that refreshes Next. \<open>bcache_paths[0].split("/")[3]\<close> raises IndexError on a path
  of fewer than four parts, which also ends the handler.
\<close>

definition bcache_launch_wipefs ::
  "world \<Rightarrow> string option \<Rightarrow> bool \<Rightarrow> bcache_wizard \<Rightarrow> string option \<times> bcache_wizard" where
  "bcache_launch_wipefs w device is_cache st =
     (case terminal w of
        None \<Rightarrow> (Some no_terminal, st)
      | Some term \<Rightarrow>
          (case device of
             None \<Rightarrow> (None, st)
           | Some dev \<Rightarrow>
               (let cmd = terminal_command term
                            (''sudo wipefs -a '' @ shlex_quote dev @ press_any_key);
                    st1 = st\<lparr>launched := launched st @ [cmd]\<rparr>
                in case run w of
                     Returned \<Rightarrow>
                       (let s = (if is_cache
                                 then st1\<lparr>cache_wiped := True,
                                          wipe_cache_status := ''Cache device wiped.''\<rparr>
                                 else st1\<lparr>backing_wiped := True,
                                          wipe_backing_status := ''Backing device wiped.''\<rparr>)
                        in (None, s\<lparr>next_sensitive :=
                                      (backing_wiped s \<and> (selected_cache s = None \<or> cache_wiped s))\<rparr>))
                   | Raised k text \<Rightarrow>
                       (None, if is_cache then st1\<lparr>wipe_cache_status := ''Failed: '' @ text\<rparr>
                              else st1\<lparr>wipe_backing_status := ''Failed: '' @ text\<rparr>))))"

definition bcache_launch_detach ::
  "world \<Rightarrow> string option \<Rightarrow> bool \<Rightarrow> bcache_wizard \<Rightarrow> string option \<times> bcache_wizard" where
  "bcache_launch_detach w device is_cache st =
     (case terminal w of
        None \<Rightarrow> (Some no_terminal, st)
      | Some term \<Rightarrow>
          (case device of
             None \<Rightarrow> (None, st)
           | Some dev \<Rightarrow>
               if slaves w (basename dev) = [] then
                 (None, if is_cache
                        then st\<lparr>cache_detached := True,
                                detach_cache_status := ''Cache device already detached.''\<rparr>
                        else st\<lparr>backing_detached := True,
                                detach_backing_status := ''Backing device already detached.''\<rparr>)
               else
                 (case drop 3 (split_on CHR ''/'' (hd (slaves w (basename dev)))) of
                    [] \<Rightarrow> (None, st)
                  | bcache_block # _ \<Rightarrow>
                      (let cmd = terminal_command term
                                   (''echo 1 | sudo tee /sys/block/'' @ bcache_block
                                    @ ''/bcache/detach'' @ press_any_key);
                           st1 = st\<lparr>launched := launched st @ [cmd]\<rparr>
                       in case run w of
                            Returned \<Rightarrow>
                              (let s = (if is_cache
                                        then st1\<lparr>cache_detached := True,
                                                 detach_cache_status := ''Cache device detached.''\<rparr>
                                        else st1\<lparr>backing_detached := True,
                                                 detach_backing_status := ''Backing device detached.''\<rparr>)
                               in (None, s\<lparr>next_sensitive :=
                                             ((\<not> backing_needs_detach s \<or> backing_detached s)
                                              \<and> (\<not> cache_needs_detach s \<or> cache_detached s))\<rparr>))
                          | Raised k text \<Rightarrow>
                              (None, if is_cache
                                     then st1\<lparr>detach_cache_status := ''Failed: '' @ text\<rparr>
                                     else st1\<lparr>detach_backing_status := ''Failed: '' @ text\<rparr>)))))"

definition bcache_show_bcache_result :: "bool \<Rightarrow> string \<Rightarrow> bcache_wizard \<Rightarrow> bcache_wizard" where
  "bcache_show_bcache_result ok text st =
     st\<lparr>bcache_result_label :=
          (if ok
           then ''<span foreground='green' weight='bold'>Bcache device created successfully!</span>''
           else ''<span foreground='red' weight='bold'>Failed to create Bcache device.</span>'')
          @ [CHR 0x0A, CHR 0x0A] @ text,
        finish_sensitive := True, bcache_worker := False\<rparr>"

definition bcache_fire :: "world \<Rightarrow> event \<Rightarrow> bcache_wizard \<Rightarrow> bcache_wizard" where
  "bcache_fire w e st =
     (case e of
        Next \<Rightarrow> if next_sensitive st then snd (bcache_on_next w st) else st
      | Back \<Rightarrow> if back_sensitive st then bcache_on_back w st else st
      | Click b \<Rightarrow>
          if visible_child st = ''cache'' \<and> b = ''skip_btn'' then bcache_on_skip_cache w st
          else if visible_child st = ''cleanse'' \<and> b = ''wipe_backing_btn'' \<and> wipe_backing_btn st
          then snd (bcache_launch_wipefs w (selected_backing st) False st)
          else if visible_child st = ''cleanse'' \<and> b = ''wipe_cache_btn'' \<and> wipe_cache_visible st
                  \<and> wipe_cache_btn st
          then snd (bcache_launch_wipefs w (selected_cache st) True st)
          else if visible_child st = ''detach'' \<and> b = ''detach_backing_btn''
                  \<and> detach_backing_visible st
          then snd (bcache_launch_detach w (selected_backing st) False st)
          else if visible_child st = ''detach'' \<and> b = ''detach_cache_btn'' \<and> detach_cache_visible st
          then snd (bcache_launch_detach w (selected_cache st) True st)
          else st
      | Select l ds \<Rightarrow>
          if visible_child st = ''backing'' \<and> l = ''backing_list''
          then st\<lparr>backing_list_selected := find (\<lambda>d. d \<in> set ds) (backing_list st)\<rparr>
          else if visible_child st = ''cache'' \<and> l = ''cache_list''
          then st\<lparr>cache_list_selected := find (\<lambda>d. d \<in> set ds) (cache_list st)\<rparr>
          else st
      | Choose l r \<Rightarrow> st
      | Edit l text \<Rightarrow> st
      | Deliver ok text \<Rightarrow> if bcache_worker st then bcache_show_bcache_result ok text st else st)"

subsection \<open>FstabWizard\<close>

text \<open>
  \<open>fstab_drive_list\<close> holds the devices of the rows of \<open>drive_list\<close> and
  \<open>fstab_drive_list_selected\<close> the device of its selected row; \<open>mp_entry\<close>, \<open>opt_entry\<close>
  and \<open>label_entry\<close> are the texts of the entries and \<open>fs_combo\<close> is the active text of
  the combo box. \<open>volume_label\<close> does not exist before step 5 and is read with
  \<open>getattr(self, 'volume_label', None)\<close>. The Browse button does nothing but put a
  folder into \<open>mp_entry\<close>, which is an \<open>Edit\<close> event.
\<close>

record fstab_wizard = wizard +
  fstab_selected_drive :: "string option"
  mount_point :: "string option"
  fs_type :: "string option"
  mount_options :: "string option"
  volume_label :: "string option"
  summary_line :: "string option"
  needs_format :: bool
  format_done :: bool
  format_status :: string
  mp_entry :: string
  fs_combo :: string
  opt_entry :: string
  label_entry :: string
  fstab_drive_list :: "string list"
  fstab_drive_list_selected :: "string option"
  fstab_review_summary :: string
  done_msg :: string

definition is_space :: "char \<Rightarrow> bool" where
  "is_space c =
     (c \<in> set [CHR 0x20, CHR 0x09, CHR 0x0A, CHR 0x0B, CHR 0x0C, CHR 0x0D,
                CHR 0x1C, CHR 0x1D, CHR 0x1E, CHR 0x1F])"

definition strip :: "string \<Rightarrow> string" where
  "strip s = rev (dropWhile is_space (rev (dropWhile is_space s)))"

definition startswith :: "string \<Rightarrow> string \<Rightarrow> bool" where
  "startswith s prefix = (take (length prefix) s = prefix)"

definition fs_names :: "string list" where
  "fs_names = [''auto'', ''ext4'', ''xfs'', ''btrfs'', ''ntfs'', ''vfat'']"

text \<open>The mount point suggested on entry into step 2 (lines 3061 to 3080).\<close>

definition default_mount_point :: "world \<Rightarrow> fstab_wizard \<Rightarrow> string" where
  "default_mount_point w st =
     (case fstab_drive_list_selected st of
        None \<Rightarrow> ''/mnt/data''
      | Some dev \<Rightarrow>
          (let label = (case label_query w of None \<Rightarrow> [] | Some out \<Rightarrow> strip out)
           in if label \<noteq> [] then ''/mnt/'' @ label
              else if last (split_on CHR ''/'' dev) \<noteq> [] then ''/mnt/'' @ last (split_on CHR ''/'' dev)
              else ''/mnt/data''))"

definition fstab_populate_review :: "fstab_wizard \<Rightarrow> fstab_wizard" where
  "fstab_populate_review st =
     (let device = format_attr (fstab_selected_drive st); mp = format_attr (mount_point st);
          fs = format_attr (fs_type st); opts = format_attr (mount_options st);
          fstab_line = device @ [CHR 0x09] @ mp @ [CHR 0x09] @ fs @ [CHR 0x09] @ opts
                       @ [CHR 0x09] @ ''0 2''
      in st\<lparr>summary_line := Some fstab_line,
            fstab_review_summary :=
              ''Device: '' @ device @ [CHR 0x0A] @ ''Mount point: '' @ mp @ [CHR 0x0A]
              @ ''Filesystem: '' @ fs @ [CHR 0x0A] @ ''Options: '' @ opts @ [CHR 0x0A, CHR 0x0A]
              @ ''<tt>'' @ fstab_line @ ''</tt>''\<rparr>)"

definition fstab_show_step :: "world \<Rightarrow> rat \<Rightarrow> fstab_wizard \<Rightarrow> fstab_wizard" where
  "fstab_show_step w step st0 =
     (let st = st0\<lparr>current_step := step\<rparr>
      in if step = 0 then
           st\<lparr>visible_child := ''intro'', back_sensitive := False, next_sensitive := True,
              next_label := ''Next''\<rparr>
         else if step = 1 then
           st\<lparr>fstab_drive_list := listed w, fstab_drive_list_selected := None,
              visible_child := ''drive'', back_sensitive := True, next_sensitive := True,
              next_label := ''Next''\<rparr>
         else if step = 3 / 2 then
           st\<lparr>format_done := False, format_status := ''Not formatted yet.'',
              visible_child := ''format'', back_sensitive := True, next_sensitive := False,
              next_label := ''Next''\<rparr>
         else if step = 2 then
           st\<lparr>mp_entry := default_mount_point w st,
              visible_child := ''mountpoint'', back_sensitive := True, next_sensitive := True,
              next_label := ''Next''\<rparr>
         else if step = 3 then
           st\<lparr>visible_child := ''fstype'', back_sensitive := True, next_sensitive := True,
              next_label := ''Next''\<rparr>
         else if step = 4 then
           st\<lparr>visible_child := ''options'', back_sensitive := True, next_sensitive := True,
              next_label := ''Next''\<rparr>
         else if step = 5 then
           st\<lparr>visible_child := ''label'', back_sensitive := True, next_sensitive := True,
              next_label := ''Next''\<rparr>
         else if step = 6 then
           (fstab_populate_review st)
             \<lparr>visible_child := ''review'', back_sensitive := True, next_sensitive := True,
              next_label := ''Confirm''\<rparr>
         else if step = 7 then
           st\<lparr>visible_child := ''done'', back_sensitive := False, next_sensitive := False,
              finish_sensitive := True\<rparr>
         else st)"

text \<open>
  Lines 3173 to 3181: the line for /etc/fstab, from the stripped stdout of
  \<open>blkid -s UUID -o value <device>\<close> (\<open>None\<close> when the call raises).
\<close>

definition fstab_line :: "string option \<Rightarrow> fstab_wizard \<Rightarrow> string" where
  "fstab_line blkid_out st =
     (let uuid = (case blkid_out of None \<Rightarrow> [] | Some out \<Rightarrow> strip out)
      in (if uuid \<noteq> [] then ''UUID='' @ uuid else format_attr (fstab_selected_drive st))
         @ [CHR 0x09] @ format_attr (mount_point st) @ [CHR 0x09] @ format_attr (fs_type st)
         @ [CHR 0x09] @ format_attr (mount_options st) @ [CHR 0x09] @ ''0 2'')"

text \<open>Lines 3183 to 3199: the shell commands, joined and followed by the pause.\<close>

definition fstab_shell_cmd :: "string option \<Rightarrow> fstab_wizard \<Rightarrow> string" where
  "fstab_shell_cmd blkid_out st =
     (let cmds =
            (case (volume_label st, fs_type st, fstab_selected_drive st) of
               (Some label, Some fs, Some device) \<Rightarrow>
                 if label \<noteq> [] \<and> fs \<in> set [''ext4'', ''xfs'', ''btrfs''] \<and> device \<noteq> []
                 then [''sudo mkfs.'' @ fs @ '' -L '' @ shlex_quote label @ '' '' @ shlex_quote device]
                 else []
             | _ \<Rightarrow> [])
            @ (case mount_point st of
                 None \<Rightarrow> []
               | Some mp \<Rightarrow> if mp \<noteq> [] then [''sudo mkdir -p '' @ shlex_quote mp] else [])
            @ [''echo '' @ [CHR 0x27] @ fstab_line blkid_out st @ [CHR 0x27]
               @ '' | sudo tee -a /etc/fstab'',
               ''sudo mount -a'']
      in join ''; '' cmds @ press_any_key)"

definition fstab_on_next :: "world \<Rightarrow> fstab_wizard \<Rightarrow> string option \<times> fstab_wizard" where
  "fstab_on_next w st =
     (if current_step st = 0 then (None, fstab_show_step w 1 st)
      else if current_step st = 1 then
        (case fstab_drive_list_selected st of
           None \<Rightarrow> (Some ''Please select a drive to continue.'', st)
         | Some dev \<Rightarrow>
             (let is_bcache = startswith dev ''/dev/bcache'';
                  format_needed =
                    (is_bcache \<and> (case fstype_query w of None \<Rightarrow> True | Some out \<Rightarrow> strip out = []));
                  s = st\<lparr>fstab_selected_drive := Some dev, needs_format := format_needed\<rparr>
              in if format_needed then (None, fstab_show_step w (3 / 2) s)
                 else (None, fstab_show_step w 2 s)))
      else if current_step st = 3 / 2 then
        (if \<not> format_done st
         then (Some ''You must format the bcache device before proceeding.'', st)
         else (None, fstab_show_step w 2 st))
      else if current_step st = 2 then
        (let mp = strip (mp_entry st)
         in if mp = [] \<or> \<not> startswith mp ''/''
            then (Some ''Please enter a valid mount point (must start with /).'', st)
            else (None, fstab_show_step w 3 (st\<lparr>mount_point := Some mp\<rparr>)))
      else if current_step st = 3 then
        (None, fstab_show_step w 4 (st\<lparr>fs_type := Some (fs_combo st)\<rparr>))
      else if current_step st = 4 then
        (None, fstab_show_step w 5
                 (st\<lparr>mount_options :=
                       Some (if strip (opt_entry st) \<noteq> [] then strip (opt_entry st)
                             else ''defaults'')\<rparr>))
      else if current_step st = 5 then
        (None, fstab_show_step w 6 (st\<lparr>volume_label := Some (strip (label_entry st))\<rparr>))
      else if current_step st = 6 then
        (case terminal w of
           None \<Rightarrow> (Some no_terminal, st)
         | Some term \<Rightarrow>
             (let cmd = terminal_command term (fstab_shell_cmd (uuid_query w) st);
                  st1 = st\<lparr>launched := launched st @ [cmd]\<rparr>;
                  st2 = (case run w of
                           Returned \<Rightarrow>
                             st1\<lparr>done_msg :=
                                   ''Fstab entry added and drive mounted! You can now use your drive.''\<rparr>
                         | Raised k text \<Rightarrow> st1\<lparr>done_msg := ''Failed: '' @ text\<rparr>)
              in (None, fstab_show_step w 7 st2)))
      else (None, st))"

definition fstab_on_back :: "world \<Rightarrow> fstab_wizard \<Rightarrow> fstab_wizard" where
  "fstab_on_back w st =
     (if current_step st = 1 then fstab_show_step w 0 st
      else if current_step st = 2 then fstab_show_step w 1 st
      else if current_step st = 3 then fstab_show_step w 2 st
      else if current_step st = 4 then fstab_show_step w 3 st
      else if current_step st = 5 then fstab_show_step w 4 st
      else st)"

text \<open>
  \<open>_on_format_bcache\<close>: \<open>mkfs.<fs>\<close> with the active text of the combo box on the selected
  drive (\<open>/dev/null\<close> when there is none, \<open>ext4\<close> when the text is empty).
\<close>

definition fstab_on_format_bcache ::
  "world \<Rightarrow> fstab_wizard \<Rightarrow> string option \<times> fstab_wizard" where
  "fstab_on_format_bcache w st =
     (case terminal w of
        None \<Rightarrow> (Some no_terminal, st)
      | Some term \<Rightarrow>
          (let dev = (if chosen (fstab_selected_drive st)
                      then format_attr (fstab_selected_drive st) else ''/dev/null'');
               fs = (if fs_combo st \<noteq> [] then fs_combo st else ''ext4'');
               cmd = terminal_command term
                       (''sudo mkfs.'' @ shlex_quote fs @ '' '' @ shlex_quote dev @ press_any_key);
               st1 = st\<lparr>launched := launched st @ [cmd]\<rparr>
           in case run w of
                Returned \<Rightarrow>
                  (None, st1\<lparr>format_done := True, format_status := ''Device formatted.'',
                              next_sensitive := True\<rparr>)
              | Raised k text \<Rightarrow> (None, st1\<lparr>format_status := ''Failed: '' @ text\<rparr>)))"

definition fstab_fire :: "world \<Rightarrow> event \<Rightarrow> fstab_wizard \<Rightarrow> fstab_wizard" where
  "fstab_fire w e st =
     (case e of
        Next \<Rightarrow> if next_sensitive st then snd (fstab_on_next w st) else st
      | Back \<Rightarrow> if back_sensitive st then fstab_on_back w st else st
      | Click b \<Rightarrow>
          if visible_child st = ''format'' \<and> b = ''format_btn''
          then snd (fstab_on_format_bcache w st)
          else st
      | Select l ds \<Rightarrow>
          if visible_child st = ''drive'' \<and> l = ''drive_list''
          then st\<lparr>fstab_drive_list_selected := find (\<lambda>d. d \<in> set ds) (fstab_drive_list st)\<rparr>
          else st
      | Choose l r \<Rightarrow>
          (case r of
             None \<Rightarrow> st
           | Some i \<Rightarrow>
               if visible_child st = ''fstype'' \<and> l = ''fs_combo'' \<and> i < length fs_names
               then st\<lparr>fs_combo := fs_names ! i\<rparr>
               else st)
      | Edit l text \<Rightarrow>
          if visible_child st = ''mountpoint'' \<and> l = ''mp_entry'' then st\<lparr>mp_entry := text\<rparr>
          else if visible_child st = ''options'' \<and> l = ''opt_entry'' then st\<lparr>opt_entry := text\<rparr>
          else if visible_child st = ''label'' \<and> l = ''label_entry'' then st\<lparr>label_entry := text\<rparr>
          else st
      | Deliver ok text \<Rightarrow> st)"

subsection \<open>BenchmarkWizard\<close>

text \<open>
  The dict that is appended to the history file, and the window. \<open>test_options\<close> is the
  pair of the keys \<open>size\<close> and \<open>duration\<close> (\<open>None\<close>: the empty dict of \<open>__init__\<close>);
  \<open>type_list\<close> is the index of the selected row of that list. \<open>bench_saved\<close> is not an
  attribute: it lists the results that \<open>save_result\<close> has written. \<open>prev_runs\<close> holds
  the entries of the history for which \<open>prev_runs_box\<close> has a row, in the order of the
  rows. The texts of the review and result labels and of these rows, which format
  \<open>test_options\<close> as a dict, are left out.
\<close>

record benchmark_result =
  timestamp :: string
  device :: string
  test_type_label :: string
  options :: "(string \<times> string) option"
  summary :: string
  raw_output :: string

record benchmark_wizard = wizard +
  bench_selected_drive :: "string option"
  test_type :: "nat option"
  test_options :: "(string \<times> string) option"
  bench_result :: "benchmark_result option"
  size_entry :: string
  dur_entry :: string
  bench_drive_list :: "string list"
  bench_drive_list_selected :: "string option"
  type_list :: "nat option"
  bench_saved :: "benchmark_result list"
  prev_runs :: "json list"

definition type_labels :: "string list" where
  "type_labels = [''Sequential Read'', ''Sequential Write'', ''Random Read'', ''Random Write'']"

text \<open>
  \<open>BenchmarkResultsHelper\<close> (lines 3330 to 3355). The result is written as the JSON
  object of its six keys. \<open>save_result\<close> appends it to what \<open>load_results\<close> returns,
  which raises AttributeError unless that is a list, and writes the file: the system
  that it leaves holds the longer list. \<open>get_results_for_device\<close> calls \<open>r.get\<close> on
  every entry of what \<open>load_results\<close> returns; only a dict has that method.
\<close>

definition result_json :: "benchmark_result \<Rightarrow> json" where
  "result_json r =
     JObj [(''timestamp'', JStr (timestamp r)), (''device'', JStr (device r)),
           (''test_type'', JStr (test_type_label r)),
           (''options'',
            (case options r of
               None \<Rightarrow> JObj []
             | Some (s, d) \<Rightarrow> JObj [(''size'', JStr s), (''duration'', JStr d)])),
           (''summary'', JStr (summary r)), (''raw_output'', JStr (raw_output r))]"

definition save_result :: "world \<Rightarrow> json \<Rightarrow> exc_kind + world" where
  "save_result w result =
     (case history w of
        JArr results \<Rightarrow>
          if save_returns w then Inr (w\<lparr>history := JArr (results @ [result])\<rparr>)
          else Inl OtherError
      | _ \<Rightarrow> Inl AttributeError)"

fun results_for_device :: "json list \<Rightarrow> string \<Rightarrow> exc_kind + json list" where
  "results_for_device [] dev = Inr []"
| "results_for_device (r # rest) dev =
     (case r of
        JObj d \<Rightarrow>
          (case results_for_device rest dev of
             Inl e \<Rightarrow> Inl e
           | Inr found \<Rightarrow> Inr (if dict_get d ''device'' JNull = JStr dev then r # found else found))
      | _ \<Rightarrow> Inl AttributeError)"

definition get_results_for_device :: "world \<Rightarrow> string \<Rightarrow> exc_kind + json list" where
  "get_results_for_device w dev =
     (case iter_items (history w) of
        Inl e \<Rightarrow> Inl e
      | Inr results \<Rightarrow> results_for_device results dev)"

text \<open>
  \<open>_populate_results\<close> (lines 3736 to 3748): without a result it sets the label and
  returns. Otherwise it empties \<open>prev_runs_box\<close>, reads the history back and adds a row
  for each of the last five entries of the device, the latest first. The label of a row
  reads the keys \<open>timestamp\<close>, \<open>test_type\<close>, \<open>options\<close> and \<open>summary\<close> of the entry with
  \<open>r[...]\<close>, which raises KeyError on a missing key. Nothing in \<open>_populate_results\<close> or
  in its callers catches an exception: the function returns the exception that leaves
  it, if any, and the window as it is then.
\<close>

definition row_keys :: "string list" where
  "row_keys = [''timestamp'', ''test_type'', ''options'', ''summary'']"

definition has_row_keys :: "json \<Rightarrow> bool" where
  "has_row_keys r =
     (case r of JObj d \<Rightarrow> list_all (\<lambda>k. map_of d k \<noteq> None) row_keys | _ \<Rightarrow> False)"

definition last_five :: "'a list \<Rightarrow> 'a list" where
  \<comment> \<open>\<open>prev[-5:]\<close>\<close>
  "last_five xs = drop (length xs - 5) xs"

definition benchmark_populate_results ::
  "world \<Rightarrow> benchmark_wizard \<Rightarrow> exc_kind option \<times> benchmark_wizard" where
  "benchmark_populate_results w st =
     (case bench_result st of
        None \<Rightarrow> (None, st)
      | Some r \<Rightarrow>
          (let st1 = st\<lparr>prev_runs := []\<rparr>
           in case get_results_for_device w (device r) of
                Inl e \<Rightarrow> (Some e, st1)
              | Inr prev \<Rightarrow>
                  (let rows = rev (last_five prev)
                   in if list_all has_row_keys rows then (None, st1\<lparr>prev_runs := rows\<rparr>)
                      else (Some KeyError, st1\<lparr>prev_runs := takeWhile has_row_keys rows\<rparr>))))"

text \<open>
  \<open>_populate_review\<close> reads the label of the selected row of \<open>type_list\<close>; without a
  selected row that raises AttributeError, after \<open>current_step\<close> was assigned and
  before anything else of step 4. In step 5 \<open>_populate_results\<close> is called first: the
  page is switched and Back and Next are made insensitive only if it returns.
\<close>

definition benchmark_show_step :: "world \<Rightarrow> rat \<Rightarrow> benchmark_wizard \<Rightarrow> benchmark_wizard" where
  "benchmark_show_step w step st0 =
     (let st = st0\<lparr>current_step := step\<rparr>
      in if step = 0 then
           st\<lparr>visible_child := ''intro'', back_sensitive := False, next_sensitive := True,
              next_label := ''Next''\<rparr>
         else if step = 1 then
           st\<lparr>bench_drive_list := listed w, bench_drive_list_selected := None,
              visible_child := ''drive'', back_sensitive := True, next_sensitive := True,
              next_label := ''Next''\<rparr>
         else if step = 2 then
           st\<lparr>visible_child := ''type'', back_sensitive := True, next_sensitive := True,
              next_label := ''Next''\<rparr>
         else if step = 3 then
           st\<lparr>visible_child := ''options'', back_sensitive := True, next_sensitive := True,
              next_label := ''Next''\<rparr>
         else if step = 4 then
           (if type_list st = None then st
            else st\<lparr>visible_child := ''review'', back_sensitive := True, next_sensitive := True,
                    next_label := ''Run Test''\<rparr>)
         else if step = 5 then
           (case benchmark_populate_results w st of
              (Some e, st1) \<Rightarrow> st1
            | (None, st1) \<Rightarrow>
                st1\<lparr>visible_child := ''result'', back_sensitive := False,
                    next_sensitive := False, finish_sensitive := True\<rparr>)
         else st)"

definition path_join :: "string \<Rightarrow> string \<Rightarrow> string" where
  \<comment> \<open>\<open>os.path.join(a, b)\<close> for a relative \<open>b\<close>\<close>
  "path_join a b = (if a = [] \<or> endswith a ''/'' then a @ b else a @ ''/'' @ b)"

text \<open>
  Step 4 of \<open>_on_next\<close> (lines 3597 to 3667). An exception that nothing catches (the
  block count, the run that creates the test file, the label of a missing row, the
  write of the history file, the rows of the previous runs) ends the handler where it
  is raised.
\<close>

definition benchmark_mountpoint :: "world \<Rightarrow> string option" where
  \<comment> \<open>the first line of the stripped stdout of \<open>lsblk -no MOUNTPOINT\<close>, if there is one\<close>
  "benchmark_mountpoint w =
     (case mountpoint_query w of
        None \<Rightarrow> None
      | Some out \<Rightarrow> (case splitlines (strip out) of [] \<Rightarrow> None | l # _ \<Rightarrow> Some l))"

definition benchmark_record :: "world \<Rightarrow> benchmark_wizard \<Rightarrow> string option \<times> benchmark_wizard" where
  \<comment> \<open>lines 3656 to 3667, after the terminal has returned\<close>
  "benchmark_record w st =
     (case type_list st of
        None \<Rightarrow> (None, st)
      | Some row \<Rightarrow>
          (let r = \<lparr>timestamp = now w,
                     device = format_attr (bench_selected_drive st),
                     test_type_label = (if row < length type_labels then type_labels ! row else []),
                     options = test_options st,
                     summary = ''(See terminal for actual speed)'',
                     raw_output = ''(See terminal for dd output)''\<rparr>
           in case save_result w (result_json r) of
                Inl e \<Rightarrow> (None, st)
              | Inr w' \<Rightarrow>
                  (None, benchmark_show_step w' 5
                           (st\<lparr>bench_saved := bench_saved st @ [r], bench_result := Some r\<rparr>))))"

definition benchmark_dd :: "world \<Rightarrow> nat \<Rightarrow> string \<Rightarrow> string \<Rightarrow> benchmark_wizard
     \<Rightarrow> string option \<times> benchmark_wizard" where
  \<comment> \<open>lines 3624 to 3654, for the test type 0 or 1\<close>
  "benchmark_dd w t testfile count st =
     (let st0 = (if t = 0 \<and> \<not> testfile_exists w
                 then st\<lparr>launched := launched st
                          @ [[''dd'', ''if=/dev/zero'', ''of='' @ testfile, ''bs=1M'',
                              ''count='' @ count, ''oflag=direct'']]\<rparr>
                 else st);
          dd_cmd = (if t = 0
                    then ''dd if='' @ shlex_quote testfile
                         @ '' of=/dev/null bs=1M iflag=direct status=progress''
                    else ''dd if=/dev/zero of='' @ shlex_quote testfile @ '' bs=1M count='' @ count
                         @ '' oflag=direct status=progress'')
      in if t = 0 \<and> \<not> testfile_exists w \<and> \<not> precreate_returns w then (None, st0)
         else
           (case terminal w of
              None \<Rightarrow> (Some no_terminal, st0)
            | Some term \<Rightarrow>
                (let cmd = terminal_command term
                             (''sudo '' @ dd_cmd @ ''; sync; rm -f '' @ shlex_quote testfile
                              @ press_any_key);
                     st1 = st0\<lparr>launched := launched st0 @ [cmd]\<rparr>
                 in case run w of
                      Raised k text \<Rightarrow> (Some (''Failed to launch terminal: '' @ text), st1)
                    | Returned \<Rightarrow> benchmark_record w st1)))"

definition benchmark_run_test ::
  "world \<Rightarrow> benchmark_wizard \<Rightarrow> string option \<times> benchmark_wizard" where
  "benchmark_run_test w st =
     (if \<not> chosen (bench_selected_drive st) then (Some ''No valid drive selected.'', st)
      else
        (case benchmark_mountpoint w of
           None \<Rightarrow>
             (Some ''Could not determine a valid mount point for this drive. Please ensure it is mounted.'', st)
         | Some mountpoint \<Rightarrow>
             if mountpoint = [] \<or> \<not> is_dir w then
               (Some ''Could not determine a valid mount point for this drive. Please ensure it is mounted.'', st)
             else
               (case block_count (case test_options st of None \<Rightarrow> ''1G'' | Some (s, d) \<Rightarrow> s) of
                  Inl e \<Rightarrow> (None, st)
                | Inr count \<Rightarrow>
                    (case test_type st of
                       None \<Rightarrow>
                         (Some ''Only sequential read/write tests are supported in this version.'', st)
                     | Some t \<Rightarrow>
                         if 2 \<le> t then
                           (Some ''Only sequential read/write tests are supported in this version.'', st)
                         else benchmark_dd w t (path_join mountpoint ''darkdiskz_benchmark.tmp'')
                                count st))))"

definition benchmark_on_next ::
  "world \<Rightarrow> benchmark_wizard \<Rightarrow> string option \<times> benchmark_wizard" where
  "benchmark_on_next w st =
     (if current_step st = 0 then (None, benchmark_show_step w 1 st)
      else if current_step st = 1 then
        (case bench_drive_list_selected st of
           None \<Rightarrow> (Some ''Please select a drive to continue.'', st)
         | Some dev \<Rightarrow> (None, benchmark_show_step w 2 (st\<lparr>bench_selected_drive := Some dev\<rparr>)))
      else if current_step st = 2 then
        (case type_list st of
           None \<Rightarrow> (Some ''Please select a test type.'', st)
         | Some row \<Rightarrow> (None, benchmark_show_step w 3 (st\<lparr>test_type := Some row\<rparr>)))
      else if current_step st = 3 then
        (None, benchmark_show_step w 4
                 (st\<lparr>test_options := Some (strip (size_entry st), strip (dur_entry st))\<rparr>))
      else if current_step st = 4 then benchmark_run_test w st
      else (None, st))"

definition benchmark_on_back :: "world \<Rightarrow> benchmark_wizard \<Rightarrow> benchmark_wizard" where
  "benchmark_on_back w st =
     (if current_step st = 1 then benchmark_show_step w 0 st
      else if current_step st = 2 then benchmark_show_step w 1 st
      else if current_step st = 3 then benchmark_show_step w 2 st
      else if current_step st = 4 then benchmark_show_step w 3 st
      else st)"

definition benchmark_fire :: "world \<Rightarrow> event \<Rightarrow> benchmark_wizard \<Rightarrow> benchmark_wizard" where
  "benchmark_fire w e st =
     (case e of
        Next \<Rightarrow> if next_sensitive st then snd (benchmark_on_next w st) else st
      | Back \<Rightarrow> if back_sensitive st then benchmark_on_back w st else st
      | Click b \<Rightarrow> st
      | Select l ds \<Rightarrow>
          if visible_child st = ''drive'' \<and> l = ''drive_list''
          then st\<lparr>bench_drive_list_selected := find (\<lambda>d. d \<in> set ds) (bench_drive_list st)\<rparr>
          else st
      | Choose l r \<Rightarrow>
          if visible_child st = ''type'' \<and> l = ''type_list''
             \<and> (case r of None \<Rightarrow> True | Some i \<Rightarrow> i < length type_labels)
          then st\<lparr>type_list := r\<rparr>
          else st
      | Edit l text \<Rightarrow>
          if visible_child st = ''options'' \<and> l = ''size_entry'' then st\<lparr>size_entry := text\<rparr>
          else if visible_child st = ''options'' \<and> l = ''dur_entry'' then st\<lparr>dur_entry := text\<rparr>
          else st
      | Deliver ok text \<Rightarrow> st)"

subsection \<open>SmartWizard\<close>

text \<open>
  \<open>show_btn\<close> says that the button "Show SMART Data in Terminal" was added to the result
  page. The rows that \<open>_show_smart_result\<close> adds for the attributes are left out.
\<close>

record smart_wizard = wizard +
  smart_selected_drive :: "string option"
  selected_test :: "string option"
  smart_drive_list :: "string list"
  smart_drive_list_selected :: "string option"
  test_type_list :: "nat option"
  smart_result_label :: string
  smart_worker :: bool
  show_btn :: bool

definition smart_show_step :: "world \<Rightarrow> rat \<Rightarrow> smart_wizard \<Rightarrow> smart_wizard" where
  "smart_show_step w step st0 =
     (let st = st0\<lparr>current_step := step\<rparr>
      in if step = 0 then
           st\<lparr>visible_child := ''intro'', back_sensitive := False, next_sensitive := True,
              next_label := ''Next''\<rparr>
         else if step = 1 then
           st\<lparr>smart_drive_list := listed w, smart_drive_list_selected := None,
              visible_child := ''drive'', back_sensitive := True, next_sensitive := True,
              next_label := ''Next''\<rparr>
         else if step = 2 then
           st\<lparr>visible_child := ''test'', back_sensitive := True, next_sensitive := True,
              next_label := ''Next''\<rparr>
         else if step = 3 then
           st\<lparr>visible_child := ''result'', back_sensitive := False, next_sensitive := False,
              finish_sensitive := False\<rparr>
         else st)"

definition smart_start_test :: "smart_wizard \<Rightarrow> smart_wizard" where
  "smart_start_test st =
     st\<lparr>smart_result_label := ''Running SMART test... Please wait.'',
        finish_sensitive := False, smart_worker := True\<rparr>"

definition smart_on_next :: "world \<Rightarrow> smart_wizard \<Rightarrow> string option \<times> smart_wizard" where
  "smart_on_next w st =
     (if current_step st = 0 then (None, smart_show_step w 1 st)
      else if current_step st = 1 then
        (case smart_drive_list_selected st of
           None \<Rightarrow> (Some ''Please select a drive to continue.'', st)
         | Some dev \<Rightarrow> (None, smart_show_step w 2 (st\<lparr>smart_selected_drive := Some dev\<rparr>)))
      else if current_step st = 2 then
        (case test_type_list st of
           None \<Rightarrow> (Some ''Please select a test type.'', st)
         | Some row \<Rightarrow>
             (None, smart_start_test
                      (smart_show_step w 3
                         (st\<lparr>selected_test := Some (if row = 0 then ''short'' else ''long'')\<rparr>))))
      else (None, st))"

definition smart_on_back :: "world \<Rightarrow> smart_wizard \<Rightarrow> smart_wizard" where
  "smart_on_back w st =
     (if current_step st = 1 then smart_show_step w 0 st
      else if current_step st = 2 then smart_show_step w 1 st
      else if current_step st = 3 then smart_show_step w 2 st
      else st)"

definition smart_show_smart_result :: "world \<Rightarrow> bool \<Rightarrow> string \<Rightarrow> smart_wizard \<Rightarrow> smart_wizard" where
  "smart_show_smart_result w ok text st =
     (let smart = smart_result w;
          error_msg = text
            @ (if output_text smart \<noteq> []
               then [CHR 0x0A, CHR 0x0A] @ ''STDOUT:'' @ [CHR 0x0A] @ output_text smart else [])
            @ (case error smart of
                 None \<Rightarrow> []
               | Some err \<Rightarrow>
                   if err \<noteq> [] then [CHR 0x0A, CHR 0x0A] @ ''ERROR:'' @ [CHR 0x0A] @ err else [])
      in st\<lparr>smart_result_label :=
               (if ok
                then ''<span foreground='green' weight='bold'>SMART test started successfully!</span>''
                     @ [CHR 0x0A, CHR 0x0A] @ text
                else ''<span foreground='red' weight='bold'>Failed to start SMART test.</span>''
                     @ [CHR 0x0A, CHR 0x0A] @ error_msg),
             finish_sensitive := True, smart_worker := False,
             show_btn := (show_btn st \<or> chosen (smart_selected_drive st))\<rparr>)"

definition smart_on_show_smart_terminal :: "world \<Rightarrow> smart_wizard \<Rightarrow> smart_wizard" where
  "smart_on_show_smart_terminal w st =
     (case terminal w of
        None \<Rightarrow> st
      | Some term \<Rightarrow>
          if \<not> chosen (smart_selected_drive st) then st
          else st\<lparr>launched := launched st
                    @ [terminal_command term
                         (''sudo smartctl -A '' @ shlex_quote (format_attr (smart_selected_drive st))
                          @ press_any_key)]\<rparr>)"

definition smart_fire :: "world \<Rightarrow> event \<Rightarrow> smart_wizard \<Rightarrow> smart_wizard" where
  "smart_fire w e st =
     (case e of
        Next \<Rightarrow> if next_sensitive st then snd (smart_on_next w st) else st
      | Back \<Rightarrow> if back_sensitive st then smart_on_back w st else st
      | Click b \<Rightarrow>
          if visible_child st = ''result'' \<and> b = ''show_btn'' \<and> show_btn st
          then smart_on_show_smart_terminal w st
          else st
      | Select l ds \<Rightarrow>
          if visible_child st = ''drive'' \<and> l = ''drive_list''
          then st\<lparr>smart_drive_list_selected := find (\<lambda>d. d \<in> set ds) (smart_drive_list st)\<rparr>
          else st
      | Choose l r \<Rightarrow>
          if visible_child st = ''test'' \<and> l = ''test_type_list''
             \<and> (case r of None \<Rightarrow> True | Some i \<Rightarrow> i < 2)
          then st\<lparr>test_type_list := r\<rparr>
          else st
      | Edit l text \<Rightarrow> st
      | Deliver ok text \<Rightarrow> if smart_worker st then smart_show_smart_result w ok text st else st)"

subsection \<open>Fresh windows and a sample system\<close>

text \<open>
  Each window after \<open>__init__\<close>: the attributes assigned there, the widgets as
  \<open>_setup_ui\<close> leaves them (buttons sensitive and visible unless set otherwise, Finish
  not sensitive, entries empty unless given a text), then \<open>_show_step(0)\<close>.
\<close>

definition raid_new :: "world \<Rightarrow> raid_wizard" where
  "raid_new w =
     raid_show_step w 0
       \<lparr>current_step = 0, visible_child = ''intro'', back_sensitive = True,
        next_sensitive = True, next_label = ''Next'', finish_sensitive = False, launched = [],
        selected_level = None, selected_drives = [], drive1_wiped = False, drive2_wiped = False,
        wipe_drive1_status = ''Not wiped yet.'', wipe_drive2_status = ''Not wiped yet.'',
        wipe_drive1_btn = True, wipe_drive2_btn = True, level_list = None,
        raid_drive_list = [], raid_drive_list_selected = [], raid_review_summary = [],
        raid_result_label = [], raid_worker = None\<rparr>"

definition bcache_new :: "world \<Rightarrow> bcache_wizard" where
  "bcache_new w =
     bcache_show_step w 0
       \<lparr>current_step = 0, visible_child = ''intro'', back_sensitive = True,
        next_sensitive = True, next_label = ''Next'', finish_sensitive = False, launched = [],
        selected_backing = None, selected_cache = None,
        backing_needs_detach = False, cache_needs_detach = False,
        backing_detached = False, cache_detached = False,
        backing_wiped = False, cache_wiped = False,
        wipe_backing_status = ''Not wiped yet.'', wipe_cache_status = ''Not wiped yet.'',
        wipe_backing_btn = True, wipe_cache_btn = True, wipe_cache_visible = True,
        detach_backing_status = ''Not detached yet.'', detach_cache_status = ''Not detached yet.'',
        detach_backing_visible = True, detach_cache_visible = True, detach_warn = [],
        backing_list = [], backing_list_selected = None,
        cache_list = [], cache_list_selected = None,
        bcache_review_summary = [], bcache_result_label = [], bcache_worker = False\<rparr>"

definition fstab_new :: "world \<Rightarrow> fstab_wizard" where
  "fstab_new w =
     fstab_show_step w 0
       \<lparr>current_step = 0, visible_child = ''intro'', back_sensitive = True,
        next_sensitive = True, next_label = ''Next'', finish_sensitive = False, launched = [],
        fstab_selected_drive = None, mount_point = None, fs_type = None, mount_options = None,
        volume_label = None, summary_line = None, needs_format = False, format_done = False,
        format_status = ''Not formatted yet.'', mp_entry = [], fs_combo = ''auto'',
        opt_entry = [], label_entry = [], fstab_drive_list = [],
        fstab_drive_list_selected = None, fstab_review_summary = [],
        done_msg = ''No changes have been made yet. (This is a preview; actual fstab editing will be implemented next.)''\<rparr>"

definition benchmark_new :: "world \<Rightarrow> benchmark_wizard" where
  "benchmark_new w =
     benchmark_show_step w 0
       \<lparr>current_step = 0, visible_child = ''intro'', back_sensitive = True,
        next_sensitive = True, next_label = ''Next'', finish_sensitive = False, launched = [],
        bench_selected_drive = None, test_type = None, test_options = None,
        bench_result = None, size_entry = ''1G'', dur_entry = ''10'',
        bench_drive_list = [], bench_drive_list_selected = None, type_list = None,
        bench_saved = [], prev_runs = []\<rparr>"

definition smart_new :: "world \<Rightarrow> smart_wizard" where
  "smart_new w =
     smart_show_step w 0
       \<lparr>current_step = 0, visible_child = ''intro'', back_sensitive = True,
        next_sensitive = True, next_label = ''Next'', finish_sensitive = False, launched = [],
        smart_selected_drive = None, selected_test = None, smart_drive_list = [],
        smart_drive_list_selected = None, test_type_list = None, smart_result_label = [],
        smart_worker = False, show_btn = False\<rparr>"

text \<open>
  A system with two disks, an unformatted bcache device and the array /dev/md0, in
  which xterm is found, every command returns, blkid knows a UUID and the history file
  of the benchmarks is empty.
\<close>

definition sample_world :: world where
  "sample_world =
     \<lparr>listed = [''/dev/sdb'', ''/dev/sdc'', ''/dev/bcache0''], terminal = Some ''xterm'',
      run = Returned, fstype_query = Some [], label_query = Some [],
      uuid_query = Some (''1234-ABCD'' @ [CHR 0x0A]), mountpoint_query = Some ''/mnt/data'',
      slaves = (\<lambda>devname. []), is_dir = True, testfile_exists = False,
      precreate_returns = True, save_returns = True, now = ''2024-01-01T00:00:00'',
      smart_result = unavailable ''smartctl not found'' ''smartctl not installed'',
      mdstat = [\<lparr>raid_name = ''/dev/md0'', raid_level = ''raid1'', raid_status = ''active'',
                 raid_devices = [''sda1[0]'', ''sdd1[1]'']\<rparr>],
      history = JArr []\<rparr>"

text \<open>A run of the main loop: one event after the other, each with the system as it is then.\<close>

fun run_events :: "(world \<Rightarrow> event \<Rightarrow> 's \<Rightarrow> 's) \<Rightarrow> (world \<times> event) list \<Rightarrow> 's \<Rightarrow> 's" where
  "run_events fire [] st = st"
| "run_events fire (we # rest) st = run_events fire rest (fire (fst we) (snd we) st)"

text \<open>
  The same system with a history file that holds one entry for /dev/sdb without the
  keys \<open>timestamp\<close>, \<open>test_type\<close> and \<open>options\<close>, and the events of one benchmark of
  /dev/sdb: the drive is selected, then the sequential write test, the options are left
  as they are and the test is run.
\<close>

definition stale_history :: world where
  "stale_history =
     sample_world\<lparr>history := JArr [JObj [(''device'', JStr ''/dev/sdb''),
                                          (''summary'', JStr ''112 MB/s'')]]\<rparr>"

definition benchmark_session :: "world \<Rightarrow> (world \<times> event) list" where
  "benchmark_session w =
     map (Pair w)
       [Next, Select ''drive_list'' [''/dev/sdb''], Next, Choose ''type_list'' (Some 1), Next,
        Next, Next]"

section \<open>Properties of the inventory\<close>

lemma filter_drives_loop_eq:
  "filter_drives_loop ds m u =
     (m @ filter (\<lambda>d. \<not> (is_usb d \<and> lower (transport d) = ''usb'')) ds,
      u @ filter (\<lambda>d. is_usb d \<and> lower (transport d) = ''usb'') ds)"
  by (induction ds arbitrary: m u) simp_all

text \<open>
  C1. \<open>filter_drives\<close> splits its input into (main, usb), keeping the input order: usb
  holds exactly the drives whose \<open>is_usb\<close> flag is set and whose transport is "usb" up to
  letter case, main holds all the others whatever their removable flag is, and every
  drive of the input lands in exactly one of the two lists.
\<close>

theorem filter_drives_partition:
  "filter_drives drives show_usb = (main_drives, usb_drives) \<Longrightarrow>
     usb_drives = filter (\<lambda>d. is_usb d \<and> lower (transport d) = ''usb'') drives \<and>
     main_drives = filter (\<lambda>d. \<not> (is_usb d \<and> lower (transport d) = ''usb'')) drives \<and>
     set main_drives \<union> set usb_drives = set drives \<and>
     set main_drives \<inter> set usb_drives = {} \<and>
     length main_drives + length usb_drives = length drives \<and>
     (\<forall>d. count_list main_drives d + count_list usb_drives d = count_list drives d)"
proof -
  assume a: "filter_drives drives show_usb = (main_drives, usb_drives)"
  let ?p = "\<lambda>d. is_usb d \<and> lower (transport d) = ''usb''"
  from a have u: "usb_drives = filter ?p drives"
    and m: "main_drives = filter (\<lambda>d. \<not> ?p d) drives"
    by (simp_all add: filter_drives_def filter_drives_loop_eq)
  have cnt: "count_list (filter (\<lambda>d. \<not> ?p d) xs) d + count_list (filter ?p xs) d = count_list xs d"
    for xs :: "drive list" and d
    by (induction xs) auto
  have len: "length (filter (\<lambda>d. \<not> ?p d) xs) + length (filter ?p xs) = length xs"
    for xs :: "drive list"
    by (induction xs) auto
  show ?thesis
    unfolding u m using cnt len by auto
qed

theorem filter_drives_partition_witness:
  "filter_drives
     [\<lparr>name = ''/dev/sda'', display_name = JStr ''sda'', drive_size = JStr ''1T'',
        model = JStr ''Disk'', transport = ''sata'', rotational = JBool True,
        is_nvme = False, is_removable = JBool True, is_hotplug = JBool True, is_usb = False\<rparr>,
      \<lparr>name = ''/dev/sdb'', display_name = JStr ''sdb'', drive_size = JStr ''32G'',
        model = JStr ''Stick'', transport = ''USB'', rotational = JBool False,
        is_nvme = False, is_removable = JBool True, is_hotplug = JBool True, is_usb = True\<rparr>] True
   = ([\<lparr>name = ''/dev/sda'', display_name = JStr ''sda'', drive_size = JStr ''1T'',
        model = JStr ''Disk'', transport = ''sata'', rotational = JBool True,
        is_nvme = False, is_removable = JBool True, is_hotplug = JBool True, is_usb = False\<rparr>],
      [\<lparr>name = ''/dev/sdb'', display_name = JStr ''sdb'', drive_size = JStr ''32G'',
        model = JStr ''Stick'', transport = ''USB'', rotational = JBool False,
        is_nvme = False, is_removable = JBool True, is_hotplug = JBool True, is_usb = True\<rparr>])"
proof -
  let ?a = "\<lparr>name = ''/dev/sda'', display_name = JStr ''sda'', drive_size = JStr ''1T'',
        model = JStr ''Disk'', transport = ''sata'', rotational = JBool True,
        is_nvme = False, is_removable = JBool True, is_hotplug = JBool True, is_usb = False\<rparr>"
  let ?b = "\<lparr>name = ''/dev/sdb'', display_name = JStr ''sdb'', drive_size = JStr ''32G'',
        model = JStr ''Stick'', transport = ''USB'', rotational = JBool False,
        is_nvme = False, is_removable = JBool True, is_hotplug = JBool True, is_usb = True\<rparr>"
  have l: "lower ''USB'' = ''usb''" by code_simp
  obtain m u where mu: "filter_drives [?a, ?b] True = (m, u)"
    by (cases "filter_drives [?a, ?b] True") blast
  from filter_drives_partition [OF mu] l have "m = [?a]" and "u = [?b]"
    by simp_all
  with mu show ?thesis by simp
qed

text \<open>
  C9. Whatever the block-device query does (the subprocess raises, its output is not
  JSON, the parsed value has an unexpected shape), \<open>get_drives\<close> returns a list and
  raises nothing; whenever anything went wrong inside, the list is empty, the same
  result as for a system that reports no block device.
\<close>

theorem get_drives_fails_soft:
  "(\<exists>drives. get_drives q = Inr drives) \<and>
   (\<forall>e. get_drives_try q = Inl e \<longrightarrow>
      get_drives q = Inr [] \<and>
      get_drives q = get_drives (Parsed (JObj [(''blockdevices'', JArr [])])))"
proof -
  have empty: "get_drives (Parsed (JObj [(''blockdevices'', JArr [])])) = Inr []"
    by (simp add: get_drives_def get_drives_try_def iter_items_def dict_get_def)
  show ?thesis
    unfolding empty by (cases "get_drives_try q") (simp_all add: get_drives_def)
qed

theorem get_drives_fails_soft_witness:
  "get_drives_try (Parsed (JObj [(''blockdevices'',
      JArr [JObj [(''name'', JStr ''vda''), (''type'', JStr ''disk''), (''tran'', JNull)]])]))
     = Inl AttributeError \<and>
   get_drives (Parsed (JObj [(''blockdevices'',
      JArr [JObj [(''name'', JStr ''vda''), (''type'', JStr ''disk''), (''tran'', JNull)]])]))
     = Inr [] \<and>
   get_drives (NotJson ''lsblk: not found'') = Inr [] \<and>
   get_drives (RunRaised CalledProcessError) = Inr []"
proof -
  let ?q = "Parsed (JObj [(''blockdevices'',
      JArr [JObj [(''name'', JStr ''vda''), (''type'', JStr ''disk''), (''tran'', JNull)]])])"
  have t: "get_drives_try ?q = Inl AttributeError"
    by (simp add: get_drives_try_def iter_items_def make_drive_def dict_get_def)
  have n: "get_drives_try (NotJson ''lsblk: not found'') = Inl JSONDecodeError"
    by (simp add: get_drives_try_def)
  have r: "get_drives_try (RunRaised CalledProcessError) = Inl CalledProcessError"
    by (simp add: get_drives_try_def)
  from t n r get_drives_fails_soft [of ?q]
    get_drives_fails_soft [of "NotJson ''lsblk: not found''"]
    get_drives_fails_soft [of "RunRaised CalledProcessError"]
  show ?thesis by simp
qed

lemma pick_array_name_find:
  "pick_array_name xs U =
     (case find (\<lambda>i. ''/dev/md'' @ str_nat i \<notin> U) xs of
        None \<Rightarrow> ''md10'' | Some i \<Rightarrow> ''md'' @ str_nat i)"
  by (induction xs) (simp_all add: Let_def)

lemma pick_first_free:
  assumes "i < 10" "''/dev/md'' @ str_nat i \<notin> U" "\<forall>j<i. ''/dev/md'' @ str_nat j \<in> U"
  shows "pick_array_name [0..<10] U = ''md'' @ str_nat i"
proof -
  have "find (\<lambda>i. ''/dev/md'' @ str_nat i \<notin> U) [0..<10] = Some i"
    unfolding find_Some_iff using assms by (intro exI[of _ i]) (simp del: upt_Suc)
  then show ?thesis by (simp add: pick_array_name_find del: upt_Suc)
qed

lemma pick_all_taken:
  assumes "\<forall>i<10. ''/dev/md'' @ str_nat i \<in> U"
  shows "pick_array_name [0..<10] U = ''md10''"
proof -
  have "find (\<lambda>i. ''/dev/md'' @ str_nat i \<notin> U) [0..<10] = None"
    unfolding find_None_iff using assms by simp
  then show ?thesis by (simp add: pick_array_name_find del: upt_Suc)
qed

lemma raid_confirm:
  assumes "current_step st = 4" "next_sensitive st"
  shows "raid_fire w Next st = raid_start_creation w (raid_show_step w 5 st)"
  using assms by (simp add: raid_fire_def raid_on_next_def)

lemma raid_show_step_5_keeps:
  "selected_level (raid_show_step w 5 st) = selected_level st \<and>
   selected_drives (raid_show_step w 5 st) = selected_drives st \<and>
   launched (raid_show_step w 5 st) = launched st"
  by (simp add: raid_show_step_def)

lemma raid_start_creation_found:
  assumes "terminal w = Some term" "selected_level t = Some level" "selected_drives t = [d0, d1]"
  shows "launched (raid_start_creation w t) =
           launched t @ [terminal_command term
             (''sudo mdadm --create /dev/'' @ pick_array_name [0..<10] (set (map raid_name (mdstat w)))
              @ '' --level='' @ str_int level @ '' --raid-devices=2 '' @ shlex_quote d0 @ '' ''
              @ shlex_quote d1 @ press_any_key)] \<and>
         raid_worker (raid_start_creation w t) =
           Some (case run w of
                   Returned \<Rightarrow>
                     (True, ''RAID array /dev/''
                            @ pick_array_name [0..<10] (set (map raid_name (mdstat w)))
                            @ '' created (check terminal for details)'')
                 | Raised k text \<Rightarrow> (False, ''Failed to create RAID array: '' @ text))"
  using assms
  by (cases "run w")
     (simp_all add: raid_start_creation_def run_raid_creation_def Let_def format_level_def
        del: upt_Suc)

text \<open>
  C5. Confirming the Review step of the RAID wizard (Next at step 4) shows step 5 and
  starts the creation with the level and the two drives selected in the window: when a
  terminal emulator is found, the command launched in it is
  \<open>sudo mdadm --create /dev/<name> --level=<selected level> --raid-devices=2\<close> followed
  by the two selected device paths (shell-quoted, which leaves a path of letters, digits
  and \<open>_@%+=:,./-\<close> as it is), and the result scheduled for the window follows the
  outcome of that command. The name is mdN for the least N below 10 with /dev/mdN not
  among the names of the arrays discovered then, and md10 when all of md0..md9 are taken.
\<close>

theorem raid_creation_command:
  fixes w :: world and st :: raid_wizard
  defines "names \<equiv> set (map raid_name (mdstat w))"
  defines "array_name \<equiv> pick_array_name [0..<10] names"
  shows
  "(current_step st = 4 \<and> next_sensitive st \<and> terminal w = Some emulator \<and>
    selected_level st = Some level \<and> selected_drives st = [d0, d1] \<longrightarrow>
      current_step (raid_fire w Next st) = 5 \<and>
      launched (raid_fire w Next st) =
        launched st @ [terminal_command emulator
          (''sudo mdadm --create /dev/'' @ array_name @ '' --level='' @ str_int level
           @ '' --raid-devices=2 '' @ shlex_quote d0 @ '' '' @ shlex_quote d1 @ press_any_key)] \<and>
      raid_worker (raid_fire w Next st) =
        Some (case run w of
                Returned \<Rightarrow>
                  (True, ''RAID array /dev/'' @ array_name
                         @ '' created (check terminal for details)'')
              | Raised k text \<Rightarrow> (False, ''Failed to create RAID array: '' @ text))) \<and>
   (\<forall>i<10. ''/dev/md'' @ str_nat i \<notin> names \<and> (\<forall>j<i. ''/dev/md'' @ str_nat j \<in> names)
        \<longrightarrow> array_name = ''md'' @ str_nat i) \<and>
   ((\<forall>i<10. ''/dev/md'' @ str_nat i \<in> names) \<longrightarrow> array_name = ''md10'') \<and>
   (\<forall>d \<in> {d0, d1}. d \<noteq> [] \<and> list_all safe_char d \<longrightarrow> shlex_quote d = d)"
proof -
  have c1: "current_step st = 4 \<and> next_sensitive st \<and> terminal w = Some emulator \<and>
    selected_level st = Some level \<and> selected_drives st = [d0, d1] \<longrightarrow>
      current_step (raid_fire w Next st) = 5 \<and>
      launched (raid_fire w Next st) =
        launched st @ [terminal_command emulator
          (''sudo mdadm --create /dev/'' @ array_name @ '' --level='' @ str_int level
           @ '' --raid-devices=2 '' @ shlex_quote d0 @ '' '' @ shlex_quote d1 @ press_any_key)] \<and>
      raid_worker (raid_fire w Next st) =
        Some (case run w of
                Returned \<Rightarrow>
                  (True, ''RAID array /dev/'' @ array_name
                         @ '' created (check terminal for details)'')
              | Raised k text \<Rightarrow> (False, ''Failed to create RAID array: '' @ text))"
  proof (rule impI, elim conjE)
    assume a: "current_step st = 4" "next_sensitive st" and t: "terminal w = Some emulator"
      and l: "selected_level st = Some level" and d: "selected_drives st = [d0, d1]"
    let ?t = "raid_show_step w 5 st"
    have eq: "raid_fire w Next st = raid_start_creation w ?t" by (rule raid_confirm [OF a])
    have l': "selected_level ?t = Some level" and d': "selected_drives ?t = [d0, d1]"
      and la: "launched ?t = launched st"
      using l d by (simp_all only: raid_show_step_5_keeps)
    have s: "current_step (raid_start_creation w ?t) = 5"
      by (simp add: raid_start_creation_def raid_show_step_def Let_def split: sum.splits)
    from raid_start_creation_found [OF t l' d'] s show
      "current_step (raid_fire w Next st) = 5 \<and>
      launched (raid_fire w Next st) =
        launched st @ [terminal_command emulator
          (''sudo mdadm --create /dev/'' @ array_name @ '' --level='' @ str_int level
           @ '' --raid-devices=2 '' @ shlex_quote d0 @ '' '' @ shlex_quote d1 @ press_any_key)] \<and>
      raid_worker (raid_fire w Next st) =
        Some (case run w of
                Returned \<Rightarrow>
                  (True, ''RAID array /dev/'' @ array_name
                         @ '' created (check terminal for details)'')
              | Raised k text \<Rightarrow> (False, ''Failed to create RAID array: '' @ text))"
      unfolding eq la array_name_def names_def by simp
  qed
  have c2: "\<forall>i<10. ''/dev/md'' @ str_nat i \<notin> names \<and> (\<forall>j<i. ''/dev/md'' @ str_nat j \<in> names)
        \<longrightarrow> array_name = ''md'' @ str_nat i"
    unfolding array_name_def using pick_first_free by blast
  have c3: "(\<forall>i<10. ''/dev/md'' @ str_nat i \<in> names) \<longrightarrow> array_name = ''md10''"
    unfolding array_name_def using pick_all_taken by blast
  have c4: "\<forall>d \<in> {d0, d1}. d \<noteq> [] \<and> list_all safe_char d \<longrightarrow> shlex_quote d = d"
    by (simp add: shlex_quote_def)
  show ?thesis by (intro conjI) (rule c1, rule c2, rule c3, rule c4)
qed

theorem raid_creation_command_witness:
  "launched
     (raid_fire sample_world Next
        (run_events raid_fire
           [(sample_world, Next), (sample_world, Choose ''level_list'' (Some 1)),
            (sample_world, Next),
            (sample_world, Select ''drive_list'' [''/dev/sdb'', ''/dev/sdc'']),
            (sample_world, Next), (sample_world, Click ''wipe_drive1_btn''),
            (sample_world, Click ''wipe_drive2_btn''), (sample_world, Next)]
           (raid_new sample_world))) =
     [[''xterm'', ''-e'', ''bash'', ''-c'', ''sudo wipefs -a /dev/sdb'' @ press_any_key],
      [''xterm'', ''-e'', ''bash'', ''-c'', ''sudo wipefs -a /dev/sdc'' @ press_any_key],
      [''xterm'', ''-e'', ''bash'', ''-c'',
       ''sudo mdadm --create /dev/md1 --level=1 --raid-devices=2 /dev/sdb /dev/sdc''
       @ press_any_key]]"
proof -
  let ?st = "run_events raid_fire
           [(sample_world, Next), (sample_world, Choose ''level_list'' (Some 1)),
            (sample_world, Next),
            (sample_world, Select ''drive_list'' [''/dev/sdb'', ''/dev/sdc'']),
            (sample_world, Next), (sample_world, Click ''wipe_drive1_btn''),
            (sample_world, Click ''wipe_drive2_btn''), (sample_world, Next)]
           (raid_new sample_world)"
  note t = raid_creation_command [where w = sample_world and st = ?st and emulator = "''xterm''"
      and level = 1 and ?d0.0 = "''/dev/sdb''" and ?d1.0 = "''/dev/sdc''"]
  have h: "current_step ?st = 4 \<and> next_sensitive ?st \<and> terminal sample_world = Some ''xterm'' \<and>
    selected_level ?st = Some 1 \<and> selected_drives ?st = [''/dev/sdb'', ''/dev/sdc'']"
    by code_simp
  have la: "launched ?st =
     [[''xterm'', ''-e'', ''bash'', ''-c'', ''sudo wipefs -a /dev/sdb'' @ press_any_key],
      [''xterm'', ''-e'', ''bash'', ''-c'', ''sudo wipefs -a /dev/sdc'' @ press_any_key]]"
    by code_simp
  have n: "pick_array_name [0..<10] (set (map raid_name (mdstat sample_world))) = ''md1''"
    by code_simp
  have q: "shlex_quote ''/dev/sdb'' = ''/dev/sdb''" "shlex_quote ''/dev/sdc'' = ''/dev/sdc''"
    and tc: "terminal_command ''xterm'' c = [''xterm'', ''-e'', ''bash'', ''-c'', c]"
    and l: "str_int 1 = ''1''" for c
    by code_simp+
  from t [THEN conjunct1, THEN mp, OF h, THEN conjunct2, THEN conjunct1]
  show ?thesis unfolding la n q tc l by simp
qed

text \<open>
  C3. The block count for the size text of the Options step: "1G" gives 1024 and "512M"
  gives 512, and a text without a g or m suffix gives the fallback 1024 only when the
  text before its last character is a number, as in "12". For "2" that text is empty,
  line 3616 raises ValueError on \<open>float('')\<close> and no count is produced.
\<close>

theorem block_count_examples:
  "block_count ''1G'' = Inr ''1024'' \<and> block_count ''512M'' = Inr ''512'' \<and>
   block_count ''12'' = Inr ''1024'' \<and> block_count ''2'' = Inl ValueError"
  by code_simp

lemma rotation_stage_rule:
  assumes "contains ''nvme'' (lower devname) \<or> t_transport details = None
           \<or> (\<exists>t. t_transport details = Some (JStr t))"
  defines "nvme \<equiv> contains ''nvme'' (lower devname)
             \<or> (\<exists>t. t_transport details = Some (JStr t) \<and> lower t = ''nvme'')"
  defines "rot \<equiv> (\<exists>v. t_rotation details = Some v \<and> truthy v)"
  shows "\<exists>d. rotation_stage devname details = Inr d \<and>
           (nvme \<longrightarrow> t_trim d = Some (JStr ''Supported'')) \<and>
           t_rotation_speed d =
             Some (if rot then
                     (case t_rpm details of
                        None \<Rightarrow> ''Unknown (HDD)''
                      | Some rpm \<Rightarrow> if rpm \<noteq> [] \<and> rpm \<noteq> ''0'' then rpm @ '' rpm''
                                    else ''Unknown (HDD)'')
                   else if nvme then pcie_gen (t_link_speed details) @ '' (NVMe)''
                   else ''Solid State (SSD)'')"
proof -
  consider (by_name) "contains ''nvme'' (lower devname)"
    | (no_transport) "\<not> contains ''nvme'' (lower devname)" "t_transport details = None"
    | (text_transport) t where "\<not> contains ''nvme'' (lower devname)"
        "t_transport details = Some (JStr t)"
    using assms(1) by (cases "contains ''nvme'' (lower devname)") auto
  then show ?thesis
  proof cases
    case by_name
    then show ?thesis
      by (cases "t_rotation details"; cases "t_rpm details")
         (auto simp: rotation_stage_def nvme_def rot_def Let_def truthy_def)
  next
    case no_transport
    have "lower [] \<noteq> ''nvme''" by (simp add: lower_def)
    with no_transport show ?thesis
      by (cases "t_rotation details"; cases "t_rpm details")
         (auto simp: rotation_stage_def nvme_def rot_def Let_def truthy_def)
  next
    case text_transport
    then show ?thesis
      by (cases "t_rotation details"; cases "t_rpm details")
         (auto simp: rotation_stage_def nvme_def rot_def Let_def truthy_def)
  qed
qed

text \<open>
  C6. The rule for the rotation/speed summary (lemma \<open>rotation_stage_rule\<close>) is what
  lines 267 to 291 compute whenever the test for NVMe can be made. It cannot for a
  device whose name does not contain "nvme" and whose transport lsblk reports as
  \<open>null\<close>: \<open>details.get('transport', '')\<close> is then \<open>None\<close>, \<open>.lower()\<close> raises
  AttributeError, and the result holds the key \<open>error\<close> and no summary at all, where
  the rule asks for "Solid State (SSD)" on a non-rotational device. The same device
  with the transport "virtio" gets that summary.
\<close>

theorem technical_details_null_transport:
  "t_rotation_speed (get_technical_details ''/dev/vda''
      \<lparr>lsblk = Parsed (JObj [(''blockdevices'',
                 JArr [JObj [(''name'', JStr ''vda''), (''rota'', JBool False),
                             (''pttype'', JStr ''gpt''), (''tran'', JNull),
                             (''rm'', JBool False), (''model'', JNull)]])]),
       trim_probe = Parsed (JObj [(''blockdevices'', JArr [JObj [(''name'', JStr ''vda'')]])]),
       udevadm = Some ''E: DEVNAME=/dev/vda'', mdstat = Some ''Personalities : '',
       bcache_ls = Some 2\<rparr>) = None \<and>
   t_error (get_technical_details ''/dev/vda''
      \<lparr>lsblk = Parsed (JObj [(''blockdevices'',
                 JArr [JObj [(''name'', JStr ''vda''), (''rota'', JBool False),
                             (''pttype'', JStr ''gpt''), (''tran'', JNull),
                             (''rm'', JBool False), (''model'', JNull)]])]),
       trim_probe = Parsed (JObj [(''blockdevices'', JArr [JObj [(''name'', JStr ''vda'')]])]),
       udevadm = Some ''E: DEVNAME=/dev/vda'', mdstat = Some ''Personalities : '',
       bcache_ls = Some 2\<rparr>) = Some AttributeError \<and>
   t_rotation_speed (get_technical_details ''/dev/vda''
      \<lparr>lsblk = Parsed (JObj [(''blockdevices'',
                 JArr [JObj [(''name'', JStr ''vda''), (''rota'', JBool False),
                             (''pttype'', JStr ''gpt''), (''tran'', JStr ''virtio''),
                             (''rm'', JBool False), (''model'', JNull)]])]),
       trim_probe = Parsed (JObj [(''blockdevices'', JArr [JObj [(''name'', JStr ''vda'')]])]),
       udevadm = Some ''E: DEVNAME=/dev/vda'', mdstat = Some ''Personalities : '',
       bcache_ls = Some 2\<rparr>) = Some ''Solid State (SSD)''"
  by code_simp

lemma sudo_always_never_returns:
  "length cmds mod 3 = 0 \<Longrightarrow> get_smart_info depth sudo_always dev cmds = None"
proof (induction depth arbitrary: cmds)
  case 0
  then show ?case by simp
next
  case (Suc depth)
  have c: "contains ''Permission denied''
             ''Smartctl open device: /dev/sda failed: Permission denied''"
    by code_simp
  have m1: "Suc (length cmds) mod 3 = 1" and m2: "Suc (Suc (length cmds)) mod 3 = 2"
    using Suc.prems by presburger+
  have w0: "sudo_always (length cmds) = Completed 0 ''/usr/sbin/smartctl'' []"
    unfolding sudo_always_def Suc.prems by simp
  have w1: "sudo_always (Suc (length cmds))
              = Completed 1 [] ''Smartctl open device: /dev/sda failed: Permission denied''"
    unfolding sudo_always_def m1 by simp
  have w2: "sudo_always (Suc (Suc (length cmds)))
              = Completed 0 ''SMART overall-health self-assessment test result: PASSED'' []"
    unfolding sudo_always_def m2 by simp
  have ih: "get_smart_info depth sudo_always dev
              (cmds @ [[''which'', ''smartctl''], [''smartctl'', ''-H'', ''-A'', dev],
                       [''sudo'', ''smartctl'', ''-H'', ''-A'', dev]]) = None"
    using Suc.prems by (intro Suc.IH) simp
  show ?case by (simp add: Let_def w0 w1 w2 c ih)
qed

text \<open>
  C2. Once the unprivileged query was refused with code 1 and "Permission denied", the
  query is to be run under sudo exactly once. When that escalated run succeeds, line 159
  drops its output and calls \<open>get_smart_info\<close> again: the unprivileged query is refused
  again and a second escalated run follows. In the system \<open>sudo_works_once\<close> one call
  runs the query under sudo twice; in the system \<open>sudo_always\<close> no depth of calls is
  enough for \<open>get_smart_info\<close> to return.
\<close>

theorem smart_retry_repeats:
  "get_smart_info 2 sudo_works_once ''/dev/sda'' [] =
     Some (Inr (unavailable ''Command failed: sudo: a password is required''
                            ''smartctl returned code 2''),
           [[''which'', ''smartctl''], [''smartctl'', ''-H'', ''-A'', ''/dev/sda''],
            [''sudo'', ''smartctl'', ''-H'', ''-A'', ''/dev/sda''],
            [''which'', ''smartctl''], [''smartctl'', ''-H'', ''-A'', ''/dev/sda''],
            [''sudo'', ''smartctl'', ''-H'', ''-A'', ''/dev/sda'']]) \<and>
   get_smart_info depth sudo_always ''/dev/sda'' [] = None"
proof -
  have a: "get_smart_info 2 sudo_works_once ''/dev/sda'' [] =
     Some (Inr (unavailable ''Command failed: sudo: a password is required''
                            ''smartctl returned code 2''),
           [[''which'', ''smartctl''], [''smartctl'', ''-H'', ''-A'', ''/dev/sda''],
            [''sudo'', ''smartctl'', ''-H'', ''-A'', ''/dev/sda''],
            [''which'', ''smartctl''], [''smartctl'', ''-H'', ''-A'', ''/dev/sda''],
            [''sudo'', ''smartctl'', ''-H'', ''-A'', ''/dev/sda'']])"
    by code_simp
  have b: "get_smart_info depth sudo_always ''/dev/sda'' [] = None"
    by (rule sudo_always_never_returns) simp
  from a b show ?thesis by (rule conjI)
qed

text \<open>
  The other half: when the escalated run raises, or exits with a code other than 0 and
  4, \<open>get_smart_info\<close> returns at once, after exactly these three commands, a result
  that is not available and whose error is the one of the escalated run.
\<close>

lemma smart_failed_escalation:
  fixes device :: string and cmds :: "string list list"
  defines "cmds3 \<equiv> cmds @ [[''which'', ''smartctl''], [''smartctl'', ''-H'', ''-A'', device],
                              [''sudo'', ''smartctl'', ''-H'', ''-A'', device]]"
  assumes found: "world (length cmds) = Completed 0 out0 err0"
    and denied: "world (Suc (length cmds)) = Completed 1 out err"
                "contains ''Permission denied'' err"
  shows "(\<forall>k m. world (Suc (Suc (length cmds))) = Failed k m \<longrightarrow>
            (\<exists>r. get_smart_info (Suc depth) world device cmds = Some (Inr r, cmds3) \<and>
                 \<not> available r \<and> error r = Some m)) \<and>
         (\<forall>rc' out' err'. world (Suc (Suc (length cmds))) = Completed rc' out' err' \<and>
            rc' \<noteq> 0 \<and> rc' \<noteq> 4 \<longrightarrow>
            (\<exists>r. get_smart_info (Suc depth) world device cmds = Some (Inr r, cmds3) \<and>
                 \<not> available r \<and> error r = Some (''smartctl returned code '' @ str_int rc') \<and>
                 output_text r = ''Command failed: '' @ err'))"
  using found denied by (auto simp: Let_def unavailable_def cmds3_def)


section \<open>Properties of the wizards\<close>

lemma raid_show_step_step [simp]: "current_step (raid_show_step w k st) = k"
  by (simp add: raid_show_step_def Let_def raid_update_cleanse_ui_def raid_populate_review_def)

lemma bcache_show_step_step [simp]: "current_step (bcache_show_step w k st) = k"
  by (simp add: bcache_show_step_def Let_def bcache_update_cleanse_ui_def
      bcache_populate_review_def bcache_update_detach_ui_def split: option.splits)

lemma fstab_show_step_step [simp]: "current_step (fstab_show_step w k st) = k"
  by (simp add: fstab_show_step_def Let_def fstab_populate_review_def)

lemma benchmark_populate_frame:
  "current_step (snd (benchmark_populate_results w st)) = current_step st \<and>
   visible_child (snd (benchmark_populate_results w st)) = visible_child st \<and>
   back_sensitive (snd (benchmark_populate_results w st)) = back_sensitive st \<and>
   next_sensitive (snd (benchmark_populate_results w st)) = next_sensitive st"
  by (simp add: benchmark_populate_results_def Let_def split: option.splits sum.splits)

lemma benchmark_show_step_step [simp]: "current_step (benchmark_show_step w k st) = k"
proof (cases "k = 5")
  case True
  obtain x y where p: "benchmark_populate_results w (st\<lparr>current_step := 5\<rparr>) = (x, y)"
    by (cases "benchmark_populate_results w (st\<lparr>current_step := 5\<rparr>)")
  from benchmark_populate_frame [of w "st\<lparr>current_step := 5\<rparr>"] p have "current_step y = 5"
    by simp
  then show ?thesis unfolding True by (cases x) (simp_all add: benchmark_show_step_def Let_def p)
next
  case False
  then show ?thesis by (simp add: benchmark_show_step_def Let_def)
qed

lemma benchmark_show_step_5_returns:
  assumes "fst (benchmark_populate_results w (t\<lparr>current_step := 5\<rparr>)) = None"
  shows "visible_child (benchmark_show_step w 5 t) = ''result'' \<and>
         \<not> back_sensitive (benchmark_show_step w 5 t) \<and>
         \<not> next_sensitive (benchmark_show_step w 5 t)"
proof -
  obtain y where p: "benchmark_populate_results w (t\<lparr>current_step := 5\<rparr>) = (None, y)"
    using assms by (cases "benchmark_populate_results w (t\<lparr>current_step := 5\<rparr>)") simp
  show ?thesis by (simp add: benchmark_show_step_def Let_def p)
qed

lemma benchmark_show_step_5_raises:
  assumes "fst (benchmark_populate_results w (t\<lparr>current_step := 5\<rparr>)) = Some e"
  shows "visible_child (benchmark_show_step w 5 t) = visible_child t \<and>
         back_sensitive (benchmark_show_step w 5 t) = back_sensitive t \<and>
         next_sensitive (benchmark_show_step w 5 t) = next_sensitive t"
proof -
  obtain y where p: "benchmark_populate_results w (t\<lparr>current_step := 5\<rparr>) = (Some e, y)"
    using assms by (cases "benchmark_populate_results w (t\<lparr>current_step := 5\<rparr>)") simp
  from benchmark_populate_frame [of w "t\<lparr>current_step := 5\<rparr>"] p
  show ?thesis by (simp add: benchmark_show_step_def Let_def)
qed

lemma smart_show_step_step [simp]: "current_step (smart_show_step w k st) = k"
  by (simp add: smart_show_step_def Let_def)

lemma raid_start_creation_step [simp]:
  "current_step (raid_start_creation w s) = current_step s"
  by (simp add: raid_start_creation_def Let_def split: sum.splits)

lemma raid_show_step_3_reset:
  "\<not> drive1_wiped (raid_show_step w 3 t) \<and> \<not> drive2_wiped (raid_show_step w 3 t) \<and>
   wipe_drive1_status (raid_show_step w 3 t) = ''Not wiped yet.'' \<and>
   wipe_drive2_status (raid_show_step w 3 t) = ''Not wiped yet.'' \<and>
   \<not> next_sensitive (raid_show_step w 3 t)"
  by (simp add: raid_show_step_def Let_def raid_update_cleanse_ui_def)

lemma raid_on_next_shape:
  "current_step (snd (raid_on_next w st)) = current_step st \<or>
   (\<exists>k t. snd (raid_on_next w st) = raid_show_step w k t) \<or>
   (\<exists>t. snd (raid_on_next w st) = raid_start_creation w (raid_show_step w 5 t))"
  unfolding raid_on_next_def by (simp split: option.splits) blast

lemma raid_on_back_shape:
  "current_step (raid_on_back w st) = current_step st \<or>
   (\<exists>k t. raid_on_back w st = raid_show_step w k t) \<or>
   (\<exists>t. raid_on_back w st = raid_start_creation w (raid_show_step w 5 t))"
  unfolding raid_on_back_def by simp blast

lemma raid_wipe_step [simp]:
  "current_step (snd (raid_launch_wipefs w d b st)) = current_step st"
  by (simp add: raid_launch_wipefs_def Let_def split: option.splits checked_run.splits)

lemma raid_fire_shape:
  "current_step (raid_fire w e st) = current_step st \<or>
   (\<exists>k t. raid_fire w e st = raid_show_step w k t) \<or>
   (\<exists>t. raid_fire w e st = raid_start_creation w (raid_show_step w 5 t))"
proof (cases e)
  case Next
  show ?thesis
  proof (cases "next_sensitive st")
    case True
    with Next have eq: "raid_fire w e st = snd (raid_on_next w st)" by (simp add: raid_fire_def)
    show ?thesis unfolding eq by (rule raid_on_next_shape)
  next
    case False
    with Next have "raid_fire w e st = st" by (simp add: raid_fire_def)
    then show ?thesis by simp
  qed
next
  case Back
  show ?thesis
  proof (cases "back_sensitive st")
    case True
    with Back have eq: "raid_fire w e st = raid_on_back w st" by (simp add: raid_fire_def)
    show ?thesis unfolding eq by (rule raid_on_back_shape)
  next
    case False
    with Back have "raid_fire w e st = st" by (simp add: raid_fire_def)
    then show ?thesis by simp
  qed
next
  case (Click b)
  then show ?thesis
    by (simp add: raid_fire_def raid_on_wipe_drive1_def raid_on_wipe_drive2_def split: list.splits)
qed (simp_all add: raid_fire_def raid_show_raid_result_def)

lemma bcache_start_creation_step [simp]:
  "current_step (bcache_start_creation s) = current_step s"
  by (simp add: bcache_start_creation_def)

lemma bcache_show_step_4_reset:
  "\<not> backing_wiped (bcache_show_step w 4 t) \<and> \<not> cache_wiped (bcache_show_step w 4 t) \<and>
   wipe_backing_status (bcache_show_step w 4 t) = ''Not wiped yet.'' \<and>
   wipe_cache_status (bcache_show_step w 4 t) = ''Not wiped yet.'' \<and>
   \<not> next_sensitive (bcache_show_step w 4 t)"
  by (simp add: bcache_show_step_def Let_def bcache_update_cleanse_ui_def)

lemma bcache_on_next_shape:
  "current_step (snd (bcache_on_next w st)) = current_step st \<or>
   (\<exists>k t. snd (bcache_on_next w st) = bcache_show_step w k t) \<or>
   (\<exists>t. snd (bcache_on_next w st) = bcache_start_creation (bcache_show_step w 6 t))"
  unfolding bcache_on_next_def by (simp split: option.splits) blast

lemma bcache_on_back_shape:
  "current_step (bcache_on_back w st) = current_step st \<or>
   (\<exists>k t. bcache_on_back w st = bcache_show_step w k t) \<or>
   (\<exists>t. bcache_on_back w st = bcache_start_creation (bcache_show_step w 6 t))"
  unfolding bcache_on_back_def by simp blast

lemma bcache_wipe_step [simp]:
  "current_step (snd (bcache_launch_wipefs w d b st)) = current_step st"
  by (simp add: bcache_launch_wipefs_def Let_def split: option.splits checked_run.splits)

lemma bcache_detach_step [simp]:
  "current_step (snd (bcache_launch_detach w d b st)) = current_step st"
  by (simp add: bcache_launch_detach_def Let_def
      split: option.splits checked_run.splits list.splits)

lemma bcache_click_shape:
  "current_step (bcache_fire w (Click b) st) = current_step st \<or>
   bcache_fire w (Click b) st = bcache_show_step w 3 (st\<lparr>selected_cache := None\<rparr>)"
  by (simp add: bcache_fire_def bcache_on_skip_cache_def)

lemma bcache_fire_shape:
  "current_step (bcache_fire w e st) = current_step st \<or>
   (\<exists>k t. bcache_fire w e st = bcache_show_step w k t) \<or>
   (\<exists>t. bcache_fire w e st = bcache_start_creation (bcache_show_step w 6 t))"
proof (cases e)
  case Next
  show ?thesis
  proof (cases "next_sensitive st")
    case True
    with Next have eq: "bcache_fire w e st = snd (bcache_on_next w st)" by (simp add: bcache_fire_def)
    show ?thesis unfolding eq by (rule bcache_on_next_shape)
  next
    case False
    with Next have "bcache_fire w e st = st" by (simp add: bcache_fire_def)
    then show ?thesis by simp
  qed
next
  case Back
  show ?thesis
  proof (cases "back_sensitive st")
    case True
    with Back have eq: "bcache_fire w e st = bcache_on_back w st" by (simp add: bcache_fire_def)
    show ?thesis unfolding eq by (rule bcache_on_back_shape)
  next
    case False
    with Back have "bcache_fire w e st = st" by (simp add: bcache_fire_def)
    then show ?thesis by simp
  qed
next
  case (Click b)
  from bcache_click_shape [of w b st] show ?thesis
  proof (elim disjE)
    assume "current_step (bcache_fire w (Click b) st) = current_step st"
    then show ?thesis unfolding Click by (rule disjI1)
  next
    assume h: "bcache_fire w (Click b) st = bcache_show_step w 3 (st\<lparr>selected_cache := None\<rparr>)"
    show ?thesis unfolding Click by (rule disjI2, rule disjI1, rule exI, rule exI, rule h)
  qed
qed (simp_all add: bcache_fire_def bcache_show_bcache_result_def)

lemma fstab_on_next_shape:
  "current_step (snd (fstab_on_next w st)) = current_step st \<or>
   (\<exists>k t. snd (fstab_on_next w st) = fstab_show_step w k t)"
  unfolding fstab_on_next_def
  by (simp add: Let_def split: option.splits checked_run.splits) blast

lemma fstab_on_back_shape:
  "current_step (fstab_on_back w st) = current_step st \<or>
   (\<exists>k t. fstab_on_back w st = fstab_show_step w k t)"
  unfolding fstab_on_back_def by simp blast

lemma fstab_format_step [simp]:
  "current_step (snd (fstab_on_format_bcache w st)) = current_step st"
  by (simp add: fstab_on_format_bcache_def Let_def split: option.splits checked_run.splits)

lemma fstab_fire_shape:
  "current_step (fstab_fire w e st) = current_step st \<or>
   (\<exists>k t. fstab_fire w e st = fstab_show_step w k t)"
proof (cases e)
  case Next
  show ?thesis
  proof (cases "next_sensitive st")
    case True
    with Next have eq: "fstab_fire w e st = snd (fstab_on_next w st)" by (simp add: fstab_fire_def)
    show ?thesis unfolding eq by (rule fstab_on_next_shape)
  next
    case False
    with Next have "fstab_fire w e st = st" by (simp add: fstab_fire_def)
    then show ?thesis by simp
  qed
next
  case Back
  show ?thesis
  proof (cases "back_sensitive st")
    case True
    with Back have eq: "fstab_fire w e st = fstab_on_back w st" by (simp add: fstab_fire_def)
    show ?thesis unfolding eq by (rule fstab_on_back_shape)
  next
    case False
    with Back have "fstab_fire w e st = st" by (simp add: fstab_fire_def)
    then show ?thesis by simp
  qed
next
  case (Choose l r)
  then show ?thesis by (simp add: fstab_fire_def split: option.splits)
qed (simp_all add: fstab_fire_def)

lemma has_row_keys_obj: "has_row_keys r \<Longrightarrow> \<exists>d. r = JObj d"
  by (cases r) (simp_all add: has_row_keys_def)

lemma results_for_device_entries:
  "list_all has_row_keys ys \<Longrightarrow>
     \<exists>found. results_for_device ys dev = Inr found \<and> set found \<subseteq> set ys"
proof (induction ys)
  case Nil
  then show ?case by simp
next
  case (Cons r rest)
  then obtain d where r: "r = JObj d" using has_row_keys_obj by auto
  from Cons obtain found where
    f: "results_for_device rest dev = Inr found" "set found \<subseteq> set rest" by auto
  show ?case by (simp add: r f) (use f(2) in auto)
qed

lemma benchmark_populate_returns:
  assumes "history w = JArr ys" "list_all has_row_keys ys"
  shows "fst (benchmark_populate_results w t) = None"
proof (cases "bench_result t")
  case None
  then show ?thesis by (simp add: benchmark_populate_results_def)
next
  case (Some r)
  from results_for_device_entries [OF assms(2), of "device r"] obtain found where
    f: "results_for_device ys (device r) = Inr found" "set found \<subseteq> set ys" by auto
  have g: "get_results_for_device w (device r) = Inr found"
    by (simp add: get_results_for_device_def iter_items_def assms(1) f(1))
  have "set (rev (last_five found)) \<subseteq> set ys"
    using f(2) set_drop_subset [of "length found - 5" found] by (auto simp: last_five_def)
  with assms(2) have "list_all has_row_keys (rev (last_five found))"
    unfolding list_all_iff by blast
  then show ?thesis by (simp add: benchmark_populate_results_def Some g Let_def)
qed

lemma has_row_keys_result: "has_row_keys (result_json r)"
  by (simp add: has_row_keys_def result_json_def row_keys_def)

lemma benchmark_record_entry:
  assumes "history w = JArr xs" "list_all has_row_keys xs"
  shows "current_step (snd (benchmark_record w st)) = current_step st \<or>
         (visible_child (snd (benchmark_record w st)) = ''result'' \<and>
          \<not> back_sensitive (snd (benchmark_record w st)) \<and>
          \<not> next_sensitive (snd (benchmark_record w st)))"
proof (cases "type_list st")
  case None
  then show ?thesis by (simp add: benchmark_record_def)
next
  case (Some row)
  define r where "r = \<lparr>timestamp = now w,
                     device = format_attr (bench_selected_drive st),
                     test_type_label = (if row < length type_labels then type_labels ! row else []),
                     options = test_options st,
                     summary = ''(See terminal for actual speed)'',
                     raw_output = ''(See terminal for dd output)''\<rparr>"
  show ?thesis
  proof (cases "save_returns w")
    case False
    then show ?thesis by (simp add: benchmark_record_def Some save_result_def assms(1) Let_def)
  next
    case True
    define w' where "w' = w\<lparr>history := JArr (xs @ [result_json r])\<rparr>"
    define t where "t = st\<lparr>bench_saved := bench_saved st @ [r], bench_result := Some r\<rparr>"
    have eq: "snd (benchmark_record w st) = benchmark_show_step w' 5 t"
      by (simp add: benchmark_record_def Some save_result_def assms(1) True Let_def r_def
          w'_def t_def)
    have h: "history w' = JArr (xs @ [result_json r])" by (simp add: w'_def)
    have a: "list_all has_row_keys (xs @ [result_json r])"
      using assms(2) by (simp add: has_row_keys_result)
    from benchmark_show_step_5_returns [OF benchmark_populate_returns [OF h a]]
    show ?thesis unfolding eq by (rule disjI2)
  qed
qed

lemma benchmark_dd_entry:
  assumes "history w = JArr xs" "list_all has_row_keys xs"
  shows "current_step (snd (benchmark_dd w t f c st)) = current_step st \<or>
         (visible_child (snd (benchmark_dd w t f c st)) = ''result'' \<and>
          \<not> back_sensitive (snd (benchmark_dd w t f c st)) \<and>
          \<not> next_sensitive (snd (benchmark_dd w t f c st)))"
proof -
  have r: "current_step (snd (benchmark_record w s)) = current_step st \<or>
         (visible_child (snd (benchmark_record w s)) = ''result'' \<and>
          \<not> back_sensitive (snd (benchmark_record w s)) \<and>
          \<not> next_sensitive (snd (benchmark_record w s)))"
    if "current_step s = current_step st" for s
    using benchmark_record_entry [OF assms, of s] that by simp
  show ?thesis
    unfolding benchmark_dd_def
    by (simp add: Let_def r split: option.splits checked_run.splits)
qed

lemma benchmark_run_test_entry:
  assumes "history w = JArr xs" "list_all has_row_keys xs"
  shows "current_step (snd (benchmark_run_test w st)) = current_step st \<or>
         (visible_child (snd (benchmark_run_test w st)) = ''result'' \<and>
          \<not> back_sensitive (snd (benchmark_run_test w st)) \<and>
          \<not> next_sensitive (snd (benchmark_run_test w st)))"
  unfolding benchmark_run_test_def
  by (simp add: benchmark_dd_entry [OF assms] split: option.splits sum.splits)

lemma benchmark_on_next_entry:
  assumes "history w = JArr xs" "list_all has_row_keys xs"
    and "current_step (snd (benchmark_on_next w st)) = 5" "current_step st \<noteq> 5"
  shows "visible_child (snd (benchmark_on_next w st)) = ''result'' \<and>
         \<not> back_sensitive (snd (benchmark_on_next w st)) \<and>
         \<not> next_sensitive (snd (benchmark_on_next w st))"
proof (cases "current_step st = 4")
  case True
  then have eq: "benchmark_on_next w st = benchmark_run_test w st"
    by (simp add: benchmark_on_next_def)
  from benchmark_run_test_entry [OF assms(1,2), of st] assms(3,4) show ?thesis
    unfolding eq by auto
next
  case False
  with assms(3,4) show ?thesis
    unfolding benchmark_on_next_def by (simp split: option.splits if_splits)
qed

lemma benchmark_on_back_step:
  "current_step st \<noteq> 5 \<Longrightarrow> current_step (benchmark_on_back w st) \<noteq> 5"
  unfolding benchmark_on_back_def by simp

lemma benchmark_final_entry:
  assumes "history w = JArr xs" "list_all has_row_keys xs"
    and "current_step (benchmark_fire w e st) = 5" "current_step st \<noteq> 5"
  shows "visible_child (benchmark_fire w e st) = ''result'' \<and>
         \<not> back_sensitive (benchmark_fire w e st) \<and> \<not> next_sensitive (benchmark_fire w e st)"
proof (cases e)
  case Next
  show ?thesis
  proof (cases "next_sensitive st")
    case True
    with Next have eq: "benchmark_fire w e st = snd (benchmark_on_next w st)"
      by (simp add: benchmark_fire_def)
    from assms(3) show ?thesis
      unfolding eq by (rule benchmark_on_next_entry [OF assms(1,2) _ assms(4)])
  next
    case False
    with Next have "benchmark_fire w e st = st" by (simp add: benchmark_fire_def)
    with assms(3,4) show ?thesis by simp
  qed
next
  case Back
  show ?thesis
  proof (cases "back_sensitive st")
    case True
    with Back have eq: "benchmark_fire w e st = benchmark_on_back w st"
      by (simp add: benchmark_fire_def)
    from assms(3) benchmark_on_back_step [OF assms(4), of w] show ?thesis
      unfolding eq by simp
  next
    case False
    with Back have "benchmark_fire w e st = st" by (simp add: benchmark_fire_def)
    with assms(3,4) show ?thesis by simp
  qed
qed (use assms(3,4) in \<open>simp_all add: benchmark_fire_def split: if_splits\<close>)

lemma smart_start_test_step [simp]: "current_step (smart_start_test s) = current_step s"
  by (simp add: smart_start_test_def)

lemma smart_on_next_shape:
  "current_step (snd (smart_on_next w st)) = current_step st \<or>
   (\<exists>k t. snd (smart_on_next w st) = smart_show_step w k t) \<or>
   (\<exists>t. snd (smart_on_next w st) = smart_start_test (smart_show_step w 3 t))"
  unfolding smart_on_next_def by (simp split: option.splits) blast

lemma smart_on_back_shape:
  "current_step (smart_on_back w st) = current_step st \<or>
   (\<exists>k t. smart_on_back w st = smart_show_step w k t) \<or>
   (\<exists>t. smart_on_back w st = smart_start_test (smart_show_step w 3 t))"
  unfolding smart_on_back_def by simp blast

lemma smart_fire_shape:
  "current_step (smart_fire w e st) = current_step st \<or>
   (\<exists>k t. smart_fire w e st = smart_show_step w k t) \<or>
   (\<exists>t. smart_fire w e st = smart_start_test (smart_show_step w 3 t))"
proof (cases e)
  case Next
  show ?thesis
  proof (cases "next_sensitive st")
    case True
    with Next have eq: "smart_fire w e st = snd (smart_on_next w st)" by (simp add: smart_fire_def)
    show ?thesis unfolding eq by (rule smart_on_next_shape)
  next
    case False
    with Next have "smart_fire w e st = st" by (simp add: smart_fire_def)
    then show ?thesis by simp
  qed
next
  case Back
  show ?thesis
  proof (cases "back_sensitive st")
    case True
    with Back have eq: "smart_fire w e st = smart_on_back w st" by (simp add: smart_fire_def)
    show ?thesis unfolding eq by (rule smart_on_back_shape)
  next
    case False
    with Back have "smart_fire w e st = st" by (simp add: smart_fire_def)
    then show ?thesis by simp
  qed
next
  case (Click b)
  then show ?thesis
    by (simp add: smart_fire_def smart_on_show_smart_terminal_def split: option.splits)
next
  case (Deliver ok m)
  then show ?thesis by (simp add: smart_fire_def smart_show_smart_result_def Let_def)
qed (simp_all add: smart_fire_def)

lemma run_events_invariant:
  assumes "\<And>w e s. P s \<Longrightarrow> P (fire w e s)" and "P s"
  shows "P (run_events fire evs s)"
  using assms(2) by (induction evs arbitrary: s) (simp_all add: assms(1))

(* RAID *)
lemma raid_final_show:
  "current_step (raid_show_step w 5 t) = 5 \<and> visible_child (raid_show_step w 5 t) = ''result'' \<and>
   \<not> back_sensitive (raid_show_step w 5 t) \<and> \<not> next_sensitive (raid_show_step w 5 t)"
  by (simp add: raid_show_step_def)

lemma raid_final_start:
  "current_step (raid_start_creation w (raid_show_step w 5 t)) = 5 \<and>
   visible_child (raid_start_creation w (raid_show_step w 5 t)) = ''result'' \<and>
   \<not> back_sensitive (raid_start_creation w (raid_show_step w 5 t)) \<and>
   \<not> next_sensitive (raid_start_creation w (raid_show_step w 5 t))"
  by (simp add: raid_show_step_def raid_start_creation_def Let_def split: sum.splits)

lemma raid_final_fire:
  assumes "current_step s = 5 \<and> visible_child s = ''result'' \<and> \<not> back_sensitive s \<and> \<not> next_sensitive s"
  shows "current_step (raid_fire w e s) = 5 \<and> visible_child (raid_fire w e s) = ''result'' \<and>
         \<not> back_sensitive (raid_fire w e s) \<and> \<not> next_sensitive (raid_fire w e s)"
  using assms by (cases e) (simp_all add: raid_fire_def raid_show_raid_result_def)

lemma raid_final_entry:
  assumes "current_step (raid_fire w e st) = 5" "current_step st \<noteq> 5"
  shows "visible_child (raid_fire w e st) = ''result'' \<and>
         \<not> back_sensitive (raid_fire w e st) \<and> \<not> next_sensitive (raid_fire w e st)"
proof -
  from raid_fire_shape [of w e st] assms
  consider t where "raid_fire w e st = raid_show_step w 5 t"
    | t where "raid_fire w e st = raid_start_creation w (raid_show_step w 5 t)"
    by (elim disjE exE) (simp, metis raid_show_step_step, metis)
  then show ?thesis
  proof cases
    case 1
    then show ?thesis by (simp only: raid_final_show simp_thms)
  next
    case 2
    then show ?thesis by (simp only: raid_final_start simp_thms)
  qed
qed

(* Bcache *)
lemma bcache_final_show:
  "current_step (bcache_show_step w 6 t) = 6 \<and> visible_child (bcache_show_step w 6 t) = ''result'' \<and>
   \<not> back_sensitive (bcache_show_step w 6 t) \<and> \<not> next_sensitive (bcache_show_step w 6 t)"
  by (simp add: bcache_show_step_def)

lemma bcache_final_start:
  "current_step (bcache_start_creation (bcache_show_step w 6 t)) = 6 \<and>
   visible_child (bcache_start_creation (bcache_show_step w 6 t)) = ''result'' \<and>
   \<not> back_sensitive (bcache_start_creation (bcache_show_step w 6 t)) \<and>
   \<not> next_sensitive (bcache_start_creation (bcache_show_step w 6 t))"
  by (simp add: bcache_show_step_def bcache_start_creation_def)

lemma bcache_final_fire:
  assumes "current_step s = 6 \<and> visible_child s = ''result'' \<and> \<not> back_sensitive s \<and> \<not> next_sensitive s"
  shows "current_step (bcache_fire w e s) = 6 \<and> visible_child (bcache_fire w e s) = ''result'' \<and>
         \<not> back_sensitive (bcache_fire w e s) \<and> \<not> next_sensitive (bcache_fire w e s)"
  using assms by (cases e) (simp_all add: bcache_fire_def bcache_show_bcache_result_def)

lemma bcache_final_entry:
  assumes "current_step (bcache_fire w e st) = 6" "current_step st \<noteq> 6"
  shows "visible_child (bcache_fire w e st) = ''result'' \<and>
         \<not> back_sensitive (bcache_fire w e st) \<and> \<not> next_sensitive (bcache_fire w e st)"
proof -
  from bcache_fire_shape [of w e st] assms
  consider t where "bcache_fire w e st = bcache_show_step w 6 t"
    | t where "bcache_fire w e st = bcache_start_creation (bcache_show_step w 6 t)"
    by (elim disjE exE) (simp, metis bcache_show_step_step, metis)
  then show ?thesis
  proof cases
    case 1
    then show ?thesis by (simp only: bcache_final_show simp_thms)
  next
    case 2
    then show ?thesis by (simp only: bcache_final_start simp_thms)
  qed
qed

(* Fstab *)
lemma fstab_final_show:
  "current_step (fstab_show_step w 7 t) = 7 \<and> visible_child (fstab_show_step w 7 t) = ''done'' \<and>
   \<not> back_sensitive (fstab_show_step w 7 t) \<and> \<not> next_sensitive (fstab_show_step w 7 t)"
  by (simp add: fstab_show_step_def)

lemma fstab_final_fire:
  assumes "current_step s = 7 \<and> visible_child s = ''done'' \<and> \<not> back_sensitive s \<and> \<not> next_sensitive s"
  shows "current_step (fstab_fire w e s) = 7 \<and> visible_child (fstab_fire w e s) = ''done'' \<and>
         \<not> back_sensitive (fstab_fire w e s) \<and> \<not> next_sensitive (fstab_fire w e s)"
  using assms by (cases e) (simp_all add: fstab_fire_def split: option.splits)

lemma fstab_final_entry:
  assumes "current_step (fstab_fire w e st) = 7" "current_step st \<noteq> 7"
  shows "visible_child (fstab_fire w e st) = ''done'' \<and>
         \<not> back_sensitive (fstab_fire w e st) \<and> \<not> next_sensitive (fstab_fire w e st)"
proof -
  from fstab_fire_shape [of w e st] assms
  obtain t where "fstab_fire w e st = fstab_show_step w 7 t"
    by (elim disjE exE) (simp, metis fstab_show_step_step)
  then show ?thesis by (simp only: fstab_final_show simp_thms)
qed

(* Benchmark *)
lemma benchmark_final_fire:
  assumes "current_step s = 5 \<and> visible_child s = ''result'' \<and> \<not> back_sensitive s \<and> \<not> next_sensitive s"
  shows "current_step (benchmark_fire w e s) = 5 \<and> visible_child (benchmark_fire w e s) = ''result'' \<and>
         \<not> back_sensitive (benchmark_fire w e s) \<and> \<not> next_sensitive (benchmark_fire w e s)"
  using assms by (cases e) (simp_all add: benchmark_fire_def)

lemma benchmark_step_fire:
  assumes "current_step s = 5"
  shows "current_step (benchmark_fire w e s) = 5"
  using assms
  by (cases e) (simp_all add: benchmark_fire_def benchmark_on_next_def benchmark_on_back_def)


(* Smart *)
lemma smart_final_show:
  "current_step (smart_show_step w 3 t) = 3 \<and> visible_child (smart_show_step w 3 t) = ''result'' \<and>
   \<not> back_sensitive (smart_show_step w 3 t) \<and> \<not> next_sensitive (smart_show_step w 3 t)"
  by (simp add: smart_show_step_def)

lemma smart_final_start:
  "current_step (smart_start_test (smart_show_step w 3 t)) = 3 \<and>
   visible_child (smart_start_test (smart_show_step w 3 t)) = ''result'' \<and>
   \<not> back_sensitive (smart_start_test (smart_show_step w 3 t)) \<and>
   \<not> next_sensitive (smart_start_test (smart_show_step w 3 t))"
  by (simp add: smart_show_step_def smart_start_test_def)

lemma smart_final_fire:
  assumes "current_step s = 3 \<and> visible_child s = ''result'' \<and> \<not> back_sensitive s \<and> \<not> next_sensitive s"
  shows "current_step (smart_fire w e s) = 3 \<and> visible_child (smart_fire w e s) = ''result'' \<and>
         \<not> back_sensitive (smart_fire w e s) \<and> \<not> next_sensitive (smart_fire w e s)"
  using assms
  by (cases e)
     (simp_all add: smart_fire_def smart_show_smart_result_def smart_on_show_smart_terminal_def
        Let_def split: option.splits)

lemma smart_final_entry:
  assumes "current_step (smart_fire w e st) = 3" "current_step st \<noteq> 3"
  shows "visible_child (smart_fire w e st) = ''result'' \<and>
         \<not> back_sensitive (smart_fire w e st) \<and> \<not> next_sensitive (smart_fire w e st)"
proof -
  from smart_fire_shape [of w e st] assms
  consider t where "smart_fire w e st = smart_show_step w 3 t"
    | t where "smart_fire w e st = smart_start_test (smart_show_step w 3 t)"
    by (elim disjE exE) (simp, metis smart_show_step_step, metis)
  then show ?thesis
  proof cases
    case 1
    then show ?thesis by (simp only: smart_final_show simp_thms)
  next
    case 2
    then show ?thesis by (simp only: smart_final_start simp_thms)
  qed
qed

lemma fstab_show_step_format_reset:
  "\<not> format_done (fstab_show_step w (3 / 2) t) \<and>
   format_status (fstab_show_step w (3 / 2) t) = ''Not formatted yet.'' \<and>
   \<not> next_sensitive (fstab_show_step w (3 / 2) t)"
  by (simp add: fstab_show_step_def)

lemma raid_cleanse_gate:
  "current_step s = 3 \<Longrightarrow> \<not> (drive1_wiped s \<and> drive2_wiped s) \<Longrightarrow>
     raid_on_next w s = (Some ''You must wipe both drives before proceeding.'', s)"
  by (auto simp: raid_on_next_def)

lemma bcache_cleanse_gate:
  "current_step s = 4 \<Longrightarrow> \<not> backing_wiped s \<Longrightarrow>
     bcache_on_next w s = (Some ''You must wipe both devices before proceeding.'', s)"
  by (simp add: bcache_on_next_def)

lemma fstab_format_gate:
  "current_step s = 3 / 2 \<Longrightarrow> \<not> format_done s \<Longrightarrow>
     fstab_on_next w s = (Some ''You must format the bcache device before proceeding.'', s)"
  by (simp add: fstab_on_next_def)

text \<open>
  C10. Whatever event takes the RAID wizard into step 3, the Bcache wizard into step 4
  or the Fstab wizard into step 1.5 (the first entry, or an entry after Back and Next),
  the window it leaves has the completion flags of that step false (the wiped flags,
  \<open>format_done\<close>), the status texts back at their initial value and Next not
  sensitive; and Next pressed in that window changes nothing, so what was wiped or
  formatted during an earlier visit does not open the gate.
\<close>

theorem completion_flags_reset_on_entry:
  "(current_step (raid_fire w e r) = 3 \<and> current_step r \<noteq> 3 \<longrightarrow>
      \<not> drive1_wiped (raid_fire w e r) \<and> \<not> drive2_wiped (raid_fire w e r) \<and>
      wipe_drive1_status (raid_fire w e r) = ''Not wiped yet.'' \<and>
      wipe_drive2_status (raid_fire w e r) = ''Not wiped yet.'' \<and>
      \<not> next_sensitive (raid_fire w e r) \<and>
      snd (raid_on_next w' (raid_fire w e r)) = raid_fire w e r) \<and>
   (current_step (bcache_fire w e b) = 4 \<and> current_step b \<noteq> 4 \<longrightarrow>
      \<not> backing_wiped (bcache_fire w e b) \<and> \<not> cache_wiped (bcache_fire w e b) \<and>
      wipe_backing_status (bcache_fire w e b) = ''Not wiped yet.'' \<and>
      wipe_cache_status (bcache_fire w e b) = ''Not wiped yet.'' \<and>
      \<not> next_sensitive (bcache_fire w e b) \<and>
      snd (bcache_on_next w' (bcache_fire w e b)) = bcache_fire w e b) \<and>
   (current_step (fstab_fire w e f) = 3 / 2 \<and> current_step f \<noteq> 3 / 2 \<longrightarrow>
      \<not> format_done (fstab_fire w e f) \<and>
      format_status (fstab_fire w e f) = ''Not formatted yet.'' \<and>
      \<not> next_sensitive (fstab_fire w e f) \<and>
      snd (fstab_on_next w' (fstab_fire w e f)) = fstab_fire w e f)"
proof -
  have raid: "current_step (raid_fire w e r) = 3 \<and> current_step r \<noteq> 3 \<longrightarrow>
      \<not> drive1_wiped (raid_fire w e r) \<and> \<not> drive2_wiped (raid_fire w e r) \<and>
      wipe_drive1_status (raid_fire w e r) = ''Not wiped yet.'' \<and>
      wipe_drive2_status (raid_fire w e r) = ''Not wiped yet.'' \<and>
      \<not> next_sensitive (raid_fire w e r) \<and>
      snd (raid_on_next w' (raid_fire w e r)) = raid_fire w e r"
  proof
    assume a: "current_step (raid_fire w e r) = 3 \<and> current_step r \<noteq> 3"
    with raid_fire_shape [of w e r]
    obtain t where eq: "raid_fire w e r = raid_show_step w 3 t"
      by (elim disjE exE) (simp, metis raid_show_step_step, simp)
    have g: "snd (raid_on_next w' (raid_show_step w 3 t)) = raid_show_step w 3 t"
      using raid_cleanse_gate [of "raid_show_step w 3 t" w'] raid_show_step_3_reset [of w t]
      by simp
    show "\<not> drive1_wiped (raid_fire w e r) \<and> \<not> drive2_wiped (raid_fire w e r) \<and>
      wipe_drive1_status (raid_fire w e r) = ''Not wiped yet.'' \<and>
      wipe_drive2_status (raid_fire w e r) = ''Not wiped yet.'' \<and>
      \<not> next_sensitive (raid_fire w e r) \<and>
      snd (raid_on_next w' (raid_fire w e r)) = raid_fire w e r"
      unfolding eq using raid_show_step_3_reset [of w t] g by simp
  qed
  have bcache: "current_step (bcache_fire w e b) = 4 \<and> current_step b \<noteq> 4 \<longrightarrow>
      \<not> backing_wiped (bcache_fire w e b) \<and> \<not> cache_wiped (bcache_fire w e b) \<and>
      wipe_backing_status (bcache_fire w e b) = ''Not wiped yet.'' \<and>
      wipe_cache_status (bcache_fire w e b) = ''Not wiped yet.'' \<and>
      \<not> next_sensitive (bcache_fire w e b) \<and>
      snd (bcache_on_next w' (bcache_fire w e b)) = bcache_fire w e b"
  proof
    assume a: "current_step (bcache_fire w e b) = 4 \<and> current_step b \<noteq> 4"
    with bcache_fire_shape [of w e b]
    obtain t where eq: "bcache_fire w e b = bcache_show_step w 4 t"
      by (elim disjE exE) (simp, metis bcache_show_step_step, simp)
    have g: "snd (bcache_on_next w' (bcache_show_step w 4 t)) = bcache_show_step w 4 t"
      using bcache_cleanse_gate [of "bcache_show_step w 4 t" w'] bcache_show_step_4_reset [of w t]
      by simp
    show "\<not> backing_wiped (bcache_fire w e b) \<and> \<not> cache_wiped (bcache_fire w e b) \<and>
      wipe_backing_status (bcache_fire w e b) = ''Not wiped yet.'' \<and>
      wipe_cache_status (bcache_fire w e b) = ''Not wiped yet.'' \<and>
      \<not> next_sensitive (bcache_fire w e b) \<and>
      snd (bcache_on_next w' (bcache_fire w e b)) = bcache_fire w e b"
      unfolding eq using bcache_show_step_4_reset [of w t] g by simp
  qed
  have fstab: "current_step (fstab_fire w e f) = 3 / 2 \<and> current_step f \<noteq> 3 / 2 \<longrightarrow>
      \<not> format_done (fstab_fire w e f) \<and>
      format_status (fstab_fire w e f) = ''Not formatted yet.'' \<and>
      \<not> next_sensitive (fstab_fire w e f) \<and>
      snd (fstab_on_next w' (fstab_fire w e f)) = fstab_fire w e f"
  proof
    assume a: "current_step (fstab_fire w e f) = 3 / 2 \<and> current_step f \<noteq> 3 / 2"
    with fstab_fire_shape [of w e f]
    obtain t where eq: "fstab_fire w e f = fstab_show_step w (3 / 2) t"
      by (elim disjE exE) (simp, metis fstab_show_step_step)
    have g: "snd (fstab_on_next w' (fstab_show_step w (3 / 2) t)) = fstab_show_step w (3 / 2) t"
      using fstab_format_gate [of "fstab_show_step w (3 / 2) t" w']
        fstab_show_step_format_reset [of w t]
      by simp
    show "\<not> format_done (fstab_fire w e f) \<and>
      format_status (fstab_fire w e f) = ''Not formatted yet.'' \<and>
      \<not> next_sensitive (fstab_fire w e f) \<and>
      snd (fstab_on_next w' (fstab_fire w e f)) = fstab_fire w e f"
      unfolding eq using fstab_show_step_format_reset [of w t] g by simp
  qed
  show ?thesis by (intro conjI) (rule raid, rule bcache, rule fstab)
qed

text \<open>
  C4. In the RAID, Bcache and Fstab wizards, \<open>_on_next\<close> called while the gate of the
  current step is false returns the window as it was (the step and every attribute,
  the accumulated selections included) and shows an error dialog. The gates are: a
  selected row (RAID level, backing device, Fstab drive), exactly two selected drives,
  both wiped flags of the RAID wizard, the detach flags, the wiped flags of the Bcache
  wizard (the cache flag only with a cache device chosen), \<open>format_done\<close>, a stripped
  mount point that starts with "/", and a terminal emulator at the Fstab Review step.
\<close>

theorem next_blocked_while_gate_false:
  "(current_step r = 1 \<and> level_list r = None \<longrightarrow>
      snd (raid_on_next w r) = r \<and> fst (raid_on_next w r) \<noteq> None) \<and>
   (current_step r = 2 \<and> length (raid_drive_list_selected r) \<noteq> 2 \<longrightarrow>
      snd (raid_on_next w r) = r \<and> fst (raid_on_next w r) \<noteq> None) \<and>
   (current_step r = 3 \<and> \<not> (drive1_wiped r \<and> drive2_wiped r) \<longrightarrow>
      snd (raid_on_next w r) = r \<and> fst (raid_on_next w r) \<noteq> None) \<and>
   (current_step b = 1 \<and> backing_list_selected b = None \<longrightarrow>
      snd (bcache_on_next w b) = b \<and> fst (bcache_on_next w b) \<noteq> None) \<and>
   (current_step b = 3 \<and> ((backing_needs_detach b \<and> \<not> backing_detached b)
                            \<or> (cache_needs_detach b \<and> \<not> cache_detached b)) \<longrightarrow>
      snd (bcache_on_next w b) = b \<and> fst (bcache_on_next w b) \<noteq> None) \<and>
   (current_step b = 4 \<and> (\<not> backing_wiped b
                            \<or> (\<exists>d. selected_cache b = Some d \<and> d \<noteq> [] \<and> \<not> cache_wiped b)) \<longrightarrow>
      snd (bcache_on_next w b) = b \<and> fst (bcache_on_next w b) \<noteq> None) \<and>
   (current_step f = 1 \<and> fstab_drive_list_selected f = None \<longrightarrow>
      snd (fstab_on_next w f) = f \<and> fst (fstab_on_next w f) \<noteq> None) \<and>
   (current_step f = 3 / 2 \<and> \<not> format_done f \<longrightarrow>
      snd (fstab_on_next w f) = f \<and> fst (fstab_on_next w f) \<noteq> None) \<and>
   (current_step f = 2 \<and> \<not> startswith (strip (mp_entry f)) ''/'' \<longrightarrow>
      snd (fstab_on_next w f) = f \<and> fst (fstab_on_next w f) \<noteq> None) \<and>
   (current_step f = 6 \<and> terminal w = None \<longrightarrow>
      snd (fstab_on_next w f) = f \<and> fst (fstab_on_next w f) \<noteq> None)"
proof (intro conjI impI)
  show "snd (raid_on_next w r) = r" "fst (raid_on_next w r) \<noteq> None"
    if "current_step r = 1 \<and> level_list r = None"
    using that by (simp_all add: raid_on_next_def)
  show "snd (raid_on_next w r) = r" "fst (raid_on_next w r) \<noteq> None"
    if "current_step r = 2 \<and> length (raid_drive_list_selected r) \<noteq> 2"
    using that by (simp_all add: raid_on_next_def)
  show "snd (raid_on_next w r) = r" "fst (raid_on_next w r) \<noteq> None"
    if "current_step r = 3 \<and> \<not> (drive1_wiped r \<and> drive2_wiped r)"
    using that raid_cleanse_gate [of r w] by simp_all
  show "snd (bcache_on_next w b) = b" "fst (bcache_on_next w b) \<noteq> None"
    if "current_step b = 1 \<and> backing_list_selected b = None"
    using that by (simp_all add: bcache_on_next_def)
  show "snd (bcache_on_next w b) = b" "fst (bcache_on_next w b) \<noteq> None"
    if "current_step b = 3 \<and> ((backing_needs_detach b \<and> \<not> backing_detached b)
                            \<or> (cache_needs_detach b \<and> \<not> cache_detached b))"
    using that by (simp_all add: bcache_on_next_def)
  show "snd (bcache_on_next w b) = b" "fst (bcache_on_next w b) \<noteq> None"
    if "current_step b = 4 \<and> (\<not> backing_wiped b
                            \<or> (\<exists>d. selected_cache b = Some d \<and> d \<noteq> [] \<and> \<not> cache_wiped b))"
    using that by (auto simp: bcache_on_next_def chosen_def)
  show "snd (fstab_on_next w f) = f" "fst (fstab_on_next w f) \<noteq> None"
    if "current_step f = 1 \<and> fstab_drive_list_selected f = None"
    using that by (simp_all add: fstab_on_next_def)
  show "snd (fstab_on_next w f) = f" "fst (fstab_on_next w f) \<noteq> None"
    if "current_step f = 3 / 2 \<and> \<not> format_done f"
    using that fstab_format_gate [of f w] by simp_all
  show "snd (fstab_on_next w f) = f" "fst (fstab_on_next w f) \<noteq> None"
    if "current_step f = 2 \<and> \<not> startswith (strip (mp_entry f)) ''/''"
    using that by (simp_all add: fstab_on_next_def Let_def)
  show "snd (fstab_on_next w f) = f" "fst (fstab_on_next w f) \<noteq> None"
    if "current_step f = 6 \<and> terminal w = None"
    using that by (simp_all add: fstab_on_next_def)
qed

lemma join_two_last: "\<exists>pre. join sep (xs @ ys @ [a, b]) @ rest = pre @ a @ sep @ b @ rest"
proof (cases "xs @ ys")
  case Nil
  then show ?thesis by (simp add: join_def)
next
  case (Cons x r)
  then have "join sep ((xs @ ys) @ [a, b]) @ rest
      = (x @ concat (map (\<lambda>y. sep @ y) r) @ sep) @ a @ sep @ b @ rest"
    by (simp add: join_def)
  then show ?thesis
    by (intro exI [of _ "x @ concat (map (\<lambda>y. sep @ y) r) @ sep"]) simp
qed

lemma fstab_shell_cmd_tail:
  "\<exists>pre. fstab_shell_cmd q f =
      pre @ (''echo '' @ [CHR 0x27] @ fstab_line q f @ [CHR 0x27] @ '' | sudo tee -a /etc/fstab'')
      @ ''; '' @ ''sudo mount -a'' @ press_any_key"
  unfolding fstab_shell_cmd_def Let_def by (rule join_two_last)

text \<open>
  C7. In the Fstab wizard, Next on the device step with a selected device that starts
  with /dev/bcache and whose lsblk FSTYPE output is empty goes to the Format step 1.5,
  where Next is not sensitive. On that step \<open>_on_next\<close> changes nothing while
  \<open>format_done\<close> is false and goes on to step 2 once it is true, and the format handler
  makes it true exactly when a terminal is found and the mkfs command returns.
  Confirming the Review step launches the shell command that appends the fstab line;
  the line starts with UUID= and the stripped blkid output when that output is not
  empty, and with the raw device path when it is empty or blkid raised.
\<close>

theorem fstab_format_step_and_entry:
  "(current_step f = 1 \<and> fstab_drive_list_selected f = Some dev \<and> startswith dev ''/dev/bcache''
      \<and> fstype_query w = Some reported \<and> strip reported = [] \<longrightarrow>
      current_step (snd (fstab_on_next w f)) = 3 / 2 \<and>
      visible_child (snd (fstab_on_next w f)) = ''format'' \<and>
      needs_format (snd (fstab_on_next w f)) \<and>
      \<not> format_done (snd (fstab_on_next w f)) \<and>
      \<not> next_sensitive (snd (fstab_on_next w f))) \<and>
   (current_step f = 3 / 2 \<and> \<not> format_done f \<longrightarrow> snd (fstab_on_next w f) = f) \<and>
   (current_step f = 3 / 2 \<and> format_done f \<longrightarrow> current_step (snd (fstab_on_next w f)) = 2) \<and>
   (format_done (snd (fstab_on_format_bcache w f)) \<longleftrightarrow>
      format_done f \<or> (terminal w \<noteq> None \<and> run w = Returned)) \<and>
   (current_step f = 6 \<and> terminal w = Some term \<longrightarrow>
      current_step (snd (fstab_on_next w f)) = 7 \<and>
      launched (snd (fstab_on_next w f)) =
        launched f @ [terminal_command term (fstab_shell_cmd (uuid_query w) f)]) \<and>
   (\<exists>pre. fstab_shell_cmd q f =
      pre @ (''echo '' @ [CHR 0x27] @ fstab_line q f @ [CHR 0x27] @ '' | sudo tee -a /etc/fstab'')
      @ ''; '' @ ''sudo mount -a'' @ press_any_key) \<and>
   (q = Some resolved \<and> strip resolved \<noteq> [] \<longrightarrow>
      fstab_line q f =
        ''UUID='' @ strip resolved @ [CHR 0x09] @ format_attr (mount_point f) @ [CHR 0x09]
        @ format_attr (fs_type f) @ [CHR 0x09] @ format_attr (mount_options f) @ [CHR 0x09] @ ''0 2'') \<and>
   (q = None \<or> (q = Some resolved \<and> strip resolved = []) \<longrightarrow>
      fstab_line q f =
        format_attr (fstab_selected_drive f) @ [CHR 0x09] @ format_attr (mount_point f) @ [CHR 0x09]
        @ format_attr (fs_type f) @ [CHR 0x09] @ format_attr (mount_options f) @ [CHR 0x09] @ ''0 2'')"
proof -
  have c1: "current_step f = 1 \<and> fstab_drive_list_selected f = Some dev \<and> startswith dev ''/dev/bcache''
      \<and> fstype_query w = Some reported \<and> strip reported = [] \<longrightarrow>
      current_step (snd (fstab_on_next w f)) = 3 / 2 \<and>
      visible_child (snd (fstab_on_next w f)) = ''format'' \<and>
      needs_format (snd (fstab_on_next w f)) \<and>
      \<not> format_done (snd (fstab_on_next w f)) \<and>
      \<not> next_sensitive (snd (fstab_on_next w f))"
    by (simp add: fstab_on_next_def Let_def fstab_show_step_def)
  have c2: "current_step f = 3 / 2 \<and> \<not> format_done f \<longrightarrow> snd (fstab_on_next w f) = f"
    using fstab_format_gate [of f w] by simp
  have c3: "current_step f = 3 / 2 \<and> format_done f \<longrightarrow> current_step (snd (fstab_on_next w f)) = 2"
    by (simp add: fstab_on_next_def)
  have c4: "format_done (snd (fstab_on_format_bcache w f)) \<longleftrightarrow>
      format_done f \<or> (terminal w \<noteq> None \<and> run w = Returned)"
    by (simp add: fstab_on_format_bcache_def Let_def split: option.splits checked_run.splits)
  have c5: "current_step f = 6 \<and> terminal w = Some term \<longrightarrow>
      current_step (snd (fstab_on_next w f)) = 7 \<and>
      launched (snd (fstab_on_next w f)) =
        launched f @ [terminal_command term (fstab_shell_cmd (uuid_query w) f)]"
    by (simp add: fstab_on_next_def Let_def fstab_show_step_def split: checked_run.splits)
  have c7: "q = Some resolved \<and> strip resolved \<noteq> [] \<longrightarrow>
      fstab_line q f =
        ''UUID='' @ strip resolved @ [CHR 0x09] @ format_attr (mount_point f) @ [CHR 0x09]
        @ format_attr (fs_type f) @ [CHR 0x09] @ format_attr (mount_options f) @ [CHR 0x09] @ ''0 2''"
    by (simp add: fstab_line_def)
  have c8: "q = None \<or> (q = Some resolved \<and> strip resolved = []) \<longrightarrow>
      fstab_line q f =
        format_attr (fstab_selected_drive f) @ [CHR 0x09] @ format_attr (mount_point f) @ [CHR 0x09]
        @ format_attr (fs_type f) @ [CHR 0x09] @ format_attr (mount_options f) @ [CHR 0x09] @ ''0 2''"
    by (auto simp: fstab_line_def)
  show ?thesis
    by (intro conjI) (rule c1, rule c2, rule c3, rule c4, rule c5, rule fstab_shell_cmd_tail,
        rule c7, rule c8)
qed

text \<open>
  The last step of the wizards. In the RAID, Bcache, Fstab and SMART wizards every event
  that takes the window into its last step leaves the result page shown with Back and
  Next not sensitive; so it is in the Benchmark wizard when the history file holds a
  list of entries that have the keys of a row. From a window that shows its result page
  with Back and Next not sensitive, no sequence of events changes the step, the page
  or these sensitivities, and in the Benchmark wizard no sequence of events leaves
  step 5 whatever the page and the buttons are.
\<close>

lemma result_step_is_final:
  "(current_step (raid_fire w e r) = 5 \<and> current_step r \<noteq> 5 \<longrightarrow>
      visible_child (raid_fire w e r) = ''result'' \<and>
      \<not> back_sensitive (raid_fire w e r) \<and> \<not> next_sensitive (raid_fire w e r)) \<and>
   (current_step r = 5 \<and> visible_child r = ''result'' \<and> \<not> back_sensitive r \<and> \<not> next_sensitive r \<longrightarrow>
      current_step (run_events raid_fire evs r) = 5 \<and>
      visible_child (run_events raid_fire evs r) = ''result'' \<and>
      \<not> back_sensitive (run_events raid_fire evs r) \<and>
      \<not> next_sensitive (run_events raid_fire evs r)) \<and>
   (current_step (bcache_fire w e b) = 6 \<and> current_step b \<noteq> 6 \<longrightarrow>
      visible_child (bcache_fire w e b) = ''result'' \<and>
      \<not> back_sensitive (bcache_fire w e b) \<and> \<not> next_sensitive (bcache_fire w e b)) \<and>
   (current_step b = 6 \<and> visible_child b = ''result'' \<and> \<not> back_sensitive b \<and> \<not> next_sensitive b \<longrightarrow>
      current_step (run_events bcache_fire evs b) = 6 \<and>
      visible_child (run_events bcache_fire evs b) = ''result'' \<and>
      \<not> back_sensitive (run_events bcache_fire evs b) \<and>
      \<not> next_sensitive (run_events bcache_fire evs b)) \<and>
   (current_step (fstab_fire w e f) = 7 \<and> current_step f \<noteq> 7 \<longrightarrow>
      visible_child (fstab_fire w e f) = ''done'' \<and>
      \<not> back_sensitive (fstab_fire w e f) \<and> \<not> next_sensitive (fstab_fire w e f)) \<and>
   (current_step f = 7 \<and> visible_child f = ''done'' \<and> \<not> back_sensitive f \<and> \<not> next_sensitive f \<longrightarrow>
      current_step (run_events fstab_fire evs f) = 7 \<and>
      visible_child (run_events fstab_fire evs f) = ''done'' \<and>
      \<not> back_sensitive (run_events fstab_fire evs f) \<and>
      \<not> next_sensitive (run_events fstab_fire evs f)) \<and>
   (current_step (benchmark_fire w e m) = 5 \<and> current_step m \<noteq> 5 \<and>
    history w = JArr xs \<and> list_all has_row_keys xs \<longrightarrow>
      visible_child (benchmark_fire w e m) = ''result'' \<and>
      \<not> back_sensitive (benchmark_fire w e m) \<and> \<not> next_sensitive (benchmark_fire w e m)) \<and>
   (current_step m = 5 \<and> visible_child m = ''result'' \<and> \<not> back_sensitive m \<and> \<not> next_sensitive m \<longrightarrow>
      current_step (run_events benchmark_fire evs m) = 5 \<and>
      visible_child (run_events benchmark_fire evs m) = ''result'' \<and>
      \<not> back_sensitive (run_events benchmark_fire evs m) \<and>
      \<not> next_sensitive (run_events benchmark_fire evs m)) \<and>
   (current_step (smart_fire w e s) = 3 \<and> current_step s \<noteq> 3 \<longrightarrow>
      visible_child (smart_fire w e s) = ''result'' \<and>
      \<not> back_sensitive (smart_fire w e s) \<and> \<not> next_sensitive (smart_fire w e s)) \<and>
   (current_step s = 3 \<and> visible_child s = ''result'' \<and> \<not> back_sensitive s \<and> \<not> next_sensitive s \<longrightarrow>
      current_step (run_events smart_fire evs s) = 3 \<and>
      visible_child (run_events smart_fire evs s) = ''result'' \<and>
      \<not> back_sensitive (run_events smart_fire evs s) \<and>
      \<not> next_sensitive (run_events smart_fire evs s)) \<and>
   (current_step m = 5 \<longrightarrow> current_step (run_events benchmark_fire evs m) = 5)"
proof -
  have r1: "current_step (raid_fire w e r) = 5 \<and> current_step r \<noteq> 5 \<longrightarrow>
      visible_child (raid_fire w e r) = ''result'' \<and>
      \<not> back_sensitive (raid_fire w e r) \<and> \<not> next_sensitive (raid_fire w e r)"
  proof (rule impI, elim conjE)
    assume a: "current_step (raid_fire w e r) = 5" and b: "current_step r \<noteq> 5"
    show "visible_child (raid_fire w e r) = ''result'' \<and>
      \<not> back_sensitive (raid_fire w e r) \<and> \<not> next_sensitive (raid_fire w e r)"
      by (rule raid_final_entry [OF a b])
  qed
  have r2: "current_step r = 5 \<and> visible_child r = ''result'' \<and> \<not> back_sensitive r \<and> \<not> next_sensitive r \<longrightarrow>
      current_step (run_events raid_fire evs r) = 5 \<and>
      visible_child (run_events raid_fire evs r) = ''result'' \<and>
      \<not> back_sensitive (run_events raid_fire evs r) \<and>
      \<not> next_sensitive (run_events raid_fire evs r)"
    by (rule impI, rule run_events_invariant [where fire = raid_fire and P = "\<lambda>x. current_step x = 5 \<and> visible_child x = ''result'' \<and> \<not> back_sensitive x \<and> \<not> next_sensitive x"], rule raid_final_fire)
  have b1: "current_step (bcache_fire w e b) = 6 \<and> current_step b \<noteq> 6 \<longrightarrow>
      visible_child (bcache_fire w e b) = ''result'' \<and>
      \<not> back_sensitive (bcache_fire w e b) \<and> \<not> next_sensitive (bcache_fire w e b)"
  proof (rule impI, elim conjE)
    assume a: "current_step (bcache_fire w e b) = 6" and b: "current_step b \<noteq> 6"
    show "visible_child (bcache_fire w e b) = ''result'' \<and>
      \<not> back_sensitive (bcache_fire w e b) \<and> \<not> next_sensitive (bcache_fire w e b)"
      by (rule bcache_final_entry [OF a b])
  qed
  have b2: "current_step b = 6 \<and> visible_child b = ''result'' \<and> \<not> back_sensitive b \<and> \<not> next_sensitive b \<longrightarrow>
      current_step (run_events bcache_fire evs b) = 6 \<and>
      visible_child (run_events bcache_fire evs b) = ''result'' \<and>
      \<not> back_sensitive (run_events bcache_fire evs b) \<and>
      \<not> next_sensitive (run_events bcache_fire evs b)"
    by (rule impI, rule run_events_invariant [where fire = bcache_fire and P = "\<lambda>x. current_step x = 6 \<and> visible_child x = ''result'' \<and> \<not> back_sensitive x \<and> \<not> next_sensitive x"], rule bcache_final_fire)
  have f1: "current_step (fstab_fire w e f) = 7 \<and> current_step f \<noteq> 7 \<longrightarrow>
      visible_child (fstab_fire w e f) = ''done'' \<and>
      \<not> back_sensitive (fstab_fire w e f) \<and> \<not> next_sensitive (fstab_fire w e f)"
  proof (rule impI, elim conjE)
    assume a: "current_step (fstab_fire w e f) = 7" and b: "current_step f \<noteq> 7"
    show "visible_child (fstab_fire w e f) = ''done'' \<and>
      \<not> back_sensitive (fstab_fire w e f) \<and> \<not> next_sensitive (fstab_fire w e f)"
      by (rule fstab_final_entry [OF a b])
  qed
  have f2: "current_step f = 7 \<and> visible_child f = ''done'' \<and> \<not> back_sensitive f \<and> \<not> next_sensitive f \<longrightarrow>
      current_step (run_events fstab_fire evs f) = 7 \<and>
      visible_child (run_events fstab_fire evs f) = ''done'' \<and>
      \<not> back_sensitive (run_events fstab_fire evs f) \<and>
      \<not> next_sensitive (run_events fstab_fire evs f)"
    by (rule impI, rule run_events_invariant [where fire = fstab_fire and P = "\<lambda>x. current_step x = 7 \<and> visible_child x = ''done'' \<and> \<not> back_sensitive x \<and> \<not> next_sensitive x"], rule fstab_final_fire)
  have m1: "current_step (benchmark_fire w e m) = 5 \<and> current_step m \<noteq> 5 \<and>
      history w = JArr xs \<and> list_all has_row_keys xs \<longrightarrow>
      visible_child (benchmark_fire w e m) = ''result'' \<and>
      \<not> back_sensitive (benchmark_fire w e m) \<and> \<not> next_sensitive (benchmark_fire w e m)"
  proof (rule impI, elim conjE)
    assume a: "current_step (benchmark_fire w e m) = 5" and b: "current_step m \<noteq> 5"
      and h: "history w = JArr xs" "list_all has_row_keys xs"
    show "visible_child (benchmark_fire w e m) = ''result'' \<and>
      \<not> back_sensitive (benchmark_fire w e m) \<and> \<not> next_sensitive (benchmark_fire w e m)"
      by (rule benchmark_final_entry [OF h a b])
  qed
  have m3: "current_step m = 5 \<longrightarrow> current_step (run_events benchmark_fire evs m) = 5"
    by (rule impI, rule run_events_invariant [where fire = benchmark_fire and P = "\<lambda>x. current_step x = 5"], rule benchmark_step_fire)
  have m2: "current_step m = 5 \<and> visible_child m = ''result'' \<and> \<not> back_sensitive m \<and> \<not> next_sensitive m \<longrightarrow>
      current_step (run_events benchmark_fire evs m) = 5 \<and>
      visible_child (run_events benchmark_fire evs m) = ''result'' \<and>
      \<not> back_sensitive (run_events benchmark_fire evs m) \<and>
      \<not> next_sensitive (run_events benchmark_fire evs m)"
    by (rule impI, rule run_events_invariant [where fire = benchmark_fire and P = "\<lambda>x. current_step x = 5 \<and> visible_child x = ''result'' \<and> \<not> back_sensitive x \<and> \<not> next_sensitive x"], rule benchmark_final_fire)
  have s1: "current_step (smart_fire w e s) = 3 \<and> current_step s \<noteq> 3 \<longrightarrow>
      visible_child (smart_fire w e s) = ''result'' \<and>
      \<not> back_sensitive (smart_fire w e s) \<and> \<not> next_sensitive (smart_fire w e s)"
  proof (rule impI, elim conjE)
    assume a: "current_step (smart_fire w e s) = 3" and b: "current_step s \<noteq> 3"
    show "visible_child (smart_fire w e s) = ''result'' \<and>
      \<not> back_sensitive (smart_fire w e s) \<and> \<not> next_sensitive (smart_fire w e s)"
      by (rule smart_final_entry [OF a b])
  qed
  have s2: "current_step s = 3 \<and> visible_child s = ''result'' \<and> \<not> back_sensitive s \<and> \<not> next_sensitive s \<longrightarrow>
      current_step (run_events smart_fire evs s) = 3 \<and>
      visible_child (run_events smart_fire evs s) = ''result'' \<and>
      \<not> back_sensitive (run_events smart_fire evs s) \<and>
      \<not> next_sensitive (run_events smart_fire evs s)"
    by (rule impI, rule run_events_invariant [where fire = smart_fire and P = "\<lambda>x. current_step x = 3 \<and> visible_child x = ''result'' \<and> \<not> back_sensitive x \<and> \<not> next_sensitive x"], rule smart_final_fire)
  show ?thesis
    by (intro conjI) (rule r1, rule r2, rule b1, rule b2, rule f1, rule f2, rule m1, rule m2,
        rule s1, rule s2, rule m3)
qed

theorem next_blocked_while_gate_false_witness:
  "snd (raid_on_next sample_world
          ((raid_new sample_world)\<lparr>current_step := 2, raid_drive_list_selected := [''/dev/sdb'']\<rparr>))
     = (raid_new sample_world)\<lparr>current_step := 2, raid_drive_list_selected := [''/dev/sdb'']\<rparr> \<and>
   snd (bcache_on_next sample_world
          ((bcache_new sample_world)\<lparr>current_step := 4, selected_backing := Some ''/dev/sdb''\<rparr>))
     = (bcache_new sample_world)\<lparr>current_step := 4, selected_backing := Some ''/dev/sdb''\<rparr> \<and>
   snd (fstab_on_next sample_world
          ((fstab_new sample_world)\<lparr>current_step := 2, mp_entry := ''mnt/data''\<rparr>))
     = (fstab_new sample_world)\<lparr>current_step := 2, mp_entry := ''mnt/data''\<rparr>"
proof -
  let ?r = "(raid_new sample_world)\<lparr>current_step := 2, raid_drive_list_selected := [''/dev/sdb'']\<rparr>"
  let ?b = "(bcache_new sample_world)\<lparr>current_step := 4, selected_backing := Some ''/dev/sdb''\<rparr>"
  let ?f = "(fstab_new sample_world)\<lparr>current_step := 2, mp_entry := ''mnt/data''\<rparr>"
  note th = next_blocked_while_gate_false [where r = ?r and b = ?b and f = ?f and w = sample_world]
  have hr: "current_step ?r = 2 \<and> length (raid_drive_list_selected ?r) \<noteq> 2"
    by simp
  have hb: "current_step ?b = 4 \<and> (\<not> backing_wiped ?b
              \<or> (\<exists>d. selected_cache ?b = Some d \<and> d \<noteq> [] \<and> \<not> cache_wiped ?b))"
    by (simp add: bcache_new_def bcache_show_step_def)
  have s: "\<not> startswith (strip ''mnt/data'') ''/''" by code_simp
  have hf: "current_step ?f = 2 \<and> \<not> startswith (strip (mp_entry ?f)) ''/''"
    using s by simp
  from th [THEN conjunct2, THEN conjunct1, THEN mp, OF hr, THEN conjunct1]
    th [THEN conjunct2, THEN conjunct2, THEN conjunct2, THEN conjunct2, THEN conjunct2,
        THEN conjunct1, THEN mp, OF hb, THEN conjunct1]
    th [THEN conjunct2, THEN conjunct2, THEN conjunct2, THEN conjunct2, THEN conjunct2,
        THEN conjunct2, THEN conjunct2, THEN conjunct2, THEN conjunct1, THEN mp, OF hf,
        THEN conjunct1]
  show ?thesis by (intro conjI)
qed

theorem completion_flags_reset_on_entry_witness:
  "\<not> drive1_wiped
       (raid_fire sample_world Next
          ((raid_new sample_world)
             \<lparr>current_step := 2, drive1_wiped := True, drive2_wiped := True,
              raid_drive_list_selected := [''/dev/sdb'', ''/dev/sdc'']\<rparr>)) \<and>
   \<not> backing_wiped
       (bcache_fire sample_world Next
          ((bcache_new sample_world)\<lparr>current_step := 3, backing_wiped := True\<rparr>)) \<and>
   \<not> format_done
       (fstab_fire sample_world Next
          ((fstab_new sample_world)
             \<lparr>current_step := 1, format_done := True,
              fstab_drive_list_selected := Some ''/dev/bcache0''\<rparr>))"
proof -
  let ?r = "(raid_new sample_world)
             \<lparr>current_step := 2, drive1_wiped := True, drive2_wiped := True,
              raid_drive_list_selected := [''/dev/sdb'', ''/dev/sdc'']\<rparr>"
  let ?b = "(bcache_new sample_world)\<lparr>current_step := 3, backing_wiped := True\<rparr>"
  let ?f = "(fstab_new sample_world)
             \<lparr>current_step := 1, format_done := True,
              fstab_drive_list_selected := Some ''/dev/bcache0''\<rparr>"
  note th = completion_flags_reset_on_entry
      [where r = ?r and b = ?b and f = ?f and w = sample_world and e = Next and w' = sample_world]
  have nr: "next_sensitive ?r" by (simp add: raid_new_def raid_show_step_def)
  have hr: "current_step (raid_fire sample_world Next ?r) = 3 \<and> current_step ?r \<noteq> 3"
    using nr by (simp add: raid_fire_def raid_on_next_def)
  have nb: "next_sensitive ?b \<and> \<not> backing_needs_detach ?b \<and> \<not> cache_needs_detach ?b"
    by (simp add: bcache_new_def bcache_show_step_def)
  have hb: "current_step (bcache_fire sample_world Next ?b) = 4 \<and> current_step ?b \<noteq> 4"
    using nb by (simp add: bcache_fire_def bcache_on_next_def)
  have p: "startswith ''/dev/bcache0'' ''/dev/bcache''" and e: "strip [] = []"
    by code_simp+
  have nf: "next_sensitive ?f" by (simp add: fstab_new_def fstab_show_step_def)
  have hf: "current_step (fstab_fire sample_world Next ?f) = 3 / 2 \<and> current_step ?f \<noteq> 3 / 2"
    using p e nf by (simp add: fstab_fire_def fstab_on_next_def sample_world_def Let_def)
  from th [THEN conjunct1, THEN mp, OF hr, THEN conjunct1]
    th [THEN conjunct2, THEN conjunct1, THEN mp, OF hb, THEN conjunct1]
    th [THEN conjunct2, THEN conjunct2, THEN mp, OF hf, THEN conjunct1]
  show ?thesis by (intro conjI)
qed

lemma result_step_is_final_example:
  "current_step
     (run_events raid_fire
        [(sample_world, Back), (sample_world, Next), (sample_world, Click ''wipe_drive1_btn''),
         (sample_world, Deliver True ''created'')]
        (raid_show_step sample_world 5 (raid_new sample_world))) = 5 \<and>
   current_step
     (run_events smart_fire [(sample_world, Back), (sample_world, Deliver False ''failed'')]
        (smart_show_step sample_world 3 (smart_new sample_world))) = 3 \<and>
   \<not> next_sensitive
       (raid_fire sample_world Next ((raid_new sample_world)\<lparr>current_step := 4\<rparr>))"
proof -
  let ?r = "raid_show_step sample_world 5 (raid_new sample_world)"
  let ?s = "smart_show_step sample_world 3 (smart_new sample_world)"
  let ?r4 = "(raid_new sample_world)\<lparr>current_step := 4\<rparr>"
  let ?evr = "[(sample_world, Back), (sample_world, Next), (sample_world, Click ''wipe_drive1_btn''),
         (sample_world, Deliver True ''created'')]"
  let ?evs = "[(sample_world, Back), (sample_world, Deliver False ''failed'')]"
  note t1 = result_step_is_final [where r = ?r and evs = ?evr]
  note t2 = result_step_is_final [where s = ?s and evs = ?evs]
  note t3 = result_step_is_final [where r = ?r4 and w = sample_world and e = Next]
  have hr: "current_step ?r = 5 \<and> visible_child ?r = ''result'' \<and> \<not> back_sensitive ?r
            \<and> \<not> next_sensitive ?r"
    by (simp add: raid_show_step_def)
  have hs: "current_step ?s = 3 \<and> visible_child ?s = ''result'' \<and> \<not> back_sensitive ?s
            \<and> \<not> next_sensitive ?s"
    by (simp add: smart_show_step_def)
  have n4: "next_sensitive ?r4" by (simp add: raid_new_def raid_show_step_def)
  have h4: "current_step (raid_fire sample_world Next ?r4) = 5 \<and> current_step ?r4 \<noteq> 5"
    using n4 by (simp add: raid_fire_def raid_on_next_def)
  from t1 [THEN conjunct2, THEN conjunct1, THEN mp, OF hr, THEN conjunct1]
    t2 [THEN conjunct2, THEN conjunct2, THEN conjunct2, THEN conjunct2, THEN conjunct2,
        THEN conjunct2, THEN conjunct2, THEN conjunct2, THEN conjunct2, THEN conjunct1,
        THEN mp, OF hs, THEN conjunct1]
    t3 [THEN conjunct1, THEN mp, OF h4, THEN conjunct2, THEN conjunct2]
  show ?thesis by (intro conjI)
qed

text \<open>
  C8. Once the last step has been entered, Back and Next are to be not sensitive. The
  Benchmark wizard calls \<open>_populate_results\<close> before it shows the result page and
  makes the two buttons insensitive. After the session \<open>benchmark_session\<close> on the
  sample system it is at step 5 with the result page shown and both buttons
  insensitive; on \<open>stale_history\<close>, where the row of the old entry raises KeyError, it
  is at step 5 with the Review page still shown and Back and Next still sensitive.
\<close>

theorem benchmark_result_step_keeps_review:
  "current_step (run_events benchmark_fire (benchmark_session sample_world)
                   (benchmark_new sample_world)) = 5 \<and>
   visible_child (run_events benchmark_fire (benchmark_session sample_world)
                    (benchmark_new sample_world)) = ''result'' \<and>
   \<not> back_sensitive (run_events benchmark_fire (benchmark_session sample_world)
                        (benchmark_new sample_world)) \<and>
   \<not> next_sensitive (run_events benchmark_fire (benchmark_session sample_world)
                        (benchmark_new sample_world)) \<and>
   current_step (run_events benchmark_fire (benchmark_session stale_history)
                   (benchmark_new stale_history)) = 5 \<and>
   visible_child (run_events benchmark_fire (benchmark_session stale_history)
                    (benchmark_new stale_history)) = ''review'' \<and>
   back_sensitive (run_events benchmark_fire (benchmark_session stale_history)
                     (benchmark_new stale_history)) \<and>
   next_sensitive (run_events benchmark_fire (benchmark_session stale_history)
                     (benchmark_new stale_history))"
  by code_simp

theorem fstab_format_step_and_entry_witness:
  "current_step
     (snd (fstab_on_next sample_world
             ((fstab_new sample_world)
                \<lparr>current_step := 1, fstab_drive_list_selected := Some ''/dev/bcache0''\<rparr>)))
     = 3 / 2 \<and>
   fstab_line (Some (''1234-ABCD'' @ [CHR 0x0A]))
     ((fstab_new sample_world)
        \<lparr>fstab_selected_drive := Some ''/dev/bcache0'', mount_point := Some ''/mnt/data'',
         fs_type := Some ''ext4'', mount_options := Some ''defaults''\<rparr>)
     = ''UUID=1234-ABCD'' @ [CHR 0x09] @ ''/mnt/data'' @ [CHR 0x09] @ ''ext4'' @ [CHR 0x09]
       @ ''defaults'' @ [CHR 0x09] @ ''0 2'' \<and>
   fstab_line (Some [])
     ((fstab_new sample_world)
        \<lparr>fstab_selected_drive := Some ''/dev/bcache0'', mount_point := Some ''/mnt/data'',
         fs_type := Some ''ext4'', mount_options := Some ''defaults''\<rparr>)
     = ''/dev/bcache0'' @ [CHR 0x09] @ ''/mnt/data'' @ [CHR 0x09] @ ''ext4'' @ [CHR 0x09]
       @ ''defaults'' @ [CHR 0x09] @ ''0 2''"
proof -
  let ?f1 = "(fstab_new sample_world)
                \<lparr>current_step := 1, fstab_drive_list_selected := Some ''/dev/bcache0''\<rparr>"
  let ?f6 = "(fstab_new sample_world)
        \<lparr>fstab_selected_drive := Some ''/dev/bcache0'', mount_point := Some ''/mnt/data'',
         fs_type := Some ''ext4'', mount_options := Some ''defaults''\<rparr>"
  note t1 = fstab_format_step_and_entry
      [where f = ?f1 and w = sample_world and dev = "''/dev/bcache0''" and reported = "[]"]
  note t2 = fstab_format_step_and_entry
      [where f = ?f6 and q = "Some (''1234-ABCD'' @ [CHR 0x0A])"
         and resolved = "''1234-ABCD'' @ [CHR 0x0A]"]
  note t3 = fstab_format_step_and_entry [where f = ?f6 and q = "Some []" and resolved = "[]"]
  have p: "startswith ''/dev/bcache0'' ''/dev/bcache''" and e: "strip [] = []"
    and u: "strip (''1234-ABCD'' @ [CHR 0x0A]) = ''1234-ABCD''"
    by code_simp+
  have h1: "current_step ?f1 = 1 \<and> fstab_drive_list_selected ?f1 = Some ''/dev/bcache0''
      \<and> startswith ''/dev/bcache0'' ''/dev/bcache''
      \<and> fstype_query sample_world = Some [] \<and> strip [] = []"
    using p e by (simp add: sample_world_def)
  have h2: "Some (''1234-ABCD'' @ [CHR 0x0A]) = Some (''1234-ABCD'' @ [CHR 0x0A])
      \<and> strip (''1234-ABCD'' @ [CHR 0x0A]) \<noteq> []"
    using u by simp
  have h3: "Some [] = None \<or> (Some [] = Some [] \<and> strip [] = [])"
    using e by simp
  have a: "current_step (snd (fstab_on_next sample_world ?f1)) = 3 / 2"
    by (rule t1 [THEN conjunct1, THEN mp, OF h1, THEN conjunct1])
  have b: "fstab_line (Some (''1234-ABCD'' @ [CHR 0x0A])) ?f6
     = ''UUID=1234-ABCD'' @ [CHR 0x09] @ ''/mnt/data'' @ [CHR 0x09] @ ''ext4'' @ [CHR 0x09]
       @ ''defaults'' @ [CHR 0x09] @ ''0 2''"
    using t2 [THEN conjunct2, THEN conjunct2, THEN conjunct2, THEN conjunct2, THEN conjunct2,
        THEN conjunct2, THEN conjunct1, THEN mp, OF h2] u
    by (simp add: format_attr_def)
  have c: "fstab_line (Some []) ?f6
     = ''/dev/bcache0'' @ [CHR 0x09] @ ''/mnt/data'' @ [CHR 0x09] @ ''ext4'' @ [CHR 0x09]
       @ ''defaults'' @ [CHR 0x09] @ ''0 2''"
    using t3 [THEN conjunct2, THEN conjunct2, THEN conjunct2, THEN conjunct2, THEN conjunct2,
        THEN conjunct2, THEN conjunct2, THEN mp, OF h3]
    by (simp add: format_attr_def)
  from a b c show ?thesis by (intro conjI)
qed

end
